theory Spec2Isabelle
  imports Complex_Main "HOL-Library.Word"
begin

section \<open>The path tracer example: scene construction and the frame loop\<close>

text \<open>
  A shallow embedding of \<^verbatim>\<open>examples/pathtracer/pathtracer.py\<close>. Python objects are
  records, Python exceptions are values of \<open>error\<close>, every call on the device appends an
  event to the device's command log, and a loop is a recursive function.

  Numbers: Python \<open>int\<close> is \<open>int\<close>; counts that come from array shapes are \<open>nat\<close>;
  \<open>np.uint32\<close> is \<open>32 word\<close>. A \<open>float\<close> is modelled as a real number: rounding is
  not modelled, and no statement below depends on the value of a floating-point result.
  Arrays are modelled at the shape the code itself fixes: a vertex row is a list of floats
  (position, normal, uv: eight of them in every mesh the code creates, the stride of 32
  bytes of \<open>build_blas\<close>), an index row is a triple of \<open>uint32\<close> (\<open>triangle_count\<close> is the
  number of rows and \<open>index_count\<close> three times that).
\<close>

subsection \<open>Errors\<close>

datatype error =
  ValueError
  | AssertionError
  | StructError
  | IndexError
  | ZeroDivisionError
  | AttributeError

subsection \<open>Vectors and matrices\<close>

type_synonym float = real

datatype float2 = Float2 (fx: float) (fy: float)

datatype float3 = Float3 (vx: float) (vy: float) (vz: float)

type_synonym float4x4 = "float list list"

type_synonym float3x4 = "float list list"

definition identity4x4 :: float4x4 where
  "identity4x4 = [[1, 0, 0, 0], [0, 1, 0, 0], [0, 0, 1, 0], [0, 0, 0, 1]]"

text \<open>The vector functions of \<open>spy.math\<close> that the code calls, with their mathematical
  meaning.\<close>

definition add3 :: "float3 \<Rightarrow> float3 \<Rightarrow> float3" where
  "add3 a b = Float3 (vx a + vx b) (vy a + vy b) (vz a + vz b)"

definition sub3 :: "float3 \<Rightarrow> float3 \<Rightarrow> float3" where
  "sub3 a b = Float3 (vx a - vx b) (vy a - vy b) (vz a - vz b)"

definition scale3 :: "float3 \<Rightarrow> float \<Rightarrow> float3" where
  "scale3 a k = Float3 (vx a * k) (vy a * k) (vz a * k)"

definition cross :: "float3 \<Rightarrow> float3 \<Rightarrow> float3" where
  "cross a b = Float3 (vy a * vz b - vz a * vy b) (vz a * vx b - vx a * vz b)
     (vx a * vy b - vy a * vx b)"

definition length3 :: "float3 \<Rightarrow> float" where
  "length3 a = sqrt (vx a * vx a + vy a * vy a + vz a * vz a)"

definition length2 :: "float2 \<Rightarrow> float" where
  "length2 a = sqrt (fx a * fx a + fy a * fy a)"

definition normalize3 :: "float3 \<Rightarrow> float3" where
  "normalize3 a = scale3 a (1 / length3 a)"

definition radians :: "float \<Rightarrow> float" where
  "radians d = d * pi / 180"

subsection \<open>Camera\<close>

record camera =
  width :: nat
  height :: nat
  aspect_ratio :: float
  position :: float3
  target :: float3
  up :: float3
  fov :: float
  fwd :: float3
  right :: float3
  image_u :: float3
  image_v :: float3
  image_w :: float3

text \<open>\<open>Camera.recompute\<close>. \<open>float(self.width) / float(self.height)\<close> raises
  \<open>ZeroDivisionError\<close> when the height is 0, before any field is written.\<close>

definition recompute :: "camera \<Rightarrow> error + camera" where
  "recompute c =
     (if height c = 0 then Inl ZeroDivisionError
      else
        let c = c\<lparr>aspect_ratio := real (width c) / real (height c)\<rparr>;
            c = c\<lparr>fwd := normalize3 (sub3 (target c) (position c))\<rparr>;
            c = c\<lparr>right := normalize3 (cross (fwd c) (up c))\<rparr>;
            c = c\<lparr>up := normalize3 (cross (right c) (fwd c))\<rparr>;
            fov_r = radians (fov c);
            c = c\<lparr>image_u := scale3 (scale3 (right c) (tan (fov_r * 0.5))) (aspect_ratio c)\<rparr>;
            c = c\<lparr>image_v := scale3 (up c) (tan (fov_r * 0.5))\<rparr>;
            c = c\<lparr>image_w := fwd c\<rparr>
        in Inr c)"

text \<open>\<open>Camera.__init__\<close>: the fields before the first \<open>recompute\<close>. The derived fields do
  not exist yet in Python; here they hold zero vectors until \<open>recompute\<close> writes them.\<close>

definition Camera_fields :: camera where
  "Camera_fields = \<lparr>width = 100, height = 100, aspect_ratio = 1.0,
     position = Float3 1 1 1, target = Float3 0 0 0, up = Float3 0 1 0, fov = 70.0,
     fwd = Float3 0 0 0, right = Float3 0 0 0,
     image_u = Float3 0 0 0, image_v = Float3 0 0 0, image_w = Float3 0 0 0\<rparr>"

text \<open>\<open>Camera()\<close>: the height is 100, so its \<open>recompute\<close> returns.\<close>

definition Camera :: camera where
  "Camera = projr (recompute Camera_fields)"

subsection \<open>CameraController\<close>

datatype key_code =
  key_a | key_d | key_e | key_q | key_w | key_s
  | key_left_shift | key_escape | key_f1 | key_f2 | key_other

datatype keyboard_event_type = key_press | key_release | key_repeat | key_input

datatype mouse_event_type = button_down | button_up | mouse_move | mouse_scroll

datatype mouse_button = button_left | button_middle | button_right

record keyboard_event =
  kb_type :: keyboard_event_type
  kb_key :: key_code

record mouse_event =
  ms_type :: mouse_event_type
  ms_button :: mouse_button
  ms_pos :: float2

definition MOVE_KEYS :: "(key_code \<times> float3) list" where
  "MOVE_KEYS =
     [(key_a, Float3 (-1) 0 0),
      (key_d, Float3 1 0 0),
      (key_e, Float3 0 1 0),
      (key_q, Float3 0 (-1) 0),
      (key_w, Float3 0 0 1),
      (key_s, Float3 0 0 (-1))]"

definition MOVE_SHIFT_FACTOR :: float where
  "MOVE_SHIFT_FACTOR = 10.0"

text \<open>The controller holds a reference to the camera; here the camera is passed to the
  methods that use it and returned by the one that writes it. \<open>key_state\<close> is the
  dictionary over the keys of \<open>MOVE_KEYS\<close>.\<close>

record camera_controller =
  mouse_down :: bool
  mouse_pos :: float2
  key_state :: "key_code \<Rightarrow> bool"
  shift_down :: bool
  move_delta :: float3
  rotate_delta :: float2
  move_speed :: float
  rotate_speed :: float

definition CameraController :: camera_controller where
  "CameraController =
     \<lparr>mouse_down = False, mouse_pos = Float2 0 0, key_state = (\<lambda>k. False),
      shift_down = False, move_delta = Float3 0 0 0, rotate_delta = Float2 0 0,
      move_speed = 1.0, rotate_speed = 0.002\<rparr>"

definition atan2 :: "float \<Rightarrow> float \<Rightarrow> float" where
  "atan2 b a =
     (if a > 0 then arctan (b / a)
      else if a < 0 then (if b \<ge> 0 then arctan (b / a) + pi else arctan (b / a) - pi)
      else if b > 0 then pi / 2
      else if b < 0 then - (pi / 2)
      else 0)"

text \<open>\<open>CameraController.update\<close>: the result is \<open>changed\<close>, the controller and the
  camera. \<open>changed\<close> is true exactly when a movement or a rotation delta is applied.\<close>

definition update ::
    "float \<Rightarrow> camera_controller \<Rightarrow> camera \<Rightarrow> error + (bool \<times> camera_controller \<times> camera)" where
  "update dt ctl cam =
     (let changed = False;
          pos = position cam;
          f = fwd cam;
          u = up cam;
          r = right cam;
          (pos, changed) =
            (if length3 (move_delta ctl) > 0 then
               let off = scale3 r (vx (move_delta ctl));
                   off = add3 off (scale3 u (vy (move_delta ctl)));
                   off = add3 off (scale3 f (vz (move_delta ctl)));
                   factor = (if shift_down ctl then MOVE_SHIFT_FACTOR else 1.0);
                   off = scale3 off (move_speed ctl * factor * dt)
               in (add3 pos off, True)
             else (pos, changed));
          (f, ctl, changed) =
            (if length2 (rotate_delta ctl) > 0 then
               let yaw = atan2 (vz f) (vx f);
                   pitch = arcsin (vy f);
                   yaw = yaw + rotate_speed ctl * fx (rotate_delta ctl);
                   pitch = pitch - rotate_speed ctl * fy (rotate_delta ctl);
                   f = Float3 (cos yaw * cos pitch) (sin pitch) (sin yaw * cos pitch)
               in (f, ctl\<lparr>rotate_delta := Float2 0 0\<rparr>, True)
             else (f, ctl, changed))
      in if changed then
           (case recompute (cam\<lparr>position := pos, target := add3 pos f, up := Float3 0 1 0\<rparr>) of
              Inl e \<Rightarrow> Inl e
            | Inr cam' \<Rightarrow> Inr (changed, ctl, cam'))
         else Inr (changed, ctl, cam))"

definition is_key_press :: "keyboard_event \<Rightarrow> bool" where
  "is_key_press ev = (kb_type ev = key_press)"

definition is_key_release :: "keyboard_event \<Rightarrow> bool" where
  "is_key_release ev = (kb_type ev = key_release)"

definition on_keyboard_event :: "keyboard_event \<Rightarrow> camera_controller \<Rightarrow> camera_controller" where
  "on_keyboard_event ev ctl =
     (let ctl =
            (if is_key_press ev \<or> is_key_release ev then
               let down = is_key_press ev
               in if kb_key ev \<in> set (map fst MOVE_KEYS)
                  then ctl\<lparr>key_state := (key_state ctl)(kb_key ev := down)\<rparr>
                  else if kb_key ev = key_left_shift then ctl\<lparr>shift_down := down\<rparr>
                  else ctl
             else ctl)
      in ctl\<lparr>move_delta :=
               foldl (\<lambda>acc (k, v). if key_state ctl k then add3 acc v else acc)
                 (Float3 0 0 0) MOVE_KEYS\<rparr>)"

definition on_mouse_event :: "mouse_event \<Rightarrow> camera_controller \<Rightarrow> camera_controller" where
  "on_mouse_event ev ctl =
     (let ctl = ctl\<lparr>rotate_delta := Float2 0 0\<rparr>;
          ctl = (if ms_type ev = button_down \<and> ms_button ev = button_left
                 then ctl\<lparr>mouse_down := True\<rparr> else ctl);
          ctl = (if ms_type ev = button_up \<and> ms_button ev = button_left
                 then ctl\<lparr>mouse_down := False\<rparr> else ctl)
      in if ms_type ev = mouse_move then
           let mouse_delta = Float2 (fx (ms_pos ev) - fx (mouse_pos ctl))
                                    (fy (ms_pos ev) - fy (mouse_pos ctl));
               ctl = (if mouse_down ctl then ctl\<lparr>rotate_delta := mouse_delta\<rparr> else ctl)
           in ctl\<lparr>mouse_pos := ms_pos ev\<rparr>
         else ctl)"

subsection \<open>Material, Mesh, Transform\<close>

record material =
  base_color :: float3

type_synonym vertex = "float list"

type_synonym triangle = "32 word \<times> 32 word \<times> 32 word"

record mesh =
  vertices :: "vertex list"
  indices :: "triangle list"

definition vertex_count :: "mesh \<Rightarrow> nat" where
  "vertex_count m = length (vertices m)"

definition triangle_count :: "mesh \<Rightarrow> nat" where
  "triangle_count m = length (indices m)"

definition index_count :: "mesh \<Rightarrow> nat" where
  "index_count m = triangle_count m * 3"

text \<open>\<open>vertices[:, cols] *= factors\<close>: column \<open>cols ! k\<close> of every row is multiplied by
  \<open>factors ! k\<close>.\<close>

fun scale_columns :: "(nat \<times> float) list \<Rightarrow> vertex \<Rightarrow> vertex" where
  "scale_columns [] row = row"
| "scale_columns ((c, f) # cfs) row = scale_columns cfs (row[c := row ! c * f])"

definition create_quad :: "float2 \<Rightarrow> mesh" where
  "create_quad sz =
     (let vs = [
        [-0.5, 0, -0.5, 0, 1, 0, 0, 0],
        [0.5, 0, -0.5, 0, 1, 0, 1, 0],
        [-0.5, 0, 0.5, 0, 1, 0, 0, 1],
        [0.5, 0, 0.5, 0, 1, 0, 1, 1]];
        vs = map (scale_columns [(0, fx sz), (2, fy sz)]) vs;
        is = [(2, 1, 0), (1, 2, 3)]
      in \<lparr>vertices = vs, indices = is\<rparr>)"

definition create_cube :: "float3 \<Rightarrow> mesh" where
  "create_cube sz =
     (let vs = [
        [-0.5, -0.5, -0.5, 0, -1, 0, 0.0, 0.0],
        [-0.5, -0.5, 0.5, 0, -1, 0, 1.0, 0.0],
        [0.5, -0.5, 0.5, 0, -1, 0, 1.0, 1.0],
        [0.5, -0.5, -0.5, 0, -1, 0, 0.0, 1.0],
        [-0.5, 0.5, 0.5, 0, 1, 0, 0.0, 0.0],
        [-0.5, 0.5, -0.5, 0, 1, 0, 1.0, 0.0],
        [0.5, 0.5, -0.5, 0, 1, 0, 1.0, 1.0],
        [0.5, 0.5, 0.5, 0, 1, 0, 0.0, 1.0],
        [-0.5, 0.5, -0.5, 0, 0, -1, 0.0, 0.0],
        [-0.5, -0.5, -0.5, 0, 0, -1, 1.0, 0.0],
        [0.5, -0.5, -0.5, 0, 0, -1, 1.0, 1.0],
        [0.5, 0.5, -0.5, 0, 0, -1, 0.0, 1.0],
        [0.5, 0.5, 0.5, 0, 0, 1, 0.0, 0.0],
        [0.5, -0.5, 0.5, 0, 0, 1, 1.0, 0.0],
        [-0.5, -0.5, 0.5, 0, 0, 1, 1.0, 1.0],
        [-0.5, 0.5, 0.5, 0, 0, 1, 0.0, 1.0],
        [-0.5, 0.5, 0.5, -1, 0, 0, 0.0, 0.0],
        [-0.5, -0.5, 0.5, -1, 0, 0, 1.0, 0.0],
        [-0.5, -0.5, -0.5, -1, 0, 0, 1.0, 1.0],
        [-0.5, 0.5, -0.5, -1, 0, 0, 0.0, 1.0],
        [0.5, 0.5, -0.5, 1, 0, 0, 0.0, 0.0],
        [0.5, -0.5, -0.5, 1, 0, 0, 1.0, 0.0],
        [0.5, -0.5, 0.5, 1, 0, 0, 1.0, 1.0],
        [0.5, 0.5, 0.5, 1, 0, 0, 0.0, 1.0]];
        vs = map (scale_columns [(0, vx sz), (1, vy sz), (2, vz sz)]) vs;
        is = [
          (0, 2, 1), (0, 3, 2),
          (4, 6, 5), (4, 7, 6),
          (8, 10, 9), (8, 11, 10),
          (12, 14, 13), (12, 15, 14),
          (16, 18, 17), (16, 19, 18),
          (20, 22, 21), (20, 23, 22)]
      in \<lparr>vertices = vs, indices = is\<rparr>)"

record transform =
  translation :: float3
  scaling :: float3
  rotation :: float3
  matrix :: float4x4

definition Transform :: transform where
  "Transform = \<lparr>translation = Float3 0 0 0, scaling = Float3 1 1 1,
     rotation = Float3 0 0 0, matrix = identity4x4\<rparr>"

text \<open>Modelled from the spec: the matrix functions of \<open>spy.math\<close> belong to the library;
  the spec has a transform reduce to a 4\<times>4 affine matrix from its translation, scaling and
  per-axis rotation. Translation matrix, scaling matrix and matrix product have their
  usual meaning for matrices stored by rows that act on column vectors (the translation is
  the fourth column). The rotation matrix of three Euler angles is left as a parameter of
  \<open>update_matrix\<close>.\<close>

definition matrix_from_translation :: "float3 \<Rightarrow> float4x4" where
  "matrix_from_translation v =
     [[1, 0, 0, vx v], [0, 1, 0, vy v], [0, 0, 1, vz v], [0, 0, 0, 1]]"

definition matrix_from_scaling :: "float3 \<Rightarrow> float4x4" where
  "matrix_from_scaling v =
     [[vx v, 0, 0, 0], [0, vy v, 0, 0], [0, 0, vz v, 0], [0, 0, 0, 1]]"

definition dot :: "float list \<Rightarrow> float list \<Rightarrow> float" where
  "dot a b = sum_list (map2 (*) a b)"

definition mul :: "float4x4 \<Rightarrow> float4x4 \<Rightarrow> float4x4" where
  "mul a b = map (\<lambda>row. map (\<lambda>j. dot row (map (\<lambda>r. r ! j) b)) [0, 1, 2, 3]) a"

definition update_matrix :: "(float3 \<Rightarrow> float4x4) \<Rightarrow> transform \<Rightarrow> transform" where
  "update_matrix matrix_from_rotation_xyz t =
     (let T = matrix_from_translation (translation t);
          S = matrix_from_scaling (scaling t);
          R = matrix_from_rotation_xyz (rotation t)
      in t\<lparr>matrix := mul (mul T R) S\<rparr>)"

subsection \<open>Stage\<close>

record stage =
  stage_camera :: camera
  materials :: "material list"
  meshes :: "mesh list"
  transforms :: "transform list"
  instances :: "(int \<times> int \<times> int) list"

definition Stage :: stage where
  "Stage = \<lparr>stage_camera = Camera, materials = [], meshes = [], transforms = [],
     instances = []\<rparr>"

definition add_material :: "material \<Rightarrow> stage \<Rightarrow> int \<times> stage" where
  "add_material m st = (int (length (materials st)), st\<lparr>materials := materials st @ [m]\<rparr>)"

definition add_mesh :: "mesh \<Rightarrow> stage \<Rightarrow> int \<times> stage" where
  "add_mesh m st = (int (length (meshes st)), st\<lparr>meshes := meshes st @ [m]\<rparr>)"

definition add_transform :: "transform \<Rightarrow> stage \<Rightarrow> int \<times> stage" where
  "add_transform t st = (int (length (transforms st)), st\<lparr>transforms := transforms st @ [t]\<rparr>)"

definition add_instance :: "int \<Rightarrow> int \<Rightarrow> int \<Rightarrow> stage \<Rightarrow> int \<times> stage" where
  "add_instance mesh_id material_id transform_id st =
     (int (length (instances st)),
      st\<lparr>instances := instances st @ [(mesh_id, material_id, transform_id)]\<rparr>)"

subsection \<open>The device and its command log\<close>

text \<open>
  The GPU device is seen through the calls the code makes on it. Each call appends one
  event to \<open>trace\<close>, in program order; a call returns its object at once and never fails
  (running out of device memory is not modelled). \<open>device.wait()\<close> is the only blocking
  wait of the code and is the event \<open>Wait\<close>. The sizes a build needs are the device's own
  business: \<open>sizes_of\<close> is a parameter.
\<close>

datatype buffer_data =
  Floats "float list"
  | Words "32 word list"
  | Vertices "vertex list"
  | Triangles "triangle list"
  | Matrices "float4x4 list"
  | Uninitialized nat

record buffer =
  buf_label :: string
  buf_data :: buffer_data

record texture =
  tex_label :: string
  tex_width :: nat
  tex_height :: nat

datatype format = rgb32_float | rgba32_float

datatype index_format = uint16 | uint32

datatype geometry_flags = geometry_none | opaque | no_duplicate_any_hit_invocation

datatype instance_flags = instance_none | triangle_facing_cull_disable | force_opaque

record buffer_offset_pair =
  buffer :: buffer
  offset :: nat

record build_input_triangles =
  vertex_buffers :: "buffer_offset_pair list"
  vertex_format :: format
  bi_vertex_count :: nat
  vertex_stride :: nat
  bi_index_buffer :: buffer_offset_pair
  bi_index_format :: index_format
  bi_index_count :: nat
  flags :: geometry_flags

record instance_record =
  ir_transform :: float3x4
  instance_id :: nat
  instance_mask :: nat
  instance_contribution_to_hit_group_index :: nat
  ir_flags :: instance_flags
  acceleration_structure :: nat

datatype build_input =
  InputTriangles build_input_triangles
  | InputInstances "instance_record option list"

record build_desc =
  inputs :: "build_input list"

record as_sizes =
  scratch_size :: nat
  acceleration_structure_size :: nat

record accel =
  as_label :: string
  handle :: nat
  as_size :: nat

subsection \<open>Scene: descriptors and the flattened form\<close>

record MaterialDesc =
  desc_base_color :: float3

record MeshDesc =
  desc_vertex_count :: nat
  desc_index_count :: nat
  vertex_offset :: nat
  index_offset :: nat

record InstanceDesc =
  mesh_id :: int
  material_id :: int
  transform_id :: int

text \<open>The attributes of a \<open>Scene\<close> before the acceleration structures are built, and the
  finished \<open>Scene\<close>.\<close>

record scene_buffers =
  scene_camera :: camera
  material_descs :: "MaterialDesc list"
  material_descs_buffer :: buffer
  mesh_descs :: "MeshDesc list"
  instance_descs :: "InstanceDesc list"
  vertex_buffer :: buffer
  index_buffer :: buffer
  mesh_descs_buffer :: buffer
  instance_descs_buffer :: buffer
  scene_transforms :: "float4x4 list"
  inverse_transpose_transforms :: "float4x4 list"
  transform_buffer :: buffer
  inverse_transpose_transforms_buffer :: buffer

record scene = scene_buffers +
  blases :: "accel list"
  tlas :: accel

subsection \<open>Commands and events\<close>

record camera_binding =
  b_position :: float3
  b_image_u :: float3
  b_image_v :: float3
  b_image_w :: float3

record scene_binding =
  b_tlas :: accel
  b_material_descs :: buffer
  b_mesh_descs :: buffer
  b_instance_descs :: buffer
  b_vertices :: buffer
  b_indices :: buffer
  b_transforms :: buffer
  b_inverse_transpose_transforms :: buffer
  b_camera :: camera_binding

record trace_bindings =
  g_output :: texture
  g_frame :: nat
  g_scene :: scene_binding

record accumulator_bindings =
  acc_input :: texture
  acc_output :: texture
  acc_accumulator :: texture
  acc_reset :: bool

record tone_mapper_bindings =
  tm_input :: texture
  tm_output :: texture

text \<open>What a command encoder records.\<close>

datatype command =
  BuildAccelerationStructure build_desc accel buffer
  | DispatchRays trace_bindings "nat \<times> nat \<times> nat"
  | DispatchTraceCompute trace_bindings "nat \<times> nat \<times> nat"
  | DispatchAccumulator accumulator_bindings "nat \<times> nat \<times> nat"
  | DispatchToneMapper tone_mapper_bindings "nat \<times> nat \<times> nat"
  | Blit texture texture

text \<open>What the program does to the device, the surface and the instance list, in program
  order.\<close>

datatype event =
  CreateBuffer string
  | CreateTexture string nat nat
  | CreateAccelerationStructure string nat
  | CreateInstanceList nat
  | WriteInstance nat instance_record
  | SubmitCommandBuffer "command list"
  | Wait
  | ConfigureSurface nat nat
  | UnconfigureSurface
  | AcquireNextImage
  | Present
  | LoadProgram string "string list"
  | CreateRayTracingPipeline
  | CreateShaderTable
  | CreateComputeKernel string
  | ShowAsync texture
  | WriteAsync string texture
  | CloseWindow

record device =
  sizes_of :: "build_desc \<Rightarrow> as_sizes"
  trace :: "event list"
  next_handle :: nat

definition emit :: "event \<Rightarrow> device \<Rightarrow> device" where
  "emit e dev = dev\<lparr>trace := trace dev @ [e]\<rparr>"

definition create_buffer :: "string \<Rightarrow> buffer_data \<Rightarrow> device \<Rightarrow> buffer \<times> device" where
  "create_buffer lbl dat dev = (\<lparr>buf_label = lbl, buf_data = dat\<rparr>, emit (CreateBuffer lbl) dev)"

definition create_texture :: "string \<Rightarrow> nat \<Rightarrow> nat \<Rightarrow> device \<Rightarrow> texture \<times> device" where
  "create_texture lbl w h dev =
     (\<lparr>tex_label = lbl, tex_width = w, tex_height = h\<rparr>, emit (CreateTexture lbl w h) dev)"

definition get_acceleration_structure_sizes :: "device \<Rightarrow> build_desc \<Rightarrow> as_sizes" where
  "get_acceleration_structure_sizes dev desc = sizes_of dev desc"

text \<open>Every acceleration structure the device creates gets a handle of its own.\<close>

definition create_acceleration_structure :: "nat \<Rightarrow> string \<Rightarrow> device \<Rightarrow> accel \<times> device" where
  "create_acceleration_structure sz lbl dev =
     (\<lparr>as_label = lbl, handle = next_handle dev, as_size = sz\<rparr>,
      (emit (CreateAccelerationStructure lbl (next_handle dev)) dev)
        \<lparr>next_handle := Suc (next_handle dev)\<rparr>)"

definition create_acceleration_structure_instance_list ::
    "nat \<Rightarrow> device \<Rightarrow> instance_record option list \<times> device" where
  "create_acceleration_structure_instance_list n dev =
     (replicate n None, emit (CreateInstanceList n) dev)"

definition submit_command_buffer :: "command list \<Rightarrow> device \<Rightarrow> device" where
  "submit_command_buffer cmds dev = emit (SubmitCommandBuffer cmds) dev"

definition wait :: "device \<Rightarrow> device" where
  "wait dev = emit Wait dev"

subsection \<open>Python and numpy helpers\<close>

text \<open>A Python list read \<open>xs[i]\<close> with an \<open>int\<close> index: positions \<open>0 .. len - 1\<close> are
  read directly, \<open>-len .. -1\<close> count back from the end, anything else is an
  \<open>IndexError\<close>.\<close>

definition py_index :: "'a list \<Rightarrow> int \<Rightarrow> error + 'a" where
  "py_index xs i =
     (if 0 \<le> i \<and> i < int (length xs) then Inr (xs ! nat i)
      else if i < 0 \<and> - int (length xs) \<le> i then Inr (xs ! nat (int (length xs) + i))
      else Inl IndexError)"

text \<open>\<open>struct.pack("I", v)\<close> raises \<open>struct.error\<close> unless \<open>0 \<le> v < 2^32\<close>; with several
  \<open>I\<close> fields the arguments are converted from left to right.\<close>

definition pack_I :: "int \<Rightarrow> error + 32 word" where
  "pack_I v = (if 0 \<le> v \<and> v < 2 ^ 32 then Inr (word_of_int v) else Inl StructError)"

fun pack_Is :: "int list \<Rightarrow> error + 32 word list" where
  "pack_Is [] = Inr []"
| "pack_Is (v # vs) =
     (case pack_I v of
        Inl e \<Rightarrow> Inl e
      | Inr w \<Rightarrow> (case pack_Is vs of Inl e \<Rightarrow> Inl e | Inr ws \<Rightarrow> Inr (w # ws)))"

text \<open>\<open>b"".join(d.pack() for d in descs)\<close>: the descriptors are packed in list order and the
  first failing \<open>pack\<close> raises.\<close>

fun join_packs :: "('d \<Rightarrow> error + 'w list) \<Rightarrow> 'd list \<Rightarrow> error + 'w list" where
  "join_packs pk [] = Inr []"
| "join_packs pk (d # ds) =
     (case pk d of
        Inl e \<Rightarrow> Inl e
      | Inr ws \<Rightarrow> (case join_packs pk ds of Inl e \<Rightarrow> Inl e | Inr rest \<Rightarrow> Inr (ws @ rest)))"

text \<open>\<open>np.concatenate(arrays, axis=0)\<close> and \<open>np.stack(arrays)\<close> raise \<open>ValueError\<close> on an
  empty list of arrays.\<close>

definition np_concatenate :: "'a list list \<Rightarrow> error + 'a list" where
  "np_concatenate arrays = (if arrays = [] then Inl ValueError else Inr (concat arrays))"

definition np_stack :: "'a list \<Rightarrow> error + 'a list" where
  "np_stack arrays = (if arrays = [] then Inl ValueError else Inr arrays)"

text \<open>Modelled from the spec: the conversion \<open>spy.float3x4(m)\<close> of a \<open>float4x4\<close> belongs
  to the library; the spec calls its result the 3\<times>4 form of the transform. It keeps the
  first three rows (four columns each) of the matrix and drops the fourth row.\<close>

definition to_float3x4 :: "float4x4 \<Rightarrow> float3x4" where
  "to_float3x4 m = map (take 4) (take 3 m)"

subsection \<open>Scene construction\<close>

definition MaterialDesc_pack :: "MaterialDesc \<Rightarrow> float list" where
  "MaterialDesc_pack d =
     [vx (desc_base_color d), vy (desc_base_color d), vz (desc_base_color d)]"

definition MeshDesc_pack :: "MeshDesc \<Rightarrow> error + 32 word list" where
  "MeshDesc_pack d =
     pack_Is [int (desc_vertex_count d), int (desc_index_count d),
              int (vertex_offset d), int (index_offset d)]"

definition InstanceDesc_pack :: "InstanceDesc \<Rightarrow> error + 32 word list" where
  "InstanceDesc_pack d = pack_Is [mesh_id d, material_id d, transform_id d]"

text \<open>The loop \<open>for mesh in stage.meshes\<close> of \<open>Scene.__init__\<close>, with its two running
  counters and the list it appends to. It returns the list and the final counters.\<close>

fun mesh_descs_loop ::
    "mesh list \<Rightarrow> nat \<Rightarrow> nat \<Rightarrow> MeshDesc list \<Rightarrow> MeshDesc list \<times> nat \<times> nat" where
  "mesh_descs_loop [] vcount icount descs = (descs, vcount, icount)"
| "mesh_descs_loop (m # ms) vcount icount descs =
     mesh_descs_loop ms (vcount + vertex_count m) (icount + index_count m)
       (descs @ [\<lparr>desc_vertex_count = vertex_count m, desc_index_count = index_count m,
                   vertex_offset = vcount, index_offset = icount\<rparr>])"

text \<open>\<open>Scene.__init__\<close> up to and including the transform buffers. The inverse of a 4\<times>4
  matrix is the library's (\<open>spy.math.inverse\<close>): the parameter \<open>inv4\<close>.\<close>

definition Scene_prepare ::
    "(float4x4 \<Rightarrow> float4x4) \<Rightarrow> device \<Rightarrow> stage \<Rightarrow> (error + scene_buffers) \<times> device" where
  "Scene_prepare inv4 dev0 stage =
     (let material_descs = map (\<lambda>m. \<lparr>desc_base_color = base_color m\<rparr>) (materials stage);
          material_descs_data = concat (map MaterialDesc_pack material_descs);
          (material_descs_buffer, dev1) =
             create_buffer ''material_descs_buffer'' (Floats material_descs_data) dev0;
          (mesh_descs, vcount, icount) = mesh_descs_loop (meshes stage) 0 0 [];
          instance_descs =
             map (\<lambda>(a, b, c). \<lparr>mesh_id = a, material_id = b, transform_id = c\<rparr>)
               (instances stage)
      in case np_concatenate (map vertices (meshes stage)) of
           Inl e \<Rightarrow> (Inl e, dev1)
         | Inr vs \<Rightarrow>
       (case np_concatenate (map indices (meshes stage)) of
           Inl e \<Rightarrow> (Inl e, dev1)
         | Inr is \<Rightarrow>
        if length vs \<noteq> vcount then (Inl AssertionError, dev1)
        else if length is \<noteq> icount div 3 then (Inl AssertionError, dev1)
        else
          let (vertex_buffer, dev2) = create_buffer ''vertex_buffer'' (Vertices vs) dev1;
              (index_buffer, dev3) = create_buffer ''index_buffer'' (Triangles is) dev2
          in case join_packs MeshDesc_pack mesh_descs of
               Inl e \<Rightarrow> (Inl e, dev3)
             | Inr mesh_descs_data \<Rightarrow>
            let (mesh_descs_buffer, dev4) =
                   create_buffer ''mesh_descs_buffer'' (Words mesh_descs_data) dev3
            in case join_packs InstanceDesc_pack instance_descs of
                 Inl e \<Rightarrow> (Inl e, dev4)
               | Inr instance_descs_data \<Rightarrow>
              let (instance_descs_buffer, dev5) =
                     create_buffer ''instance_descs_buffer'' (Words instance_descs_data) dev4;
                  ts = map matrix (transforms stage);
                  its = map (\<lambda>t. transpose (inv4 t)) ts
              in case np_stack ts of
                   Inl e \<Rightarrow> (Inl e, dev5)
                 | Inr ts_data \<Rightarrow>
                let (transform_buffer, dev6) =
                       create_buffer ''transform_buffer'' (Matrices ts_data) dev5
                in case np_stack its of
                     Inl e \<Rightarrow> (Inl e, dev6)
                   | Inr its_data \<Rightarrow>
                  let (inverse_transpose_transforms_buffer, dev7) =
                         create_buffer ''inverse_transpose_transforms_buffer''
                           (Matrices its_data) dev6
                  in (Inr \<lparr>scene_camera = stage_camera stage,
                           material_descs = material_descs,
                           material_descs_buffer = material_descs_buffer,
                           mesh_descs = mesh_descs,
                           instance_descs = instance_descs,
                           vertex_buffer = vertex_buffer,
                           index_buffer = index_buffer,
                           mesh_descs_buffer = mesh_descs_buffer,
                           instance_descs_buffer = instance_descs_buffer,
                           scene_transforms = ts,
                           inverse_transpose_transforms = its,
                           transform_buffer = transform_buffer,
                           inverse_transpose_transforms_buffer =
                             inverse_transpose_transforms_buffer\<rparr>,
                      dev7)))"

text \<open>\<open>Scene.build_blas\<close>: the build input, then the build itself.\<close>

definition blas_build_input :: "buffer \<Rightarrow> buffer \<Rightarrow> MeshDesc \<Rightarrow> build_input_triangles" where
  "blas_build_input vb ib mesh_desc =
     \<lparr>vertex_buffers = [\<lparr>buffer = vb, offset = vertex_offset mesh_desc * 32\<rparr>],
      vertex_format = rgb32_float,
      bi_vertex_count = desc_vertex_count mesh_desc,
      vertex_stride = 32,
      bi_index_buffer = \<lparr>buffer = ib, offset = index_offset mesh_desc * 4\<rparr>,
      bi_index_format = uint32,
      bi_index_count = desc_index_count mesh_desc,
      flags = opaque\<rparr>"

definition build_blas :: "device \<Rightarrow> buffer \<Rightarrow> buffer \<Rightarrow> MeshDesc \<Rightarrow> accel \<times> device" where
  "build_blas dev0 vb ib mesh_desc =
     (let build_input = blas_build_input vb ib mesh_desc;
          desc = \<lparr>inputs = [InputTriangles build_input]\<rparr>;
          sizes = get_acceleration_structure_sizes dev0 desc;
          (blas_scratch_buffer, dev1) =
             create_buffer ''blas_scratch_buffer'' (Uninitialized (scratch_size sizes)) dev0;
          (blas, dev2) =
             create_acceleration_structure (acceleration_structure_size sizes) ''blas'' dev1;
          command_encoder = [BuildAccelerationStructure desc blas blas_scratch_buffer];
          dev3 = submit_command_buffer command_encoder dev2
      in (blas, dev3))"

text \<open>\<open>[self.build_blas(mesh_desc) for mesh_desc in self.mesh_descs]\<close>.\<close>

fun build_blases :: "device \<Rightarrow> buffer \<Rightarrow> buffer \<Rightarrow> MeshDesc list \<Rightarrow> accel list \<times> device" where
  "build_blases dev vb ib [] = ([], dev)"
| "build_blases dev vb ib (d # ds) =
     (let (blas, dev1) = build_blas dev vb ib d;
          (rest, dev2) = build_blases dev1 vb ib ds
      in (blas # rest, dev2))"

text \<open>\<open>Scene.build_tlas\<close>. The loop over \<open>enumerate(self.instance_descs)\<close> writes one
  record per instance; \<open>self.transforms[...]\<close> and \<open>self.blases[...]\<close> are Python list
  reads.\<close>

definition instance_list_write ::
    "nat \<Rightarrow> instance_record \<Rightarrow> instance_record option list \<Rightarrow> device \<Rightarrow>
     instance_record option list \<times> device" where
  "instance_list_write i r il dev = (il[i := Some r], emit (WriteInstance i r) dev)"

text \<open>The record that the loop body hands to \<open>instance_list.write\<close> for the instance with
  index \<open>i\<close>: the dictionary literal of the source, with its two list reads.\<close>

definition tlas_instance_record ::
    "float4x4 list \<Rightarrow> accel list \<Rightarrow> nat \<Rightarrow> InstanceDesc \<Rightarrow> error + instance_record" where
  "tlas_instance_record ts bl i d =
     (case py_index ts (transform_id d) of
        Inl e \<Rightarrow> Inl e
      | Inr t \<Rightarrow>
     (case py_index bl (mesh_id d) of
        Inl e \<Rightarrow> Inl e
      | Inr b \<Rightarrow>
        Inr \<lparr>ir_transform = to_float3x4 t,
             instance_id = i,
             instance_mask = 0xFF,
             instance_contribution_to_hit_group_index = 0,
             ir_flags = instance_none,
             acceleration_structure = handle b\<rparr>))"

fun write_instances ::
    "float4x4 list \<Rightarrow> accel list \<Rightarrow> nat \<Rightarrow> InstanceDesc list \<Rightarrow>
     instance_record option list \<Rightarrow> device \<Rightarrow>
     (error + instance_record option list) \<times> device" where
  "write_instances ts bl i [] il dev = (Inr il, dev)"
| "write_instances ts bl i (d # ds) il dev =
     (case tlas_instance_record ts bl i d of
        Inl e \<Rightarrow> (Inl e, dev)
      | Inr r \<Rightarrow>
        let (il1, dev1) = instance_list_write i r il dev
        in write_instances ts bl (Suc i) ds il1 dev1)"

definition build_tlas ::
    "device \<Rightarrow> InstanceDesc list \<Rightarrow> float4x4 list \<Rightarrow> accel list \<Rightarrow> (error + accel) \<times> device" where
  "build_tlas dev0 descs ts bl =
     (let (instance_list, dev1) =
             create_acceleration_structure_instance_list (length descs) dev0
      in case write_instances ts bl 0 descs instance_list dev1 of
           (Inl e, dev2) \<Rightarrow> (Inl e, dev2)
         | (Inr instance_list, dev2) \<Rightarrow>
        let desc = \<lparr>inputs = [InputInstances instance_list]\<rparr>;
            sizes = get_acceleration_structure_sizes dev2 desc;
            (tlas_scratch_buffer, dev3) =
               create_buffer ''tlas_scratch_buffer'' (Uninitialized (scratch_size sizes)) dev2;
            (tlas, dev4) =
               create_acceleration_structure (acceleration_structure_size sizes) ''tlas'' dev3;
            command_encoder = [BuildAccelerationStructure desc tlas tlas_scratch_buffer];
            dev5 = submit_command_buffer command_encoder dev4
        in (Inr tlas, dev5))"

text \<open>\<open>Scene.__init__\<close>: the buffers, then one bottom-level structure per mesh descriptor,
  then the top-level structure. An exception leaves no \<open>Scene\<close>; the device keeps the
  events up to the raise.\<close>

definition Scene ::
    "(float4x4 \<Rightarrow> float4x4) \<Rightarrow> device \<Rightarrow> stage \<Rightarrow> (error + scene) \<times> device" where
  "Scene inv4 dev0 stage =
     (case Scene_prepare inv4 dev0 stage of
        (Inl e, dev1) \<Rightarrow> (Inl e, dev1)
      | (Inr sb, dev1) \<Rightarrow>
        let (bl, dev2) =
               build_blases dev1 (vertex_buffer sb) (index_buffer sb) (mesh_descs sb)
        in case build_tlas dev2 (instance_descs sb) (scene_transforms sb) bl of
             (Inl e, dev3) \<Rightarrow> (Inl e, dev3)
           | (Inr built, dev3) \<Rightarrow>
               (Inr (scene_buffers.extend sb (scene.fields bl built)), dev3))"

subsection \<open>The passes of a frame\<close>

definition USE_RAYTRACING_PIPELINE :: bool where
  "USE_RAYTRACING_PIPELINE = True"

definition Camera_bind :: "camera \<Rightarrow> camera_binding" where
  "Camera_bind c =
     \<lparr>b_position = position c, b_image_u = image_u c, b_image_v = image_v c,
      b_image_w = image_w c\<rparr>"

definition Scene_bind :: "scene \<Rightarrow> scene_binding" where
  "Scene_bind sc =
     \<lparr>b_tlas = tlas sc,
      b_material_descs = material_descs_buffer sc,
      b_mesh_descs = mesh_descs_buffer sc,
      b_instance_descs = instance_descs_buffer sc,
      b_vertices = vertex_buffer sc,
      b_indices = index_buffer sc,
      b_transforms = transform_buffer sc,
      b_inverse_transpose_transforms = inverse_transpose_transforms_buffer sc,
      b_camera = Camera_bind (scene_camera sc)\<rparr>"

text \<open>\<open>PathTracer.execute\<close>. The path tracer holds a reference to the scene, and the
  scene to the camera: the function takes the scene and returns it with the camera as the
  call leaves it, next to the command encoder with the trace pass appended.\<close>

definition PathTracer_execute ::
    "command list \<Rightarrow> texture \<Rightarrow> nat \<Rightarrow> scene \<Rightarrow> error + (command list \<times> scene)" where
  "PathTracer_execute command_encoder output frame sc =
     (let w = tex_width output;
          h = tex_height output;
          cam = (scene_camera sc)\<lparr>width := w\<rparr>;
          cam = cam\<lparr>height := h\<rparr>
      in case recompute cam of
           Inl e \<Rightarrow> Inl e
         | Inr cam \<Rightarrow>
             let sc = sc\<lparr>scene_camera := cam\<rparr>;
                 cursor = \<lparr>g_output = output, g_frame = frame, g_scene = Scene_bind sc\<rparr>
             in if USE_RAYTRACING_PIPELINE
                then Inr (command_encoder @ [DispatchRays cursor (w, h, 1)], sc)
                else Inr (command_encoder @ [DispatchTraceCompute cursor (w, h, 1)], sc))"

text \<open>\<open>Accumulator.execute\<close>: the accumulator's own texture is replaced when there is none
  or its size differs from the input's; \<open>reset\<close> goes to the kernel as it is given.\<close>

definition Accumulator_execute ::
    "command list \<Rightarrow> texture \<Rightarrow> texture \<Rightarrow> bool \<Rightarrow> texture option \<Rightarrow> device \<Rightarrow>
     command list \<times> texture option \<times> device" where
  "Accumulator_execute command_encoder inp outp reset acc dev =
     (let (acc_tex, dev) =
            (case acc of
               None \<Rightarrow> create_texture ''accumulator'' (tex_width inp) (tex_height inp) dev
             | Some t \<Rightarrow>
                 if tex_width t \<noteq> tex_width inp \<or> tex_height t \<noteq> tex_height inp
                 then create_texture ''accumulator'' (tex_width inp) (tex_height inp) dev
                 else (t, dev))
      in (command_encoder @
            [DispatchAccumulator
               \<lparr>acc_input = inp, acc_output = outp, acc_accumulator = acc_tex,
                acc_reset = reset\<rparr>
               (tex_width inp, tex_height inp, 1)],
          Some acc_tex, dev))"

definition ToneMapper_execute :: "command list \<Rightarrow> texture \<Rightarrow> texture \<Rightarrow> command list" where
  "ToneMapper_execute command_encoder inp outp =
     command_encoder @
       [DispatchToneMapper \<lparr>tm_input = inp, tm_output = outp\<rparr>
          (tex_width inp, tex_height inp, 1)]"

subsection \<open>App\<close>

text \<open>
  The application state. \<open>stage.camera\<close>, \<open>scene.camera\<close> and the controller's camera
  are one Python object: it is kept in one place, the \<open>scene_camera\<close> of \<open>app_scene\<close>.
  \<open>frame\<close> is the local variable of \<open>main_loop\<close>.
\<close>

record app =
  should_close :: bool
  app_device :: device
  surface_config :: "(nat \<times> nat) option"
  render_texture :: "texture option"
  accum_texture :: "texture option"
  output_texture :: "texture option"
  app_scene :: scene
  controller :: camera_controller
  accumulator :: "texture option"
  frame :: nat

datatype window_event =
  Keyboard keyboard_event
  | Mouse mouse_event
  | Resize int int

text \<open>\<open>App.__init__\<close>, for the stage it is given (the stage of \<open>Stage.demo\<close> is random).\<close>

definition App :: "(float4x4 \<Rightarrow> float4x4) \<Rightarrow> device \<Rightarrow> stage \<Rightarrow> error + app" where
  "App inv4 dev0 stage =
     (let dev1 = emit (ConfigureSurface 1920 1080) dev0
      in case Scene inv4 dev1 stage of
           (Inl e, dev2) \<Rightarrow> Inl e
         | (Inr sc, dev2) \<Rightarrow>
             let dev3 = emit (LoadProgram ''pathtracer.slang''
                                [''rt_ray_gen'', ''rt_closest_hit'', ''rt_miss'']) dev2;
                 dev4 = emit CreateRayTracingPipeline dev3;
                 dev5 = emit CreateShaderTable dev4;
                 dev6 = emit (LoadProgram ''accumulator.slang'' [''compute_main'']) dev5;
                 dev7 = emit (CreateComputeKernel ''accumulator.slang'') dev6;
                 dev8 = emit (LoadProgram ''tone_mapper.slang'' [''compute_main'']) dev7;
                 dev9 = emit (CreateComputeKernel ''tone_mapper.slang'') dev8
             in Inr \<lparr>should_close = False,
                     app_device = dev9,
                     surface_config = Some (1920, 1080),
                     render_texture = None,
                     accum_texture = None,
                     output_texture = None,
                     app_scene = sc,
                     controller = CameraController,
                     accumulator = None,
                     frame = 0\<rparr>)"

definition App_on_keyboard_event :: "keyboard_event \<Rightarrow> app \<Rightarrow> app" where
  "App_on_keyboard_event ev a =
     (let a =
            (if kb_type ev = key_press then
               if kb_key ev = key_escape then
                 a\<lparr>should_close := True, app_device := emit CloseWindow (app_device a)\<rparr>
               else if kb_key ev = key_f1 then
                 (case output_texture a of
                    None \<Rightarrow> a
                  | Some t \<Rightarrow> a\<lparr>app_device := emit (ShowAsync t) (app_device a)\<rparr>)
               else if kb_key ev = key_f2 then
                 (case output_texture a of
                    None \<Rightarrow> a
                  | Some t \<Rightarrow>
                      a\<lparr>app_device := emit (WriteAsync ''screenshot.png'' t) (app_device a)\<rparr>)
               else a
             else a)
      in a\<lparr>controller := on_keyboard_event ev (controller a)\<rparr>)"

definition App_on_mouse_event :: "mouse_event \<Rightarrow> app \<Rightarrow> app" where
  "App_on_mouse_event ev a = a\<lparr>controller := on_mouse_event ev (controller a)\<rparr>"

definition on_resize :: "int \<Rightarrow> int \<Rightarrow> app \<Rightarrow> app" where
  "on_resize w h a =
     (let dev = wait (app_device a)
      in if w > 0 \<and> h > 0
         then a\<lparr>app_device := emit (ConfigureSurface (nat w) (nat h)) dev,
                  surface_config := Some (nat w, nat h)\<rparr>
         else a\<lparr>app_device := emit UnconfigureSurface dev, surface_config := None\<rparr>)"

text \<open>\<open>window.process_events()\<close> calls the callback of each pending event, in order.\<close>

fun process_events :: "window_event list \<Rightarrow> app \<Rightarrow> app" where
  "process_events [] a = a"
| "process_events (Keyboard ev # evs) a = process_events evs (App_on_keyboard_event ev a)"
| "process_events (Mouse ev # evs) a = process_events evs (App_on_mouse_event ev a)"
| "process_events (Resize w h # evs) a = process_events evs (on_resize w h a)"

text \<open>What the environment gives one iteration of the loop: the time since the last one,
  the pending window events, and what \<open>surface.acquire_next_image()\<close> returns (no image, or
  an image of some size).\<close>

record frame_input =
  dt :: float
  events :: "window_event list"
  acquired :: "(nat \<times> nat) option"

text \<open>The three \<open>create_texture\<close> calls of the loop body.\<close>

definition create_frame_textures :: "nat \<Rightarrow> nat \<Rightarrow> app \<Rightarrow> app" where
  "create_frame_textures w h a =
     (let (output, dev1) = create_texture ''output_texture'' w h (app_device a);
          (render, dev2) = create_texture ''render_texture'' w h dev1;
          (accum, dev3) = create_texture ''accum_texture'' w h dev2
      in a\<lparr>output_texture := Some output, render_texture := Some render,
            accum_texture := Some accum, app_device := dev3\<rparr>)"

text \<open>The passes of the loop body, from \<open>create_command_encoder\<close> to \<open>frame += 1\<close>. A
  texture attribute that is still \<open>None\<close> raises \<open>AttributeError\<close> at its first use.\<close>

definition render_frame :: "texture \<Rightarrow> app \<Rightarrow> error + app" where
  "render_frame surface_texture a =
     (case render_texture a of
        None \<Rightarrow> Inl AttributeError
      | Some render \<Rightarrow>
     (case PathTracer_execute [] render (frame a) (app_scene a) of
        Inl e \<Rightarrow> Inl e
      | Inr (enc1, sc) \<Rightarrow>
     (case accum_texture a of
        None \<Rightarrow> Inl AttributeError
      | Some accum \<Rightarrow>
        let (enc2, acc, dev1) =
               Accumulator_execute enc1 render accum (frame a = 0) (accumulator a) (app_device a)
        in (case output_texture a of
              None \<Rightarrow> Inl AttributeError
            | Some output \<Rightarrow>
                let enc3 = ToneMapper_execute enc2 accum output;
                    enc4 = enc3 @ [Blit surface_texture output];
                    dev2 = submit_command_buffer enc4 dev1;
                    dev3 = emit Present dev2
                in Inr (a\<lparr>app_scene := sc, accumulator := acc, app_device := dev3,
                          frame := frame a + 1\<rparr>)))))"

text \<open>One iteration of the \<open>while\<close> loop of \<open>App.main_loop\<close>; both \<open>continue\<close> statements
  end it early.\<close>

definition main_loop_body :: "frame_input \<Rightarrow> app \<Rightarrow> error + app" where
  "main_loop_body inp a0 =
     (let a1 = process_events (events inp) a0
      in case update (dt inp) (controller a1) (scene_camera (app_scene a1)) of
           Inl e \<Rightarrow> Inl e
         | Inr (changed, ctl, cam) \<Rightarrow>
             let a2 = a1\<lparr>controller := ctl,
                         app_scene := (app_scene a1)\<lparr>scene_camera := cam\<rparr>\<rparr>;
                 a3 = (if changed then a2\<lparr>frame := 0\<rparr> else a2)
             in if surface_config a3 = None then Inr a3
                else
                  let a4 = a3\<lparr>app_device := emit AcquireNextImage (app_device a3)\<rparr>
                  in case acquired inp of
                       None \<Rightarrow> Inr a4
                     | Some (w, h) \<Rightarrow>
                         let surface_texture =
                               \<lparr>tex_label = ''surface_texture'', tex_width = w, tex_height = h\<rparr>;
                             a5 = (case output_texture a4 of
                                     None \<Rightarrow> create_frame_textures w h a4
                                   | Some t \<Rightarrow>
                                       if tex_width t \<noteq> w \<or> tex_height t \<noteq> h
                                       then create_frame_textures w h a4
                                       else a4)
                         in render_frame surface_texture a5)"

text \<open>\<open>App.main_loop\<close>, for the iterations the environment drives: the loop ends when the
  window is to close, and the program then waits for the device. The list is the fuel: when
  it runs out with the window still open, the state reached so far is returned.\<close>

fun main_loop :: "frame_input list \<Rightarrow> app \<Rightarrow> error + app" where
  "main_loop [] a =
     (if should_close a then Inr (a\<lparr>app_device := wait (app_device a)\<rparr>) else Inr a)"
| "main_loop (inp # inps) a =
     (if should_close a then Inr (a\<lparr>app_device := wait (app_device a)\<rparr>)
      else case main_loop_body inp a of
             Inl e \<Rightarrow> Inl e
           | Inr a' \<Rightarrow> main_loop inps a')"

subsection \<open>Reading the command log\<close>

text \<open>The build description and the events of one \<open>build_blas\<close> call, for the sizes the
  device reports and the handle it hands out.\<close>

definition blas_desc :: "buffer \<Rightarrow> buffer \<Rightarrow> MeshDesc \<Rightarrow> build_desc" where
  "blas_desc vb ib d = \<lparr>inputs = [InputTriangles (blas_build_input vb ib d)]\<rparr>"

definition blas_events ::
    "(build_desc \<Rightarrow> as_sizes) \<Rightarrow> buffer \<Rightarrow> buffer \<Rightarrow> nat \<Rightarrow> MeshDesc \<Rightarrow> event list" where
  "blas_events szs vb ib h d =
     [CreateBuffer ''blas_scratch_buffer'',
      CreateAccelerationStructure ''blas'' h,
      SubmitCommandBuffer [BuildAccelerationStructure (blas_desc vb ib d)
        \<lparr>as_label = ''blas'', handle = h,
         as_size = acceleration_structure_size (szs (blas_desc vb ib d))\<rparr>
        \<lparr>buf_label = ''blas_scratch_buffer'',
         buf_data = Uninitialized (scratch_size (szs (blas_desc vb ib d)))\<rparr>]]"

text \<open>The bottom-level structures \<open>build_blases\<close> returns.\<close>

definition blases_of ::
    "(build_desc \<Rightarrow> as_sizes) \<Rightarrow> nat \<Rightarrow> buffer \<Rightarrow> buffer \<Rightarrow> MeshDesc list \<Rightarrow> accel list" where
  "blases_of szs h0 vb ib ds =
     map (\<lambda>k. \<lparr>as_label = ''blas'', handle = h0 + k,
               as_size = acceleration_structure_size (szs (blas_desc vb ib (ds ! k)))\<rparr>)
       [0..<length ds]"

definition blases_events ::
    "(build_desc \<Rightarrow> as_sizes) \<Rightarrow> nat \<Rightarrow> buffer \<Rightarrow> buffer \<Rightarrow> MeshDesc list \<Rightarrow> event list" where
  "blases_events szs h0 vb ib ds =
     concat (map (\<lambda>k. blas_events szs vb ib (h0 + k) (ds ! k)) [0..<length ds])"

text \<open>The instance list that \<open>build_tlas\<close> has filled when every record could be made, its
  build description and the events that follow the writes.\<close>

definition tlas_records ::
    "float4x4 list \<Rightarrow> accel list \<Rightarrow> InstanceDesc list \<Rightarrow> instance_record option list" where
  "tlas_records ts bl ds =
     map (\<lambda>i. Some (projr (tlas_instance_record ts bl i (ds ! i)))) [0..<length ds]"

definition tlas_desc :: "float4x4 list \<Rightarrow> accel list \<Rightarrow> InstanceDesc list \<Rightarrow> build_desc" where
  "tlas_desc ts bl ds = \<lparr>inputs = [InputInstances (tlas_records ts bl ds)]\<rparr>"

definition tlas_of ::
    "(build_desc \<Rightarrow> as_sizes) \<Rightarrow> nat \<Rightarrow> float4x4 list \<Rightarrow> accel list \<Rightarrow> InstanceDesc list \<Rightarrow> accel" where
  "tlas_of szs h ts bl ds =
     \<lparr>as_label = ''tlas'', handle = h,
      as_size = acceleration_structure_size (szs (tlas_desc ts bl ds))\<rparr>"

definition tlas_build_events ::
    "(build_desc \<Rightarrow> as_sizes) \<Rightarrow> nat \<Rightarrow> float4x4 list \<Rightarrow> accel list \<Rightarrow> InstanceDesc list \<Rightarrow>
     event list" where
  "tlas_build_events szs h ts bl ds =
     [CreateBuffer ''tlas_scratch_buffer'',
      CreateAccelerationStructure ''tlas'' h,
      SubmitCommandBuffer [BuildAccelerationStructure (tlas_desc ts bl ds)
        (tlas_of szs h ts bl ds)
        \<lparr>buf_label = ''tlas_scratch_buffer'',
         buf_data = Uninitialized (scratch_size (szs (tlas_desc ts bl ds)))\<rparr>]]"

text \<open>What the log says was built: every \<open>build_acceleration_structure\<close> command of every
  submitted command buffer, in submission order, as the destination's handle and the
  build description; and the description a structure was last built from.\<close>

fun command_builds :: "command \<Rightarrow> (nat \<times> build_desc) list" where
  "command_builds (BuildAccelerationStructure desc dst scratch) = [(handle dst, desc)]"
| "command_builds _ = []"

fun event_builds :: "event \<Rightarrow> (nat \<times> build_desc) list" where
  "event_builds (SubmitCommandBuffer cmds) = concat (map command_builds cmds)"
| "event_builds _ = []"

definition submitted_builds :: "event list \<Rightarrow> (nat \<times> build_desc) list" where
  "submitted_builds tr = concat (map event_builds tr)"

definition built_from :: "event list \<Rightarrow> nat \<Rightarrow> build_desc option" where
  "built_from tr h = map_of (rev (submitted_builds tr)) h"

text \<open>The buffer creations of \<open>Scene.__init__\<close>, in program order.\<close>

definition prepare_events :: "event list" where
  "prepare_events =
     [CreateBuffer ''material_descs_buffer'', CreateBuffer ''vertex_buffer'',
      CreateBuffer ''index_buffer'', CreateBuffer ''mesh_descs_buffer'',
      CreateBuffer ''instance_descs_buffer'', CreateBuffer ''transform_buffer'',
      CreateBuffer ''inverse_transpose_transforms_buffer'']"

text \<open>The contents of the two geometry buffers: the vertex records, and the index values
  in memory order (three per triangle row).\<close>

definition flat_indices :: "triangle list \<Rightarrow> 32 word list" where
  "flat_indices ts = concat (map (\<lambda>(a, b, c). [a, b, c]) ts)"

definition vertex_records :: "buffer \<Rightarrow> vertex list" where
  "vertex_records b = (case buf_data b of Vertices vs \<Rightarrow> vs | _ \<Rightarrow> [])"

definition index_values :: "buffer \<Rightarrow> 32 word list" where
  "index_values b =
     (case buf_data b of
        Triangles ts \<Rightarrow> flat_indices ts
      | _ \<Rightarrow> [])"

text \<open>The instance records an acceleration structure was last built from.\<close>

fun input_instances :: "build_input \<Rightarrow> instance_record option list" where
  "input_instances (InputInstances il) = il"
| "input_instances (InputTriangles t) = []"

fun input_triangles :: "build_input \<Rightarrow> build_input_triangles list" where
  "input_triangles (InputTriangles t) = [t]"
| "input_triangles (InputInstances il) = []"

definition built_instances :: "event list \<Rightarrow> nat \<Rightarrow> instance_record option list" where
  "built_instances tr h =
     (case built_from tr h of
        None \<Rightarrow> []
      | Some d \<Rightarrow> concat (map input_instances (inputs d)))"

text \<open>The builds of the log by level: a bottom-level build has triangle inputs, a
  top-level build has an instance list.\<close>

fun is_triangles :: "build_input \<Rightarrow> bool" where
  "is_triangles (InputTriangles t) = True"
| "is_triangles (InputInstances il) = False"

fun is_instances :: "build_input \<Rightarrow> bool" where
  "is_instances (InputInstances il) = True"
| "is_instances (InputTriangles t) = False"

definition bottom_level_builds :: "event list \<Rightarrow> (nat \<times> build_desc) list" where
  "bottom_level_builds tr =
     filter (\<lambda>(h, d). list_ex is_triangles (inputs d)) (submitted_builds tr)"

definition top_level_builds :: "event list \<Rightarrow> (nat \<times> build_desc) list" where
  "top_level_builds tr =
     filter (\<lambda>(h, d). list_ex is_instances (inputs d)) (submitted_builds tr)"

text \<open>The events a call added to the log.\<close>

definition new_events :: "device \<Rightarrow> device \<Rightarrow> event list" where
  "new_events dev dev' = drop (length (trace dev)) (trace dev')"

text \<open>The part of the shared buffers a bottom-level build input selects: \<open>vertex_count\<close>
  records from byte offset \<open>offset\<close> at \<open>vertex_stride\<close> bytes each, and \<open>index_count\<close>
  indices of four bytes each from byte offset \<open>offset\<close>.\<close>

definition input_vertex_range :: "build_input_triangles \<Rightarrow> vertex list" where
  "input_vertex_range bi =
     concat (map (\<lambda>p. take (bi_vertex_count bi)
                       (drop (offset p div vertex_stride bi) (vertex_records (buffer p))))
               (vertex_buffers bi))"

definition input_index_range :: "build_input_triangles \<Rightarrow> 32 word list" where
  "input_index_range bi =
     take (bi_index_count bi)
       (drop (offset (bi_index_buffer bi) div 4) (index_values (buffer (bi_index_buffer bi))))"

subsection \<open>Concrete inputs\<close>

text \<open>A device with an empty log that reports the same sizes for every build.\<close>

definition device0 :: device where
  "device0 = \<lparr>sizes_of = (\<lambda>d. \<lparr>scratch_size = 256, acceleration_structure_size = 1024\<rparr>),
     trace = [], next_handle = 0\<rparr>"

text \<open>A stage with one quad mesh and one cube mesh, one material, and one instance of each
  mesh, each with an identity transform of its own, assembled the way \<open>Stage.demo\<close>
  assembles its stage.\<close>

definition quad_cube_stage :: stage where
  "quad_cube_stage =
     (let st = Stage;
          (mat, st) = add_material \<lparr>base_color = Float3 0.5 0.5 0.5\<rparr> st;
          (quad, st) = add_mesh (create_quad (Float2 1 1)) st;
          (quad_transform, st) = add_transform Transform st;
          (i0, st) = add_instance quad mat quad_transform st;
          (cube, st) = add_mesh (create_cube (Float3 1 1 1)) st;
          (cube_transform, st) = add_transform Transform st;
          (i1, st) = add_instance cube mat cube_transform st
      in st)"

text \<open>The inverse of a diagonal matrix with no zero on the diagonal, which is what every
  transform matrix of the concrete stages below is.\<close>

definition inverse_diagonal :: "float4x4 \<Rightarrow> float4x4" where
  "inverse_diagonal m = map (map (\<lambda>v. if v = 0 then 0 else 1 / v)) m"

definition quad_cube_scene :: scene where
  "quad_cube_scene = projr (fst (Scene inverse_diagonal device0 quad_cube_stage))"

definition quad_cube_device :: device where
  "quad_cube_device = snd (Scene inverse_diagonal device0 quad_cube_stage)"

text \<open>The geometric reading of ``rotation and translation only'' for a 3\<times>4 transform: its
  3\<times>3 block has orthonormal rows.\<close>

definition rotation_translation_only :: "float3x4 \<Rightarrow> bool" where
  "rotation_translation_only m =
     (let r = map (take 3) m
      in map (\<lambda>a. map (\<lambda>b. dot a b) r) r = [[1, 0, 0], [0, 1, 0], [0, 0, 1]])"

text \<open>A stage with one quad whose transform scales by 2 along every axis: \<open>scaling\<close> is
  \<open>(2, 2, 2)\<close> and \<open>matrix\<close> is what \<open>update_matrix\<close> stores for it with no rotation and
  no translation (lemma \<open>update_matrix_scaling\<close> below).\<close>

definition scaled_quad_stage :: stage where
  "scaled_quad_stage =
     (let st = Stage;
          (mat, st) = add_material \<lparr>base_color = Float3 0.5 0.5 0.5\<rparr> st;
          (quad, st) = add_mesh (create_quad (Float2 1 1)) st;
          (t, st) = add_transform
             (Transform\<lparr>scaling := Float3 2 2 2,
                matrix := [[2, 0, 0, 0], [0, 2, 0, 0], [0, 0, 2, 0], [0, 0, 0, 1]]\<rparr>) st;
          (i0, st) = add_instance quad mat t st
      in st)"

definition scaled_quad_scene :: scene where
  "scaled_quad_scene = projr (fst (Scene inverse_diagonal device0 scaled_quad_stage))"

definition scaled_quad_device :: device where
  "scaled_quad_device = snd (Scene inverse_diagonal device0 scaled_quad_stage)"

text \<open>Two stages with one quad and one material each: in the first the instance names
  material 5, in the second it names mesh 3.\<close>

definition bad_material_stage :: stage where
  "bad_material_stage =
     (let st = Stage;
          (mat, st) = add_material \<lparr>base_color = Float3 0.5 0.5 0.5\<rparr> st;
          (quad, st) = add_mesh (create_quad (Float2 1 1)) st;
          (t, st) = add_transform Transform st;
          (i0, st) = add_instance quad 5 t st
      in st)"

definition bad_mesh_stage :: stage where
  "bad_mesh_stage =
     (let st = Stage;
          (mat, st) = add_material \<lparr>base_color = Float3 0.5 0.5 0.5\<rparr> st;
          (quad, st) = add_mesh (create_quad (Float2 1 1)) st;
          (t, st) = add_transform Transform st;
          (i0, st) = add_instance 3 mat t st
      in st)"

subsection \<open>Reading the log of the frame loop\<close>

text \<open>The commands of the submitted command buffers, in order; the \<open>reset\<close> flag of every
  accumulator dispatch among them; the frame number of every trace dispatch; and the
  textures created, as label and size.\<close>

fun event_commands :: "event \<Rightarrow> command list" where
  "event_commands (SubmitCommandBuffer cmds) = cmds"
| "event_commands _ = []"

fun command_resets :: "command \<Rightarrow> bool list" where
  "command_resets (DispatchAccumulator b d) = [acc_reset b]"
| "command_resets _ = []"

fun command_frames :: "command \<Rightarrow> nat list" where
  "command_frames (DispatchRays b d) = [g_frame b]"
| "command_frames (DispatchTraceCompute b d) = [g_frame b]"
| "command_frames _ = []"

fun created_textures :: "event \<Rightarrow> (string \<times> nat \<times> nat) list" where
  "created_textures (CreateTexture l w h) = [(l, w, h)]"
| "created_textures _ = []"

definition submitted_commands :: "event list \<Rightarrow> command list" where
  "submitted_commands tr = concat (map event_commands tr)"

definition accumulate_resets :: "event list \<Rightarrow> bool list" where
  "accumulate_resets tr = concat (map command_resets (submitted_commands tr))"

definition trace_frames :: "event list \<Rightarrow> nat list" where
  "trace_frames tr = concat (map command_frames (submitted_commands tr))"

definition texture_creations :: "event list \<Rightarrow> (string \<times> nat \<times> nat) list" where
  "texture_creations tr = concat (map created_textures tr)"

text \<open>Two facts about one iteration of the loop, read off its input and the state it
  starts in: whether the controller applies a movement or rotation delta once the pending
  events are processed, and whether the iteration reaches the passes (the surface is
  configured and an image is acquired).\<close>

definition camera_changed :: "frame_input \<Rightarrow> app \<Rightarrow> bool" where
  "camera_changed inp a =
     (let ctl = controller (process_events (events inp) a)
      in length3 (move_delta ctl) > 0 \<or> length2 (rotate_delta ctl) > 0)"

definition renders :: "frame_input \<Rightarrow> app \<Rightarrow> bool" where
  "renders inp a =
     (surface_config (process_events (events inp) a) \<noteq> None \<and> acquired inp \<noteq> None)"

text \<open>The loop's test for reallocating the frame textures, for an acquired image of size
  \<open>w\<close> by \<open>h\<close>.\<close>

definition frame_textures_stale :: "app \<Rightarrow> nat \<Rightarrow> nat \<Rightarrow> bool" where
  "frame_textures_stale a w h =
     (case output_texture a of
        None \<Rightarrow> True
      | Some t \<Rightarrow> tex_width t \<noteq> w \<or> tex_height t \<noteq> h)"

text \<open>Events that submit no accumulator or trace dispatch and create no texture.\<close>

definition quiet :: "event list \<Rightarrow> bool" where
  "quiet evs =
     (accumulate_resets evs = [] \<and> trace_frames evs = [] \<and> texture_creations evs = [])"

text \<open>The textures created other than the accumulator's own: the frame textures.\<close>

definition frame_texture_creations :: "event list \<Rightarrow> (string \<times> nat \<times> nat) list" where
  "frame_texture_creations tr =
     filter (\<lambda>(l, w, h). l \<noteq> ''accumulator'') (texture_creations tr)"

definition frame_textures :: "nat \<Rightarrow> nat \<Rightarrow> (string \<times> nat \<times> nat) list" where
  "frame_textures w h =
     [(''output_texture'', w, h), (''render_texture'', w, h), (''accum_texture'', w, h)]"

text \<open>The application started on the quad and cube stage, and five inputs of the loop:
  a first frame at the initial size with nothing pending, a frame that follows a resize
  of the window to 1280 by 720, a frame in which the key \<open>w\<close> has been pressed, a frame
  at 1280 by 720 in which the key \<open>d\<close> has been pressed, and an iteration in which the key
  \<open>a\<close> has been pressed and no image is acquired. \<open>app1\<close> and \<open>app2\<close> are the states
  after the first frame and after the resized frame that follows it.\<close>

definition app0 :: app where
  "app0 = projr (App inverse_diagonal device0 quad_cube_stage)"

definition first_frame :: frame_input where
  "first_frame = \<lparr>dt = 1 / 60, events = [], acquired = Some (1920, 1080)\<rparr>"

definition resized_frame :: frame_input where
  "resized_frame = \<lparr>dt = 1 / 60, events = [Resize 1280 720], acquired = Some (1280, 720)\<rparr>"

definition moving_frame :: frame_input where
  "moving_frame =
     \<lparr>dt = 1 / 60, events = [Keyboard \<lparr>kb_type = key_press, kb_key = key_w\<rparr>],
      acquired = Some (1920, 1080)\<rparr>"

definition resized_moving_frame :: frame_input where
  "resized_moving_frame =
     \<lparr>dt = 1 / 60, events = [Keyboard \<lparr>kb_type = key_press, kb_key = key_d\<rparr>],
      acquired = Some (1280, 720)\<rparr>"

definition moving_frame_no_image :: frame_input where
  "moving_frame_no_image =
     \<lparr>dt = 1 / 60, events = [Keyboard \<lparr>kb_type = key_press, kb_key = key_a\<rparr>],
      acquired = None\<rparr>"

definition app1 :: app where
  "app1 = projr (main_loop_body first_frame app0)"

definition app2 :: app where
  "app2 = projr (main_loop_body resized_frame app1)"

section \<open>Properties of scene construction\<close>

subsection \<open>The descriptor scan\<close>

lemma mesh_descs_loop_closed:
  "mesh_descs_loop ms vc ic descs =
     (descs @ map (\<lambda>k. \<lparr>desc_vertex_count = vertex_count (ms ! k),
                          desc_index_count = index_count (ms ! k),
                          vertex_offset = vc + sum_list (map vertex_count (take k ms)),
                          index_offset = ic + sum_list (map index_count (take k ms))\<rparr>)
                [0..<length ms],
      vc + sum_list (map vertex_count ms),
      ic + sum_list (map index_count ms))"
proof (induction ms arbitrary: vc ic descs)
  case Nil
  show ?case by simp
next
  case (Cons m ms)
  show ?case
    unfolding mesh_descs_loop.simps Cons.IH
    by (simp add: map_upt_Suc add.assoc del: upt_Suc)
qed

text \<open>
  Claim C4. For every list of meshes, the scan of \<open>Scene.__init__\<close> yields one descriptor
  per mesh, in list order: descriptor \<open>k\<close> carries the counts of mesh \<open>k\<close>, its
  \<open>vertex_offset\<close> is the sum of the vertex counts of the meshes before it and its
  \<open>index_offset\<close> the sum of their index counts.
\<close>

theorem mesh_desc_offsets_are_prefix_sums:
  "k < length ms \<Longrightarrow>
     length (fst (mesh_descs_loop ms 0 0 [])) = length ms \<and>
     desc_vertex_count (fst (mesh_descs_loop ms 0 0 []) ! k) = vertex_count (ms ! k) \<and>
     desc_index_count (fst (mesh_descs_loop ms 0 0 []) ! k) = index_count (ms ! k) \<and>
     vertex_offset (fst (mesh_descs_loop ms 0 0 []) ! k) =
       sum_list (map vertex_count (take k ms)) \<and>
     index_offset (fst (mesh_descs_loop ms 0 0 []) ! k) =
       sum_list (map index_count (take k ms))"
  by (simp add: mesh_descs_loop_closed)

theorem mesh_desc_offsets_witness:
  "(1::nat) < length [create_quad (Float2 1 1), create_cube (Float3 1 1 1)] \<and>
   vertex_offset
     (fst (mesh_descs_loop [create_quad (Float2 1 1), create_cube (Float3 1 1 1)] 0 0 []) ! 1) = 4 \<and>
   index_offset
     (fst (mesh_descs_loop [create_quad (Float2 1 1), create_cube (Float3 1 1 1)] 0 0 []) ! 1) = 6"
  using mesh_desc_offsets_are_prefix_sums
          [of 1 "[create_quad (Float2 1 1), create_cube (Float3 1 1 1)]"]
  by (simp add: vertex_count_def index_count_def triangle_count_def create_quad_def)

subsection \<open>Helpers: list reads, packing\<close>

lemma py_index_Inr_mem: "py_index xs i = Inr x \<Longrightarrow> x \<in> set xs"
  by (auto simp: py_index_def split: if_splits)

lemma py_index_nonneg:
  "0 \<le> i \<Longrightarrow> py_index xs i = Inr x \<longleftrightarrow> (i < int (length xs) \<and> x = xs ! nat i)"
  by (auto simp: py_index_def)

lemma py_index_too_large: "int (length xs) \<le> i \<Longrightarrow> py_index xs i = Inl IndexError"
  by (simp add: py_index_def)

lemma pack_Is_Inr_range: "pack_Is vs = Inr ws \<Longrightarrow> v \<in> set vs \<Longrightarrow> 0 \<le> v \<and> v < 2 ^ 32"
  by (induction vs arbitrary: ws) (auto simp: pack_I_def split: if_splits sum.splits)

lemma join_packs_Inr_each:
  "join_packs pk ds = Inr ws \<Longrightarrow> d \<in> set ds \<Longrightarrow> \<exists>w. pk d = Inr w"
  by (induction ds arbitrary: ws) (auto split: sum.splits)

lemma join_packs_Inl_iff:
  "(\<exists>e. join_packs pk ds = Inl e) \<longleftrightarrow> (\<exists>d\<in>set ds. \<exists>e. pk d = Inl e)"
  by (induction ds) (auto split: sum.splits)

subsection \<open>Closed forms of the build functions\<close>

lemma build_blas_eq:
  "build_blas dev vb ib d =
     (\<lparr>as_label = ''blas'', handle = next_handle dev,
       as_size = acceleration_structure_size (sizes_of dev (blas_desc vb ib d))\<rparr>,
      dev\<lparr>trace := trace dev @ blas_events (sizes_of dev) vb ib (next_handle dev) d,
          next_handle := Suc (next_handle dev)\<rparr>)"
  by (simp add: build_blas_def blas_desc_def blas_events_def Let_def create_buffer_def
      create_acceleration_structure_def submit_command_buffer_def emit_def
      get_acceleration_structure_sizes_def)

lemma build_blases_eq:
  "build_blases dev vb ib ds =
     (map (\<lambda>k. \<lparr>as_label = ''blas'', handle = next_handle dev + k,
              as_size = acceleration_structure_size (sizes_of dev (blas_desc vb ib (ds ! k)))\<rparr>)
        [0..<length ds],
      dev\<lparr>trace := trace dev @
              concat (map (\<lambda>k. blas_events (sizes_of dev) vb ib (next_handle dev + k) (ds ! k))
                [0..<length ds]),
          next_handle := next_handle dev + length ds\<rparr>)"
proof (induction ds arbitrary: dev)
  case Nil
  show ?case by simp
next
  case (Cons d ds)
  show ?case
    unfolding build_blases.simps build_blas_eq Cons.IH
    by (simp add: map_upt_Suc del: upt_Suc)
qed

lemma tlas_instance_record_Inr:
  "tlas_instance_record ts bl i d = Inr r \<Longrightarrow>
     \<exists>t b. py_index ts (transform_id d) = Inr t \<and> py_index bl (mesh_id d) = Inr b \<and>
       r = \<lparr>ir_transform = to_float3x4 t, instance_id = i, instance_mask = 0xFF,
            instance_contribution_to_hit_group_index = 0, ir_flags = instance_none,
            acceleration_structure = handle b\<rparr>"
  by (auto simp: tlas_instance_record_def split: sum.splits)

lemma write_instances_Inr:
  "write_instances ts bl i ds il dev = (Inr il', dev') \<Longrightarrow>
     length il' = length il \<and>
     (\<forall>k<length ds. tlas_instance_record ts bl (i + k) (ds ! k) =
          Inr (projr (tlas_instance_record ts bl (i + k) (ds ! k)))) \<and>
     (\<forall>k<length ds. i + k < length il \<longrightarrow>
          il' ! (i + k) = Some (projr (tlas_instance_record ts bl (i + k) (ds ! k)))) \<and>
     (\<forall>j<i. il' ! j = il ! j) \<and>
     trace dev' = trace dev @
       map (\<lambda>k. WriteInstance (i + k) (projr (tlas_instance_record ts bl (i + k) (ds ! k))))
         [0..<length ds] \<and>
     next_handle dev' = next_handle dev \<and> sizes_of dev' = sizes_of dev"
proof (induction ds arbitrary: i il dev)
  case Nil
  then show ?case by simp
next
  case (Cons d ds)
  from Cons.prems obtain r where r: "tlas_instance_record ts bl i d = Inr r"
    and rest: "write_instances ts bl (Suc i) ds (il[i := Some r])
                 (emit (WriteInstance i r) dev) = (Inr il', dev')"
    by (auto simp: instance_list_write_def split: sum.splits)
  note IH = Cons.IH[OF rest]
  have len: "length il' = length il" using IH by simp
  have ok: "\<forall>k<length (d # ds). tlas_instance_record ts bl (i + k) ((d # ds) ! k) =
          Inr (projr (tlas_instance_record ts bl (i + k) ((d # ds) ! k)))"
  proof (intro allI impI)
    fix k assume "k < length (d # ds)"
    then show "tlas_instance_record ts bl (i + k) ((d # ds) ! k) =
          Inr (projr (tlas_instance_record ts bl (i + k) ((d # ds) ! k)))"
      using IH r by (cases k) auto
  qed
  have nth: "\<forall>k<length (d # ds). i + k < length il \<longrightarrow>
          il' ! (i + k) = Some (projr (tlas_instance_record ts bl (i + k) ((d # ds) ! k)))"
  proof (intro allI impI)
    fix k assume k: "k < length (d # ds)" and b: "i + k < length il"
    show "il' ! (i + k) = Some (projr (tlas_instance_record ts bl (i + k) ((d # ds) ! k)))"
    proof (cases k)
      case 0
      have "il' ! i = (il[i := Some r]) ! i" using IH by simp
      then show ?thesis using 0 b r by simp
    next
      case (Suc k')
      then show ?thesis using IH k b by simp
    qed
  qed
  have old: "\<forall>j<i. il' ! j = il ! j"
    using IH by simp
  have tr: "trace dev' = trace dev @
       map (\<lambda>k. WriteInstance (i + k) (projr (tlas_instance_record ts bl (i + k) ((d # ds) ! k))))
         [0..<length (d # ds)]"
    using IH r by (simp add: emit_def map_upt_Suc del: upt_Suc)
  have "next_handle dev' = next_handle dev \<and> sizes_of dev' = sizes_of dev"
    using IH by (simp add: emit_def)
  with len ok nth old tr show ?case by blast
qed

lemma write_instances_any:
  "write_instances ts bl i ds il dev = (res, dev') \<Longrightarrow>
     \<exists>m\<le>length ds.
       trace dev' = trace dev @
         map (\<lambda>k. WriteInstance (i + k) (projr (tlas_instance_record ts bl (i + k) (ds ! k))))
           [0..<m] \<and>
       (\<forall>k<m. tlas_instance_record ts bl (i + k) (ds ! k) =
          Inr (projr (tlas_instance_record ts bl (i + k) (ds ! k)))) \<and>
       (isl res \<longrightarrow> m < length ds \<and>
          tlas_instance_record ts bl (i + m) (ds ! m) = Inl (projl res)) \<and>
       (\<not> isl res \<longrightarrow> m = length ds) \<and>
       next_handle dev' = next_handle dev \<and> sizes_of dev' = sizes_of dev"
proof (induction ds arbitrary: i il dev)
  case Nil
  then show ?case by auto
next
  case (Cons d ds)
  show ?case
  proof (cases "tlas_instance_record ts bl i d")
    case (Inl e)
    with Cons.prems have "res = Inl e" "dev' = dev" by auto
    then show ?thesis using Inl by (intro exI[of _ 0]) simp
  next
    case (Inr r)
    with Cons.prems have rest: "write_instances ts bl (Suc i) ds (il[i := Some r])
                 (emit (WriteInstance i r) dev) = (res, dev')"
      by (auto simp: instance_list_write_def)
    from Cons.IH[OF rest] obtain m where m: "m \<le> length ds"
      and tr: "trace dev' = trace (emit (WriteInstance i r) dev) @
         map (\<lambda>k. WriteInstance (Suc i + k)
                (projr (tlas_instance_record ts bl (Suc i + k) (ds ! k)))) [0..<m]"
      and ok: "\<forall>k<m. tlas_instance_record ts bl (Suc i + k) (ds ! k) =
          Inr (projr (tlas_instance_record ts bl (Suc i + k) (ds ! k)))"
      and bad: "isl res \<longrightarrow> m < length ds \<and>
          tlas_instance_record ts bl (Suc i + m) (ds ! m) = Inl (projl res)"
      and good: "\<not> isl res \<longrightarrow> m = length ds"
      and same: "next_handle dev' = next_handle (emit (WriteInstance i r) dev)"
                "sizes_of dev' = sizes_of (emit (WriteInstance i r) dev)"
      by blast
    have ok': "\<forall>k<Suc m. tlas_instance_record ts bl (i + k) ((d # ds) ! k) =
          Inr (projr (tlas_instance_record ts bl (i + k) ((d # ds) ! k)))"
    proof (intro allI impI)
      fix k assume "k < Suc m"
      then show "tlas_instance_record ts bl (i + k) ((d # ds) ! k) =
          Inr (projr (tlas_instance_record ts bl (i + k) ((d # ds) ! k)))"
        using ok Inr by (cases k) auto
    qed
    show ?thesis
      using m tr ok' bad good same Inr
      by (intro exI[of _ "Suc m"]) (simp add: emit_def map_upt_Suc del: upt_Suc)
  qed
qed

lemma build_tlas_Inr:
  assumes "build_tlas dev ds ts bl = (Inr t, dev')"
  shows "t = tlas_of (sizes_of dev) (next_handle dev) ts bl ds"
    and "trace dev' = trace dev @ [CreateInstanceList (length ds)] @
           map (\<lambda>i. WriteInstance i (projr (tlas_instance_record ts bl i (ds ! i)))) [0..<length ds] @
           tlas_build_events (sizes_of dev) (next_handle dev) ts bl ds"
    and "\<forall>i<length ds. tlas_instance_record ts bl i (ds ! i) =
           Inr (projr (tlas_instance_record ts bl i (ds ! i)))"
    and "next_handle dev' = Suc (next_handle dev)"
    and "sizes_of dev' = sizes_of dev"
proof -
  let ?dev1 = "emit (CreateInstanceList (length ds)) dev"
  from assms obtain il dev2 where
    w: "write_instances ts bl 0 ds (replicate (length ds) None) ?dev1 = (Inr il, dev2)"
    by (auto simp: build_tlas_def create_acceleration_structure_instance_list_def
        split: prod.splits sum.splits)
  note W = write_instances_Inr[OF w]
  have il: "il = tlas_records ts bl ds"
    unfolding tlas_records_def
    by (rule nth_equalityI) (use W in auto)
  from W have s2: "sizes_of dev2 = sizes_of dev" and h2: "next_handle dev2 = next_handle dev"
    by (simp_all add: emit_def)
  from W have t2: "trace dev2 = trace dev @ [CreateInstanceList (length ds)] @
           map (\<lambda>i. WriteInstance i (projr (tlas_instance_record ts bl i (ds ! i)))) [0..<length ds]"
    by (simp add: emit_def)
  from assms w have res: "(t, dev') =
      (tlas_of (sizes_of dev2) (next_handle dev2) ts bl ds,
       dev2\<lparr>trace := trace dev2 @ tlas_build_events (sizes_of dev2) (next_handle dev2) ts bl ds,
            next_handle := Suc (next_handle dev2)\<rparr>)"
    by (auto simp: build_tlas_def create_acceleration_structure_instance_list_def il
        tlas_of_def tlas_desc_def tlas_build_events_def Let_def create_buffer_def
        create_acceleration_structure_def submit_command_buffer_def emit_def
        get_acceleration_structure_sizes_def)
  from res show "t = tlas_of (sizes_of dev) (next_handle dev) ts bl ds"
    by (simp add: s2 h2)
  from res show "trace dev' = trace dev @ [CreateInstanceList (length ds)] @
           map (\<lambda>i. WriteInstance i (projr (tlas_instance_record ts bl i (ds ! i)))) [0..<length ds] @
           tlas_build_events (sizes_of dev) (next_handle dev) ts bl ds"
    by (simp add: s2 h2 t2)
  from W show "\<forall>i<length ds. tlas_instance_record ts bl i (ds ! i) =
           Inr (projr (tlas_instance_record ts bl i (ds ! i)))" by simp
  from res show "next_handle dev' = Suc (next_handle dev)" by (simp add: h2)
  from res show "sizes_of dev' = sizes_of dev" by (simp add: s2)
qed

lemma build_tlas_any:
  assumes "build_tlas dev ds ts bl = (res, dev')"
  shows "\<exists>m\<le>length ds. \<exists>rest.
           trace dev' = trace dev @ [CreateInstanceList (length ds)] @
             map (\<lambda>i. WriteInstance i (projr (tlas_instance_record ts bl i (ds ! i)))) [0..<m] @ rest \<and>
           (\<forall>i<m. tlas_instance_record ts bl i (ds ! i) =
                Inr (projr (tlas_instance_record ts bl i (ds ! i)))) \<and>
           (isl res \<longrightarrow> rest = [] \<and> m < length ds \<and> tlas_instance_record ts bl m (ds ! m) = Inl (projl res)) \<and>
           (\<not> isl res \<longrightarrow> m = length ds \<and> rest = tlas_build_events (sizes_of dev) (next_handle dev) ts bl ds)"
proof (cases res)
  case (Inr t)
  from build_tlas_Inr[OF assms[unfolded Inr]] Inr show ?thesis
    by (intro exI[of _ "length ds"] exI[of _ "tlas_build_events (sizes_of dev) (next_handle dev) ts bl ds"]) simp
next
  case (Inl e)
  let ?dev1 = "emit (CreateInstanceList (length ds)) dev"
  from assms Inl have w: "write_instances ts bl 0 ds (replicate (length ds) None) ?dev1 = (Inl e, dev')"
    by (auto simp: build_tlas_def create_acceleration_structure_instance_list_def Let_def
        split: prod.splits sum.splits)
  from write_instances_any[OF w] obtain m where "m \<le> length ds"
    "trace dev' = trace ?dev1 @
         map (\<lambda>k. WriteInstance (0 + k) (projr (tlas_instance_record ts bl (0 + k) (ds ! k)))) [0..<m]"
    "\<forall>k<m. tlas_instance_record ts bl (0 + k) (ds ! k) =
          Inr (projr (tlas_instance_record ts bl (0 + k) (ds ! k)))"
    "m < length ds \<and> tlas_instance_record ts bl (0 + m) (ds ! m) = Inl e"
    by auto
  then show ?thesis using Inl
    by (intro exI[of _ m] exI[of _ "[]"]) (simp add: emit_def)
qed

subsection \<open>Closed form of \<open>Scene.__init__\<close>\<close>

lemma Scene_prepare_Inr:
  assumes "Scene_prepare inv4 dev stage = (Inr sb, dev')"
  shows "mesh_descs sb = fst (mesh_descs_loop (meshes stage) 0 0 [])"
    and "vertex_buffer sb =
           \<lparr>buf_label = ''vertex_buffer'',
            buf_data = Vertices (concat (map vertices (meshes stage)))\<rparr>"
    and "index_buffer sb =
           \<lparr>buf_label = ''index_buffer'',
            buf_data = Triangles (concat (map indices (meshes stage)))\<rparr>"
    and "instance_descs sb =
           map (\<lambda>(a, b, c). \<lparr>mesh_id = a, material_id = b, transform_id = c\<rparr>) (instances stage)"
    and "scene_transforms sb = map matrix (transforms stage)"
    and "scene_camera sb = stage_camera stage"
    and "meshes stage \<noteq> []"
    and "transforms stage \<noteq> []"
    and "\<exists>ws. join_packs InstanceDesc_pack (instance_descs sb) = Inr ws"
    and "\<exists>ws. join_packs MeshDesc_pack (mesh_descs sb) = Inr ws"
    and "trace dev' = trace dev @ prepare_events"
    and "next_handle dev' = next_handle dev"
    and "sizes_of dev' = sizes_of dev"
  using assms
  by (auto simp: Scene_prepare_def Let_def np_concatenate_def np_stack_def create_buffer_def
      emit_def prepare_events_def split: prod.splits sum.splits if_splits)

lemma Scene_prepare_any:
  assumes "Scene_prepare inv4 dev stage = (res, dev')"
  shows "\<exists>evs. trace dev' = trace dev @ evs \<and> set evs \<subseteq> set prepare_events"
    and "next_handle dev' = next_handle dev"
    and "sizes_of dev' = sizes_of dev"
  using assms
  by (auto simp: Scene_prepare_def Let_def np_concatenate_def np_stack_def create_buffer_def
      emit_def prepare_events_def split: prod.splits sum.splits if_splits)

lemma scene_extend_fields:
  "mesh_descs (scene_buffers.extend sb (scene.fields bl t)) = mesh_descs sb"
  "vertex_buffer (scene_buffers.extend sb (scene.fields bl t)) = vertex_buffer sb"
  "index_buffer (scene_buffers.extend sb (scene.fields bl t)) = index_buffer sb"
  "instance_descs (scene_buffers.extend sb (scene.fields bl t)) = instance_descs sb"
  "scene_transforms (scene_buffers.extend sb (scene.fields bl t)) = scene_transforms sb"
  "scene_camera (scene_buffers.extend sb (scene.fields bl t)) = scene_camera sb"
  "blases (scene_buffers.extend sb (scene.fields bl t)) = bl"
  "tlas (scene_buffers.extend sb (scene.fields bl t)) = t"
  by (simp_all add: scene_buffers.defs scene.defs)

lemma Scene_Inr:
  assumes "Scene inv4 dev stage = (Inr sc, dev')"
  shows "mesh_descs sc = fst (mesh_descs_loop (meshes stage) 0 0 [])"
    and "vertex_buffer sc =
           \<lparr>buf_label = ''vertex_buffer'',
            buf_data = Vertices (concat (map vertices (meshes stage)))\<rparr>"
    and "index_buffer sc =
           \<lparr>buf_label = ''index_buffer'',
            buf_data = Triangles (concat (map indices (meshes stage)))\<rparr>"
    and "instance_descs sc =
           map (\<lambda>(a, b, c). \<lparr>mesh_id = a, material_id = b, transform_id = c\<rparr>) (instances stage)"
    and "scene_transforms sc = map matrix (transforms stage)"
    and "scene_camera sc = stage_camera stage"
    and "meshes stage \<noteq> []"
    and "transforms stage \<noteq> []"
    and "\<exists>ws. join_packs InstanceDesc_pack (instance_descs sc) = Inr ws"
    and "\<exists>ws. join_packs MeshDesc_pack (mesh_descs sc) = Inr ws"
    and "blases sc =
           map (\<lambda>k. \<lparr>as_label = ''blas'', handle = next_handle dev + k,
                     as_size = acceleration_structure_size
                       (sizes_of dev (blas_desc (vertex_buffer sc) (index_buffer sc)
                          (mesh_descs sc ! k)))\<rparr>)
             [0..<length (mesh_descs sc)]"
    and "tlas sc = tlas_of (sizes_of dev) (next_handle dev + length (mesh_descs sc))
                     (scene_transforms sc) (blases sc) (instance_descs sc)"
    and "\<forall>i<length (instance_descs sc).
           tlas_instance_record (scene_transforms sc) (blases sc) i (instance_descs sc ! i) =
           Inr (projr (tlas_instance_record (scene_transforms sc) (blases sc) i
                  (instance_descs sc ! i)))"
    and "trace dev' = trace dev @ prepare_events @
           concat (map (\<lambda>k. blas_events (sizes_of dev) (vertex_buffer sc) (index_buffer sc)
                          (next_handle dev + k) (mesh_descs sc ! k))
                    [0..<length (mesh_descs sc)]) @
           [CreateInstanceList (length (instance_descs sc))] @
           map (\<lambda>i. WriteInstance i
                  (projr (tlas_instance_record (scene_transforms sc) (blases sc) i
                     (instance_descs sc ! i))))
             [0..<length (instance_descs sc)] @
           tlas_build_events (sizes_of dev) (next_handle dev + length (mesh_descs sc))
             (scene_transforms sc) (blases sc) (instance_descs sc)"
proof -
  from assms obtain sb dev1 where p: "Scene_prepare inv4 dev stage = (Inr sb, dev1)"
    by (auto simp: Scene_def split: prod.splits sum.splits)
  note P = Scene_prepare_Inr[OF p]
  obtain bl dev2 where b: "build_blases dev1 (vertex_buffer sb) (index_buffer sb) (mesh_descs sb) = (bl, dev2)"
    by (cases "build_blases dev1 (vertex_buffer sb) (index_buffer sb) (mesh_descs sb)") 
  from assms p b obtain t where t: "build_tlas dev2 (instance_descs sb) (scene_transforms sb) bl = (Inr t, dev')"
    and sc: "sc = scene_buffers.extend sb (scene.fields bl t)"
    by (auto simp: Scene_def split: prod.splits sum.splits)
  note T = build_tlas_Inr[OF t]
  from b have bl: "bl = map (\<lambda>k. \<lparr>as_label = ''blas'', handle = next_handle dev + k,
                     as_size = acceleration_structure_size
                       (sizes_of dev (blas_desc (vertex_buffer sb) (index_buffer sb)
                          (mesh_descs sb ! k)))\<rparr>)
             [0..<length (mesh_descs sb)]"
    and d2: "dev2 = dev1\<lparr>trace := trace dev1 @
              concat (map (\<lambda>k. blas_events (sizes_of dev1) (vertex_buffer sb) (index_buffer sb) (next_handle dev1 + k) (mesh_descs sb ! k))
                [0..<length (mesh_descs sb)]),
          next_handle := next_handle dev1 + length (mesh_descs sb)\<rparr>"
    unfolding build_blases_eq using P(12,13) by simp_all
  show "mesh_descs sc = fst (mesh_descs_loop (meshes stage) 0 0 [])"
    using P(1) by (simp add: sc scene_extend_fields)
  show "vertex_buffer sc =
           \<lparr>buf_label = ''vertex_buffer'',
            buf_data = Vertices (concat (map vertices (meshes stage)))\<rparr>"
    using P(2) by (simp add: sc scene_extend_fields)
  show "index_buffer sc =
           \<lparr>buf_label = ''index_buffer'',
            buf_data = Triangles (concat (map indices (meshes stage)))\<rparr>"
    using P(3) by (simp add: sc scene_extend_fields)
  show "instance_descs sc =
           map (\<lambda>(a, b, c). \<lparr>mesh_id = a, material_id = b, transform_id = c\<rparr>) (instances stage)"
    using P(4) by (simp add: sc scene_extend_fields)
  show "scene_transforms sc = map matrix (transforms stage)"
    using P(5) by (simp add: sc scene_extend_fields)
  show "scene_camera sc = stage_camera stage"
    using P(6) by (simp add: sc scene_extend_fields)
  show "meshes stage \<noteq> []" by (rule P(7))
  show "transforms stage \<noteq> []" by (rule P(8))
  show "\<exists>ws. join_packs InstanceDesc_pack (instance_descs sc) = Inr ws"
    using P(9) by (simp add: sc scene_extend_fields)
  show "\<exists>ws. join_packs MeshDesc_pack (mesh_descs sc) = Inr ws"
    using P(10) by (simp add: sc scene_extend_fields)
  show "blases sc =
           map (\<lambda>k. \<lparr>as_label = ''blas'', handle = next_handle dev + k,
                     as_size = acceleration_structure_size
                       (sizes_of dev (blas_desc (vertex_buffer sc) (index_buffer sc)
                          (mesh_descs sc ! k)))\<rparr>)
             [0..<length (mesh_descs sc)]"
    using bl by (simp add: sc scene_extend_fields)
  show "tlas sc = tlas_of (sizes_of dev) (next_handle dev + length (mesh_descs sc))
                     (scene_transforms sc) (blases sc) (instance_descs sc)"
    using T(1) by (simp add: sc scene_extend_fields d2 P(12,13))
  show "\<forall>i<length (instance_descs sc).
           tlas_instance_record (scene_transforms sc) (blases sc) i (instance_descs sc ! i) =
           Inr (projr (tlas_instance_record (scene_transforms sc) (blases sc) i
                  (instance_descs sc ! i)))"
    using T(3) by (simp add: sc scene_extend_fields)
  show "trace dev' = trace dev @ prepare_events @
           concat (map (\<lambda>k. blas_events (sizes_of dev) (vertex_buffer sc) (index_buffer sc)
                          (next_handle dev + k) (mesh_descs sc ! k))
                    [0..<length (mesh_descs sc)]) @
           [CreateInstanceList (length (instance_descs sc))] @
           map (\<lambda>i. WriteInstance i
                  (projr (tlas_instance_record (scene_transforms sc) (blases sc) i
                     (instance_descs sc ! i))))
             [0..<length (instance_descs sc)] @
           tlas_build_events (sizes_of dev) (next_handle dev + length (mesh_descs sc))
             (scene_transforms sc) (blases sc) (instance_descs sc)"
    using T(2) by (simp add: sc scene_extend_fields d2 P(11,12,13))
qed

subsection \<open>When construction succeeds\<close>

lemma length_concat_vertices:
  "length (concat (map vertices ms)) = sum_list (map vertex_count ms)"
  by (induction ms) (simp_all add: vertex_count_def)

lemma sum_index_count:
  "sum_list (map index_count ms) = 3 * length (concat (map indices ms))"
  by (induction ms) (simp_all add: index_count_def triangle_count_def)

lemma write_instances_succeeds:
  "\<forall>k<length ds. \<exists>r. tlas_instance_record ts bl (i + k) (ds ! k) = Inr r \<Longrightarrow>
     \<exists>il' dev'. write_instances ts bl i ds il dev = (Inr il', dev')"
proof (induction ds arbitrary: i il dev)
  case Nil
  show ?case by simp
next
  case (Cons d ds)
  from Cons.prems obtain r where r: "tlas_instance_record ts bl i d = Inr r"
    by fastforce
  have "\<forall>k<length ds. \<exists>r. tlas_instance_record ts bl (Suc i + k) (ds ! k) = Inr r"
  proof (intro allI impI)
    fix k assume "k < length ds"
    then have "Suc k < length (d # ds)" by simp
    from Cons.prems[rule_format, OF this] show "\<exists>r. tlas_instance_record ts bl (Suc i + k) (ds ! k) = Inr r"
      by simp
  qed
  from Cons.IH[OF this] show ?case
    by (simp add: r instance_list_write_def)
qed

lemma build_tlas_succeeds:
  "\<forall>k<length ds. \<exists>r. tlas_instance_record ts bl k (ds ! k) = Inr r \<Longrightarrow>
     \<exists>t dev'. build_tlas dev ds ts bl = (Inr t, dev')"
proof -
  assume a: "\<forall>k<length ds. \<exists>r. tlas_instance_record ts bl k (ds ! k) = Inr r"
  then have "\<forall>k<length ds. \<exists>r. tlas_instance_record ts bl (0 + k) (ds ! k) = Inr r" by simp
  from write_instances_succeeds[OF this]
  obtain il' dev' where "write_instances ts bl 0 ds (replicate (length ds) None)
      (emit (CreateInstanceList (length ds)) dev) = (Inr il', dev')" by blast
  then show ?thesis
    by (simp add: build_tlas_def create_acceleration_structure_instance_list_def Let_def
        split: prod.splits)
qed

lemma tlas_instance_record_in_range:
  "0 \<le> transform_id d \<Longrightarrow> transform_id d < int (length ts) \<Longrightarrow>
   0 \<le> mesh_id d \<Longrightarrow> mesh_id d < int (length bl) \<Longrightarrow>
   tlas_instance_record ts bl i d =
     Inr \<lparr>ir_transform = to_float3x4 (ts ! nat (transform_id d)), instance_id = i,
          instance_mask = 0xFF, instance_contribution_to_hit_group_index = 0,
          ir_flags = instance_none,
          acceleration_structure = handle (bl ! nat (mesh_id d))\<rparr>"
  by (simp add: tlas_instance_record_def py_index_def)

lemma Scene_prepare_succeeds:
  assumes "meshes stage \<noteq> []" "transforms stage \<noteq> []"
    and "\<not> isl (join_packs MeshDesc_pack (fst (mesh_descs_loop (meshes stage) 0 0 [])))"
    and "\<not> isl (join_packs InstanceDesc_pack
           (map (\<lambda>(a, b, c). \<lparr>mesh_id = a, material_id = b, transform_id = c\<rparr>)
              (instances stage)))"
  shows "\<exists>sb dev'. Scene_prepare inv4 dev stage = (Inr sb, dev')"
  using assms
  by (auto simp: Scene_prepare_def Let_def np_concatenate_def np_stack_def
      mesh_descs_loop_closed length_concat_vertices sum_index_count
      split: prod.splits sum.splits)

lemma Scene_succeeds:
  assumes m: "meshes stage \<noteq> []" and t: "transforms stage \<noteq> []"
    and p1: "\<not> isl (join_packs MeshDesc_pack (fst (mesh_descs_loop (meshes stage) 0 0 [])))"
    and p2: "\<not> isl (join_packs InstanceDesc_pack
           (map (\<lambda>(a, b, c). \<lparr>mesh_id = a, material_id = b, transform_id = c\<rparr>)
              (instances stage)))"
    and r: "list_all (\<lambda>(a, b, c). 0 \<le> a \<and> a < int (length (meshes stage)) \<and>
                                 0 \<le> c \<and> c < int (length (transforms stage)))
              (instances stage)"
  shows "\<exists>sc dev'. Scene inv4 dev stage = (Inr sc, dev')"
proof -
  from Scene_prepare_succeeds[OF m t p1 p2]
  obtain sb dev1 where p: "Scene_prepare inv4 dev stage = (Inr sb, dev1)" by blast
  note P = Scene_prepare_Inr[OF p]
  obtain bl dev2 where
    b: "build_blases dev1 (vertex_buffer sb) (index_buffer sb) (mesh_descs sb) = (bl, dev2)"
    by (cases "build_blases dev1 (vertex_buffer sb) (index_buffer sb) (mesh_descs sb)")
  then have lbl: "length bl = length (meshes stage)"
    unfolding build_blases_eq using P(1) by (auto simp: mesh_descs_loop_closed)
  have "\<forall>k<length (instance_descs sb). \<exists>r.
          tlas_instance_record (scene_transforms sb) bl k (instance_descs sb ! k) = Inr r"
  proof (intro allI impI)
    fix k assume k: "k < length (instance_descs sb)"
    then have "instances stage ! k \<in> set (instances stage)" using P(4) by simp
    with r have "case instances stage ! k of (a, b, c) \<Rightarrow>
        0 \<le> a \<and> a < int (length (meshes stage)) \<and> 0 \<le> c \<and> c < int (length (transforms stage))"
      by (simp add: list_all_iff)
    with k P(4,5) lbl show "\<exists>r. tlas_instance_record (scene_transforms sb) bl k (instance_descs sb ! k) = Inr r"
      by (auto simp: tlas_instance_record_in_range split: prod.splits)
  qed
  from build_tlas_succeeds[OF this] obtain tl dev3 where
    "build_tlas dev2 (instance_descs sb) (scene_transforms sb) bl = (Inr tl, dev3)" by blast
  with p b show ?thesis by (simp add: Scene_def)
qed

subsection \<open>What the log says was built\<close>

lemma submitted_builds_append:
  "submitted_builds (a @ b) = submitted_builds a @ submitted_builds b"
  by (simp add: submitted_builds_def)

lemma submitted_builds_Cons:
  "submitted_builds (e # es) = event_builds e @ submitted_builds es"
  by (simp add: submitted_builds_def)

lemma submitted_builds_Nil: "submitted_builds [] = []"
  by (simp add: submitted_builds_def)

lemma submitted_builds_prepare: "submitted_builds prepare_events = []"
  by (simp add: submitted_builds_def prepare_events_def)

lemma submitted_builds_blas_events:
  "submitted_builds (blas_events szs vb ib h d) = [(h, blas_desc vb ib d)]"
  by (simp add: submitted_builds_def blas_events_def)

lemma submitted_builds_blas_all:
  "submitted_builds (concat (map (\<lambda>k. blas_events szs vb ib (h0 + k) (f k)) [0..<n])) =
     map (\<lambda>k. (h0 + k, blas_desc vb ib (f k))) [0..<n]"
  by (induction n)
     (simp_all add: submitted_builds_append submitted_builds_blas_events submitted_builds_Nil)

lemma submitted_builds_writes:
  "submitted_builds (map (\<lambda>i. WriteInstance i (f i)) xs) = []"
  by (induction xs) (simp_all add: submitted_builds_def)

lemma submitted_builds_tlas_events:
  "submitted_builds (tlas_build_events szs h ts bl ds) = [(h, tlas_desc ts bl ds)]"
  by (simp add: submitted_builds_def tlas_build_events_def tlas_of_def)

lemma submitted_builds_subset_prepare:
  "set evs \<subseteq> set prepare_events \<Longrightarrow> submitted_builds evs = []"
  by (induction evs) (auto simp: submitted_builds_def prepare_events_def)

lemma submitted_builds_blases_events:
  "submitted_builds (blases_events szs h0 vb ib ds) =
     map (\<lambda>k. (h0 + k, blas_desc vb ib (ds ! k))) [0..<length ds]"
  unfolding blases_events_def by (rule submitted_builds_blas_all)

lemma Scene_submitted_builds:
  assumes "Scene inv4 dev stage = (Inr sc, dev')"
  shows "submitted_builds (trace dev') = submitted_builds (trace dev) @
           map (\<lambda>k. (next_handle dev + k,
                      blas_desc (vertex_buffer sc) (index_buffer sc) (mesh_descs sc ! k)))
             [0..<length (mesh_descs sc)] @
           [(next_handle dev + length (mesh_descs sc),
             tlas_desc (scene_transforms sc) (blases sc) (instance_descs sc))]"
  unfolding Scene_Inr(14)[OF assms]
  by (simp add: submitted_builds_append submitted_builds_prepare submitted_builds_blas_all
      submitted_builds_writes submitted_builds_tlas_events submitted_builds_Cons)

lemma map_of_rev_upt:
  "k < n \<Longrightarrow> map_of (rev (map (\<lambda>k. (h0 + k, f k)) [0..<n])) (h0 + k) = Some (f k)"
  by (induction n) (auto simp: less_Suc_eq)

lemma Scene_built_from_tlas:
  assumes "Scene inv4 dev stage = (Inr sc, dev')"
  shows "built_from (trace dev') (handle (tlas sc)) =
           Some (tlas_desc (scene_transforms sc) (blases sc) (instance_descs sc))"
  by (simp add: built_from_def Scene_submitted_builds[OF assms] Scene_Inr(12)[OF assms] tlas_of_def)

lemma Scene_built_from_blas:
  assumes "Scene inv4 dev stage = (Inr sc, dev')" and "k < length (mesh_descs sc)"
  shows "handle (blases sc ! k) = next_handle dev + k"
    and "built_from (trace dev') (handle (blases sc ! k)) =
           Some (blas_desc (vertex_buffer sc) (index_buffer sc) (mesh_descs sc ! k))"
proof -
  show h: "handle (blases sc ! k) = next_handle dev + k"
    using assms(2) by (simp add: Scene_Inr(11)[OF assms(1)])
  show "built_from (trace dev') (handle (blases sc ! k)) =
           Some (blas_desc (vertex_buffer sc) (index_buffer sc) (mesh_descs sc ! k))"
    using assms(2)
    by (simp add: built_from_def Scene_submitted_builds[OF assms(1)] h map_of_rev_upt
        map_add_find_right)
qed

lemma concat_nth_range:
  "k < length xss \<Longrightarrow>
     take (length (xss ! k)) (drop (sum_list (map length (take k xss))) (concat xss)) = xss ! k"
proof (induction xss arbitrary: k)
  case Nil
  then show ?case by simp
next
  case (Cons xs xss)
  then show ?case by (cases k) simp_all
qed

subsection \<open>Counts\<close>

lemma mesh_descs_counts:
  "map desc_vertex_count (fst (mesh_descs_loop ms 0 0 [])) = map vertex_count ms"
  "map desc_index_count (fst (mesh_descs_loop ms 0 0 [])) = map index_count ms"
  by (rule nth_equalityI; simp add: mesh_descs_loop_closed)+

lemma length_flat_indices: "length (flat_indices ts) = 3 * length ts"
  by (induction ts) (auto simp: flat_indices_def)

lemma flat_indices_concat:
  "flat_indices (concat tss) = concat (map flat_indices tss)"
  by (induction tss) (simp_all add: flat_indices_def)

text \<open>
  Claim C5. In every scene that \<open>Scene.__init__\<close> builds, the vertex counts of the mesh
  descriptors add up to the number of vertex records in the vertex buffer, and their index
  counts add up to the number of indices in the index buffer.
\<close>

theorem descriptor_counts_sum_to_buffer_lengths:
  assumes "Scene inv4 dev stage = (Inr sc, dev')"
  shows "sum_list (map desc_vertex_count (mesh_descs sc)) =
           length (vertex_records (vertex_buffer sc)) \<and>
         sum_list (map desc_index_count (mesh_descs sc)) =
           length (index_values (index_buffer sc))"
  by (simp add: Scene_Inr(1,2,3)[OF assms] mesh_descs_counts vertex_records_def
      index_values_def length_concat_vertices sum_index_count length_flat_indices)

subsection \<open>The quad and cube scene\<close>

lemma quad_cube_stage_eq:
  "quad_cube_stage = \<lparr>stage_camera = Camera,
     materials = [\<lparr>base_color = Float3 0.5 0.5 0.5\<rparr>],
     meshes = [create_quad (Float2 1 1), create_cube (Float3 1 1 1)],
     transforms = [Transform, Transform],
     instances = [(0, 0, 0), (1, 0, 1)]\<rparr>"
  by (simp add: quad_cube_stage_def Stage_def add_material_def add_mesh_def add_transform_def
      add_instance_def)

lemma quad_counts:
  "vertex_count (create_quad s) = 4" "index_count (create_quad s) = 6"
  "length (vertices (create_quad s)) = 4" "length (indices (create_quad s)) = 2"
  by (simp_all add: vertex_count_def index_count_def triangle_count_def create_quad_def)

lemma cube_counts:
  "vertex_count (create_cube s) = 24" "index_count (create_cube s) = 36"
  "length (vertices (create_cube s)) = 24" "length (indices (create_cube s)) = 12"
  by (simp_all add: vertex_count_def index_count_def triangle_count_def create_cube_def)

lemma quad_cube_succeeds:
  "\<exists>sc dev'. Scene inv4 dev quad_cube_stage = (Inr sc, dev')"
  by (rule Scene_succeeds)
     (simp_all add: quad_cube_stage_eq quad_counts cube_counts MeshDesc_pack_def
        InstanceDesc_pack_def pack_I_def)

lemma quad_cube_built:
  "Scene inverse_diagonal device0 quad_cube_stage = (Inr quad_cube_scene, quad_cube_device)"
  using quad_cube_succeeds[of inverse_diagonal device0]
  by (auto simp: quad_cube_scene_def quad_cube_device_def)

theorem descriptor_counts_witness:
  "Scene inverse_diagonal device0 quad_cube_stage = (Inr quad_cube_scene, quad_cube_device) \<and>
   sum_list (map desc_vertex_count (mesh_descs quad_cube_scene)) =
     length (vertex_records (vertex_buffer quad_cube_scene)) \<and>
   sum_list (map desc_index_count (mesh_descs quad_cube_scene)) =
     length (index_values (index_buffer quad_cube_scene))"
  using descriptor_counts_sum_to_buffer_lengths[OF quad_cube_built] quad_cube_built
  by simp

lemma bottom_level_builds_Scene:
  assumes "Scene inv4 dev stage = (Inr sc, dev')"
  shows "bottom_level_builds (new_events dev dev') =
           map (\<lambda>k. (next_handle dev + k,
                      blas_desc (vertex_buffer sc) (index_buffer sc) (mesh_descs sc ! k)))
             [0..<length (mesh_descs sc)]"
proof -
  have "submitted_builds (new_events dev dev') =
           map (\<lambda>k. (next_handle dev + k,
                      blas_desc (vertex_buffer sc) (index_buffer sc) (mesh_descs sc ! k)))
             [0..<length (mesh_descs sc)] @
           [(next_handle dev + length (mesh_descs sc),
             tlas_desc (scene_transforms sc) (blases sc) (instance_descs sc))]"
    unfolding new_events_def Scene_Inr(14)[OF assms]
    by (simp add: submitted_builds_append submitted_builds_prepare submitted_builds_blas_all
      submitted_builds_writes submitted_builds_tlas_events submitted_builds_Cons)
  then show ?thesis
    by (simp add: bottom_level_builds_def blas_desc_def tlas_desc_def filter_map comp_def)
qed

text \<open>
  Claim C3, as amended. The scene built from one quad mesh and one cube mesh with one
  instance of each at an identity transform has 28 vertex records in its vertex buffer and
  42 indices (14 triangles of 3) in its index buffer; exactly 2 bottom-level structures
  are built; and the top-level structure is built from exactly 2 instance records, both
  written.
\<close>

theorem quad_cube_scene_sizes:
  "\<exists>sc dev'. Scene inv4 device0 quad_cube_stage = (Inr sc, dev') \<and>
     length (vertex_records (vertex_buffer sc)) = 28 \<and>
     length (index_values (index_buffer sc)) = 42 \<and>
     length (blases sc) = 2 \<and>
     length (bottom_level_builds (new_events device0 dev')) = 2 \<and>
     length (built_instances (trace dev') (handle (tlas sc))) = 2 \<and>
     list_all (\<lambda>r. r \<noteq> None) (built_instances (trace dev') (handle (tlas sc)))"
proof -
  obtain sc dev' where s: "Scene inv4 device0 quad_cube_stage = (Inr sc, dev')"
    using quad_cube_succeeds by blast
  note S = Scene_Inr[OF s]
  have md: "length (mesh_descs sc) = 2"
    by (simp add: S(1) mesh_descs_loop_closed quad_cube_stage_eq)
  have "length (vertex_records (vertex_buffer sc)) = 28"
    by (simp add: S(2) vertex_records_def length_concat_vertices quad_cube_stage_eq
        quad_counts cube_counts)
  moreover have "length (index_values (index_buffer sc)) = 42"
    using sum_index_count[of "meshes quad_cube_stage"]
    by (simp add: S(3) index_values_def length_flat_indices quad_cube_stage_eq
        quad_counts cube_counts)
  moreover have "length (blases sc) = 2"
    by (simp add: S(11) md)
  moreover have "length (bottom_level_builds (new_events device0 dev')) = 2"
    by (simp add: bottom_level_builds_Scene[OF s] md)
  moreover have bi: "built_instances (trace dev') (handle (tlas sc)) =
      tlas_records (scene_transforms sc) (blases sc) (instance_descs sc)"
    by (simp add: built_instances_def Scene_built_from_tlas[OF s] tlas_desc_def)
  moreover have "length (tlas_records (scene_transforms sc) (blases sc) (instance_descs sc)) = 2"
    by (simp add: tlas_records_def S(4) quad_cube_stage_eq)
  moreover have "list_all (\<lambda>r. r \<noteq> None)
      (tlas_records (scene_transforms sc) (blases sc) (instance_descs sc))"
    by (simp add: tlas_records_def list_all_iff)
  ultimately show ?thesis using s by auto
qed

text \<open>
  Claim C3 as stated asks for an index buffer of length 90. The quad has 2 triangles and
  the cube 12, so the index buffer of this scene holds 42 indices, not 90.
\<close>

theorem quad_cube_index_buffer_is_not_90:
  "\<not> isl (fst (Scene inverse_diagonal device0 quad_cube_stage)) \<and>
   length (index_values (index_buffer quad_cube_scene)) = 42 \<and>
   length (index_values (index_buffer quad_cube_scene)) \<noteq> 90"
proof -
  have "length (index_values (index_buffer quad_cube_scene)) = 42"
    using sum_index_count[of "meshes quad_cube_stage"]
    by (simp add: Scene_Inr(3)[OF quad_cube_built] index_values_def length_flat_indices
        quad_cube_stage_eq quad_counts cube_counts)
  then show ?thesis by (simp add: quad_cube_built)
qed

subsection \<open>Bottom-level build inputs\<close>

lemma mesh_descs_nth:
  "k < length ms \<Longrightarrow>
     fst (mesh_descs_loop ms 0 0 []) ! k =
       \<lparr>desc_vertex_count = vertex_count (ms ! k),
        desc_index_count = index_count (ms ! k),
        vertex_offset = sum_list (map vertex_count (take k ms)),
        index_offset = sum_list (map index_count (take k ms))\<rparr>"
  by (simp add: mesh_descs_loop_closed)

lemma vertex_range_of_mesh:
  assumes "k < length ms"
  shows "take (vertex_count (ms ! k))
           (drop (sum_list (map vertex_count (take k ms))) (concat (map vertices ms))) =
         vertices (ms ! k)"
proof -
  have off: "sum_list (map vertex_count (take k ms)) =
        sum_list (map length (take k (map vertices ms)))"
    by (simp add: take_map comp_def vertex_count_def[abs_def])
  have cnt: "vertex_count (ms ! k) = length (map vertices ms ! k)"
    using assms by (simp add: vertex_count_def)
  have "map vertices ms ! k = vertices (ms ! k)" using assms by simp
  then show ?thesis
    unfolding off cnt using concat_nth_range[of k "map vertices ms"] assms by simp
qed

lemma index_range_of_mesh:
  assumes "k < length ms"
  shows "take (index_count (ms ! k))
           (drop (sum_list (map index_count (take k ms)))
              (flat_indices (concat (map indices ms)))) =
         flat_indices (indices (ms ! k))"
proof -
  let ?xss = "map (\<lambda>m. flat_indices (indices m)) ms"
  have off: "sum_list (map index_count (take k ms)) = sum_list (map length (take k ?xss))"
    by (simp add: take_map comp_def index_count_def[abs_def] triangle_count_def[abs_def]
        length_flat_indices mult.commute)
  have cnt: "index_count (ms ! k) = length (?xss ! k)"
    using assms
    by (simp add: index_count_def triangle_count_def length_flat_indices mult.commute)
  have cc: "flat_indices (concat (map indices ms)) = concat ?xss"
    by (simp add: flat_indices_concat comp_def)
  have "?xss ! k = flat_indices (indices (ms ! k))" using assms by simp
  then show ?thesis
    unfolding off cnt cc using concat_nth_range[of k ?xss] assms by simp
qed

text \<open>
  Claim C8. In every scene that \<open>Scene.__init__\<close> builds, the bottom-level structure of
  mesh descriptor \<open>k\<close> is built from a triangle input that reads the shared vertex buffer
  from byte offset \<open>vertex_offset * 32\<close> at a stride of 32 bytes for \<open>vertex_count\<close>
  vertices, reads the shared index buffer from byte offset \<open>index_offset * 4\<close> for
  \<open>index_count\<close> indices, and is flagged opaque. The vertex records and the indices so
  selected are exactly those of mesh \<open>k\<close>.
\<close>

theorem blas_build_input_selects_mesh_subrange:
  assumes "Scene inv4 dev stage = (Inr sc, dev')" and "k < length (mesh_descs sc)"
  shows "\<exists>bi. built_from (trace dev') (handle (blases sc ! k)) =
                 Some \<lparr>inputs = [InputTriangles bi]\<rparr> \<and>
           vertex_buffers bi =
             [\<lparr>buffer = vertex_buffer sc, offset = vertex_offset (mesh_descs sc ! k) * 32\<rparr>] \<and>
           vertex_stride bi = 32 \<and>
           bi_vertex_count bi = desc_vertex_count (mesh_descs sc ! k) \<and>
           bi_index_buffer bi =
             \<lparr>buffer = index_buffer sc, offset = index_offset (mesh_descs sc ! k) * 4\<rparr> \<and>
           bi_index_count bi = desc_index_count (mesh_descs sc ! k) \<and>
           flags bi = opaque \<and>
           input_vertex_range bi = vertices (meshes stage ! k) \<and>
           input_index_range bi = flat_indices (indices (meshes stage ! k))"
proof -
  note S = Scene_Inr[OF assms(1)]
  from assms(2) have k: "k < length (meshes stage)"
    by (simp add: S(1) mesh_descs_loop_closed)
  let ?bi = "blas_build_input (vertex_buffer sc) (index_buffer sc) (mesh_descs sc ! k)"
  have "built_from (trace dev') (handle (blases sc ! k)) = Some \<lparr>inputs = [InputTriangles ?bi]\<rparr>"
    using Scene_built_from_blas(2)[OF assms] by (simp add: blas_desc_def)
  moreover have "input_vertex_range ?bi = vertices (meshes stage ! k)"
    using vertex_range_of_mesh[OF k]
    by (simp add: input_vertex_range_def blas_build_input_def S(1,2) mesh_descs_nth[OF k]
        vertex_records_def)
  moreover have "input_index_range ?bi = flat_indices (indices (meshes stage ! k))"
    using index_range_of_mesh[OF k]
    by (simp add: input_index_range_def blas_build_input_def S(1,3) mesh_descs_nth[OF k]
        index_values_def)
  ultimately show ?thesis
    by (intro exI[of _ ?bi]) (simp add: blas_build_input_def)
qed

theorem blas_build_input_witness:
  "Scene inverse_diagonal device0 quad_cube_stage = (Inr quad_cube_scene, quad_cube_device) \<and>
   (1::nat) < length (mesh_descs quad_cube_scene) \<and>
   (\<exists>bi. built_from (trace quad_cube_device) (handle (blases quad_cube_scene ! 1)) =
            Some \<lparr>inputs = [InputTriangles bi]\<rparr> \<and>
         vertex_buffers bi = [\<lparr>buffer = vertex_buffer quad_cube_scene, offset = 4 * 32\<rparr>] \<and>
         bi_vertex_count bi = 24 \<and>
         bi_index_buffer bi = \<lparr>buffer = index_buffer quad_cube_scene, offset = 6 * 4\<rparr> \<and>
         bi_index_count bi = 36 \<and>
         flags bi = opaque \<and>
         input_vertex_range bi = vertices (create_cube (Float3 1 1 1)))"
proof -
  have len: "(1::nat) < length (mesh_descs quad_cube_scene)"
    by (simp add: Scene_Inr(1)[OF quad_cube_built] mesh_descs_loop_closed quad_cube_stage_eq)
  have d: "mesh_descs quad_cube_scene ! Suc 0 =
      \<lparr>desc_vertex_count = 24, desc_index_count = 36, vertex_offset = 4, index_offset = 6\<rparr>"
    by (simp add: Scene_Inr(1)[OF quad_cube_built] mesh_descs_loop_closed quad_cube_stage_eq
        quad_counts cube_counts)
  from blas_build_input_selects_mesh_subrange[OF quad_cube_built len]
  show ?thesis
    using len quad_cube_built by (auto simp: d quad_cube_stage_eq)
qed

subsection \<open>Top-level instance records\<close>

lemma Scene_instance_ids_in_range:
  assumes s: "Scene inv4 dev stage = (Inr sc, dev')"
    and i: "i < length (instances stage)"
    and e: "instances stage ! i = (mid, mat, tid)"
  shows "0 \<le> mid \<and> mid < int (length (meshes stage)) \<and> mid < 2 ^ 32 \<and>
         0 \<le> mat \<and> mat < 2 ^ 32 \<and>
         0 \<le> tid \<and> tid < int (length (transforms stage)) \<and> tid < 2 ^ 32"
    and "tlas_instance_record (scene_transforms sc) (blases sc) i (instance_descs sc ! i) =
           Inr \<lparr>ir_transform = to_float3x4 (matrix (transforms stage ! nat tid)),
                instance_id = i, instance_mask = 0xFF,
                instance_contribution_to_hit_group_index = 0, ir_flags = instance_none,
                acceleration_structure = handle (blases sc ! nat mid)\<rparr>"
proof -
  note S = Scene_Inr[OF s]
  let ?d = "instance_descs sc ! i"
  have d: "?d = \<lparr>mesh_id = mid, material_id = mat, transform_id = tid\<rparr>"
    using i e by (simp add: S(4))
  have mem: "?d \<in> set (instance_descs sc)" using i by (simp add: S(4))
  from S(9) obtain ws where "join_packs InstanceDesc_pack (instance_descs sc) = Inr ws" by blast
  from join_packs_Inr_each[OF this mem] obtain w where "InstanceDesc_pack ?d = Inr w" by blast
  then have p: "pack_Is [mid, mat, tid] = Inr w" by (simp add: InstanceDesc_pack_def d)
  have r1: "0 \<le> mid \<and> mid < 2 ^ 32" using pack_Is_Inr_range[OF p, of mid] by simp
  have r2: "0 \<le> mat \<and> mat < 2 ^ 32" using pack_Is_Inr_range[OF p, of mat] by simp
  have r3: "0 \<le> tid \<and> tid < 2 ^ 32" using pack_Is_Inr_range[OF p, of tid] by simp
  have lb: "length (blases sc) = length (meshes stage)"
    by (simp add: S(11) S(1) mesh_descs_loop_closed)
  from S(13) i have "tlas_instance_record (scene_transforms sc) (blases sc) i ?d =
      Inr (projr (tlas_instance_record (scene_transforms sc) (blases sc) i ?d))"
    by (simp add: S(4))
  from tlas_instance_record_Inr[OF this] obtain t b where
    t: "py_index (scene_transforms sc) (transform_id ?d) = Inr t" and
    b: "py_index (blases sc) (mesh_id ?d) = Inr b"
    by blast
  from t r3 have tr: "tid < int (length (transforms stage))"
    by (simp add: d py_index_nonneg S(5))
  from b r1 have mr: "mid < int (length (meshes stage))"
    by (simp add: d py_index_nonneg lb)
  show "0 \<le> mid \<and> mid < int (length (meshes stage)) \<and> mid < 2 ^ 32 \<and>
         0 \<le> mat \<and> mat < 2 ^ 32 \<and>
         0 \<le> tid \<and> tid < int (length (transforms stage)) \<and> tid < 2 ^ 32"
    using r1 r2 r3 tr mr by simp
  show "tlas_instance_record (scene_transforms sc) (blases sc) i (instance_descs sc ! i) =
           Inr \<lparr>ir_transform = to_float3x4 (matrix (transforms stage ! nat tid)),
                instance_id = i, instance_mask = 0xFF,
                instance_contribution_to_hit_group_index = 0, ir_flags = instance_none,
                acceleration_structure = handle (blases sc ! nat mid)\<rparr>"
  proof -
    have nt: "nat tid < length (transforms stage)" using r3 tr by linarith
    show ?thesis
      using r1 r3 tr mr nt
      by (simp add: d tlas_instance_record_in_range S(5) lb)
  qed
qed

lemma Scene_built_instances:
  assumes "Scene inv4 dev stage = (Inr sc, dev')"
  shows "built_instances (trace dev') (handle (tlas sc)) =
           tlas_records (scene_transforms sc) (blases sc) (instance_descs sc)"
  by (simp add: built_instances_def Scene_built_from_tlas[OF assms] tlas_desc_def)

text \<open>
  Claim C7, as amended. In every scene that \<open>Scene.__init__\<close> builds, the top-level
  structure is built from one record per instance, and the record at position \<open>i\<close> holds:
  the 3\<times>4 form (the first three rows, so the linear part with any scaling in it, and the
  translation column) of the matrix of the transform the instance names, the instance
  identifier \<open>i\<close>, the mask \<open>0xFF\<close>, and the handle of the bottom-level structure at the
  position of the instance's mesh id. Both ids are within range.
\<close>

theorem tlas_record_of_instance:
  assumes "Scene inv4 dev stage = (Inr sc, dev')"
    and "i < length (instances stage)"
    and "instances stage ! i = (mid, mat, tid)"
  shows "length (built_instances (trace dev') (handle (tlas sc))) = length (instances stage) \<and>
         0 \<le> tid \<and> tid < int (length (transforms stage)) \<and>
         0 \<le> mid \<and> mid < int (length (blases sc)) \<and>
         built_instances (trace dev') (handle (tlas sc)) ! i =
           Some \<lparr>ir_transform = to_float3x4 (matrix (transforms stage ! nat tid)),
                 instance_id = i, instance_mask = 0xFF,
                 instance_contribution_to_hit_group_index = 0, ir_flags = instance_none,
                 acceleration_structure = handle (blases sc ! nat mid)\<rparr>"
proof -
  note S = Scene_Inr[OF assms(1)]
  note R = Scene_instance_ids_in_range[OF assms]
  have lb: "length (blases sc) = length (meshes stage)"
    by (simp add: S(11) S(1) mesh_descs_loop_closed)
  have "built_instances (trace dev') (handle (tlas sc)) ! i =
      Some (projr (tlas_instance_record (scene_transforms sc) (blases sc) i (instance_descs sc ! i)))"
    using assms(2) by (simp add: Scene_built_instances[OF assms(1)] tlas_records_def S(4))
  then show ?thesis
    using R by (simp add: lb Scene_built_instances[OF assms(1)] tlas_records_def S(4))
qed

theorem tlas_record_witness:
  "Scene inverse_diagonal device0 quad_cube_stage = (Inr quad_cube_scene, quad_cube_device) \<and>
   (1::nat) < length (instances quad_cube_stage) \<and>
   instances quad_cube_stage ! 1 = (1, 0, 1) \<and>
   built_instances (trace quad_cube_device) (handle (tlas quad_cube_scene)) ! 1 =
     Some \<lparr>ir_transform = [[1, 0, 0, 0], [0, 1, 0, 0], [0, 0, 1, 0]],
           instance_id = 1, instance_mask = 255,
           instance_contribution_to_hit_group_index = 0, ir_flags = instance_none,
           acceleration_structure = handle (blases quad_cube_scene ! 1)\<rparr>"
proof -
  have i: "(1::nat) < length (instances quad_cube_stage)"
    and e: "instances quad_cube_stage ! 1 = (1, 0, 1)"
    by (simp_all add: quad_cube_stage_eq)
  from tlas_record_of_instance[OF quad_cube_built i e]
  show ?thesis using i e quad_cube_built
    by (simp add: quad_cube_stage_eq Transform_def identity4x4_def to_float3x4_def)
qed

lemma scaled_quad_stage_eq:
  "scaled_quad_stage = \<lparr>stage_camera = Camera,
     materials = [\<lparr>base_color = Float3 0.5 0.5 0.5\<rparr>],
     meshes = [create_quad (Float2 1 1)],
     transforms = [Transform\<lparr>scaling := Float3 2 2 2,
                matrix := [[2, 0, 0, 0], [0, 2, 0, 0], [0, 0, 2, 0], [0, 0, 0, 1]]\<rparr>],
     instances = [(0, 0, 0)]\<rparr>"
  by (simp add: scaled_quad_stage_def Stage_def add_material_def add_mesh_def add_transform_def
      add_instance_def)

lemma scaled_quad_built:
  "Scene inverse_diagonal device0 scaled_quad_stage = (Inr scaled_quad_scene, scaled_quad_device)"
proof -
  have "\<exists>sc dev'. Scene inverse_diagonal device0 scaled_quad_stage = (Inr sc, dev')"
    by (rule Scene_succeeds)
       (simp_all add: scaled_quad_stage_eq quad_counts MeshDesc_pack_def
          InstanceDesc_pack_def pack_I_def)
  then show ?thesis
    by (auto simp: scaled_quad_scene_def scaled_quad_device_def)
qed

lemma update_matrix_scaling:
  assumes "rot (rotation t) = identity4x4" and "translation t = Float3 0 0 0"
    and "scaling t = Float3 2 2 2"
  shows "matrix (update_matrix rot t) = [[2, 0, 0, 0], [0, 2, 0, 0], [0, 0, 2, 0], [0, 0, 0, 1]]"
  using assms
  by (simp add: update_matrix_def Let_def mul_def dot_def matrix_from_translation_def
      matrix_from_scaling_def identity4x4_def)

text \<open>
  Claim C7 as stated calls the record's transform ``rotation+translation only''. The
  record holds the first three rows of the stored matrix, scaling included: for an
  instance whose transform scales by 2, the 3\<times>3 block of the record is twice the
  identity, which is no rotation.
\<close>

theorem scaled_instance_record_keeps_scaling:
  "\<not> isl (fst (Scene inverse_diagonal device0 scaled_quad_stage)) \<and>
   map (map_option ir_transform)
     (built_instances (trace scaled_quad_device) (handle (tlas scaled_quad_scene))) =
     [Some [[2, 0, 0, 0], [0, 2, 0, 0], [0, 0, 2, 0]]] \<and>
   \<not> rotation_translation_only [[2, 0, 0, 0], [0, 2, 0, 0], [0, 0, 2, 0]]"
proof -
  have i: "(0::nat) < length (instances scaled_quad_stage)"
    and e: "instances scaled_quad_stage ! 0 = (0, 0, 0)"
    by (simp_all add: scaled_quad_stage_eq)
  note R = Scene_instance_ids_in_range(2)[OF scaled_quad_built i e]
  have "built_instances (trace scaled_quad_device) (handle (tlas scaled_quad_scene)) =
      [Some (projr (tlas_instance_record (scene_transforms scaled_quad_scene)
          (blases scaled_quad_scene) 0 (instance_descs scaled_quad_scene ! 0)))]"
    by (simp add: Scene_built_instances[OF scaled_quad_built] tlas_records_def
        Scene_Inr(4)[OF scaled_quad_built] scaled_quad_stage_eq)
  then have "map (map_option ir_transform)
     (built_instances (trace scaled_quad_device) (handle (tlas scaled_quad_scene))) =
     [Some [[2, 0, 0, 0], [0, 2, 0, 0], [0, 0, 2, 0]]]"
    by (simp add: R scaled_quad_stage_eq to_float3x4_def)
  moreover have "\<not> rotation_translation_only [[2, 0, 0, 0], [0, 2, 0, 0], [0, 0, 2, 0]]"
    by (simp add: rotation_translation_only_def dot_def)
  ultimately show ?thesis by (simp add: scaled_quad_built)
qed

subsection \<open>The order of events, whatever the outcome\<close>

lemma Scene_any:
  assumes "Scene inv4 dev stage = (res, dev')"
  shows "(\<exists>e. Scene_prepare inv4 dev stage = (Inl e, dev') \<and> res = Inl e) \<or>
         (\<exists>sb dev1 m rest.
            Scene_prepare inv4 dev stage = (Inr sb, dev1) \<and>
            m \<le> length (instance_descs sb) \<and>
            trace dev' = trace dev @
              (prepare_events @
               blases_events (sizes_of dev) (next_handle dev) (vertex_buffer sb)
                 (index_buffer sb) (mesh_descs sb) @
               [CreateInstanceList (length (instance_descs sb))]) @
              map (\<lambda>i. WriteInstance i
                     (projr (tlas_instance_record (scene_transforms sb)
                        (blases_of (sizes_of dev) (next_handle dev) (vertex_buffer sb)
                           (index_buffer sb) (mesh_descs sb))
                        i (instance_descs sb ! i))))
                [0..<m] @
              rest \<and>
            (\<forall>i<m. tlas_instance_record (scene_transforms sb)
                        (blases_of (sizes_of dev) (next_handle dev) (vertex_buffer sb)
                           (index_buffer sb) (mesh_descs sb))
                        i (instance_descs sb ! i) =
                    Inr (projr (tlas_instance_record (scene_transforms sb)
                        (blases_of (sizes_of dev) (next_handle dev) (vertex_buffer sb)
                           (index_buffer sb) (mesh_descs sb))
                        i (instance_descs sb ! i)))) \<and>
            (isl res \<longrightarrow> rest = [] \<and> m < length (instance_descs sb) \<and>
               tlas_instance_record (scene_transforms sb)
                        (blases_of (sizes_of dev) (next_handle dev) (vertex_buffer sb)
                           (index_buffer sb) (mesh_descs sb))
                        m (instance_descs sb ! m) = Inl (projl res)) \<and>
            (\<not> isl res \<longrightarrow> m = length (instance_descs sb) \<and>
               rest = tlas_build_events (sizes_of dev)
                        (next_handle dev + length (mesh_descs sb)) (scene_transforms sb)
                        (blases_of (sizes_of dev) (next_handle dev) (vertex_buffer sb)
                           (index_buffer sb) (mesh_descs sb))
                        (instance_descs sb)))"
proof (cases "Scene_prepare inv4 dev stage")
  case (Pair r dev1)
  show ?thesis
  proof (cases r)
    case (Inl e)
    with Pair assms show ?thesis by (auto simp: Scene_def)
  next
    case (Inr sb)
    note p = Pair[unfolded Inr]
    note P = Scene_prepare_Inr[OF p]
    let ?bl = "blases_of (sizes_of dev) (next_handle dev) (vertex_buffer sb)
                           (index_buffer sb) (mesh_descs sb)"
    let ?dev2 = "dev1\<lparr>trace := trace dev1 @
              blases_events (sizes_of dev) (next_handle dev) (vertex_buffer sb)
                 (index_buffer sb) (mesh_descs sb),
          next_handle := next_handle dev + length (mesh_descs sb)\<rparr>"
    have b: "build_blases dev1 (vertex_buffer sb) (index_buffer sb) (mesh_descs sb) = (?bl, ?dev2)"
      unfolding build_blases_eq by (simp add: P(12,13) blases_of_def blases_events_def)
    obtain tres where tr: "build_tlas ?dev2 (instance_descs sb) (scene_transforms sb) ?bl = (tres, dev')"
      and il: "isl tres = isl res" and pl: "isl res \<longrightarrow> projl tres = projl res"
      using assms p b by (auto simp: Scene_def split: prod.splits sum.splits)
    from build_tlas_any[OF tr] obtain m rest where
      m: "m \<le> length (instance_descs sb)" and
      tt: "trace dev' = trace ?dev2 @ [CreateInstanceList (length (instance_descs sb))] @
             map (\<lambda>i. WriteInstance i (projr (tlas_instance_record (scene_transforms sb) ?bl i
                (instance_descs sb ! i)))) [0..<m] @ rest" and
      ok: "\<forall>i<m. tlas_instance_record (scene_transforms sb) ?bl i (instance_descs sb ! i) =
                Inr (projr (tlas_instance_record (scene_transforms sb) ?bl i (instance_descs sb ! i)))" and
      bad: "isl tres \<longrightarrow> rest = [] \<and> m < length (instance_descs sb) \<and>
              tlas_instance_record (scene_transforms sb) ?bl m (instance_descs sb ! m) = Inl (projl tres)" and
      good: "\<not> isl tres \<longrightarrow> m = length (instance_descs sb) \<and>
              rest = tlas_build_events (sizes_of ?dev2) (next_handle ?dev2) (scene_transforms sb) ?bl
                 (instance_descs sb)"
      by blast
    have "\<exists>m rest. m \<le> length (instance_descs sb) \<and>
            trace dev' = trace dev @
              (prepare_events @
               blases_events (sizes_of dev) (next_handle dev) (vertex_buffer sb)
                 (index_buffer sb) (mesh_descs sb) @
               [CreateInstanceList (length (instance_descs sb))]) @
              map (\<lambda>i. WriteInstance i
                     (projr (tlas_instance_record (scene_transforms sb) ?bl
                        i (instance_descs sb ! i))))
                [0..<m] @
              rest \<and>
            (\<forall>i<m. tlas_instance_record (scene_transforms sb) ?bl
                        i (instance_descs sb ! i) =
                    Inr (projr (tlas_instance_record (scene_transforms sb) ?bl
                        i (instance_descs sb ! i)))) \<and>
            (isl res \<longrightarrow> rest = [] \<and> m < length (instance_descs sb) \<and>
               tlas_instance_record (scene_transforms sb) ?bl
                        m (instance_descs sb ! m) = Inl (projl res)) \<and>
            (\<not> isl res \<longrightarrow> m = length (instance_descs sb) \<and>
               rest = tlas_build_events (sizes_of dev)
                        (next_handle dev + length (mesh_descs sb)) (scene_transforms sb) ?bl
                        (instance_descs sb))"
      using m tt ok bad good il pl
      by (intro exI[of _ m] exI[of _ rest]) (simp add: P(11,12,13))
    with p show ?thesis by blast
  qed
qed

lemma nth_in_prefix: "e \<in> set A \<Longrightarrow> \<exists>q<length A. (A @ B) ! q = e"
  by (auto simp: in_set_conv_nth nth_append)

lemma not_in_prefix_ge: "j < length (A @ B) \<Longrightarrow> (A @ B) ! j \<notin> set A \<Longrightarrow> length A \<le> j"
  by (rule ccontr) (simp add: nth_append)

lemma set_blases_events:
  "set (blases_events szs h0 vb ib ds) =
     (\<Union>k<length ds. set (blas_events szs vb ib (h0 + k) (ds ! k)))"
  by (auto simp: blases_events_def)

lemma prefix_events_plain:
  "WriteInstance i r \<notin> set (prepare_events @ blases_events szs h0 vb ib ds @ [CreateInstanceList n])"
  "Wait \<notin> set (prepare_events @ blases_events szs h0 vb ib ds @ [CreateInstanceList n])"
  by (auto simp: prepare_events_def set_blases_events blas_events_def)

lemma tlas_build_events_plain:
  "WriteInstance i r \<notin> set (tlas_build_events szs h ts bl ds)"
  "Wait \<notin> set (tlas_build_events szs h ts bl ds)"
  by (auto simp: tlas_build_events_def)

lemma blas_submit_in_events:
  "k < length ds \<Longrightarrow>
     SubmitCommandBuffer [BuildAccelerationStructure (blas_desc vb ib (ds ! k))
        (blases_of szs h0 vb ib ds ! k)
        \<lparr>buf_label = ''blas_scratch_buffer'',
         buf_data = Uninitialized (scratch_size (szs (blas_desc vb ib (ds ! k))))\<rparr>]
     \<in> set (blases_events szs h0 vb ib ds)"
  by (auto simp: set_blases_events blas_events_def blases_of_def intro!: bexI[of _ k])

lemma Scene_prepare_Inl_events:
  assumes "Scene_prepare inv4 dev stage = (Inl e, dev')"
  shows "\<exists>evs. trace dev' = trace dev @ evs \<and> set evs \<subseteq> set prepare_events"
  using Scene_prepare_any(1)[OF assms] .

subsection \<open>Instance ids out of range\<close>

lemma tlas_instance_record_Inl:
  "tlas_instance_record ts bl i d = Inl e \<Longrightarrow> e = IndexError"
  by (auto simp: tlas_instance_record_def py_index_def split: sum.splits if_splits)

lemma Scene_Inr_all_ids_in_range:
  assumes "Scene inv4 dev stage = (Inr sc, dev')"
    and "(mid, mat, tid) \<in> set (instances stage)"
  shows "0 \<le> mid \<and> mid < int (length (meshes stage)) \<and>
         0 \<le> tid \<and> tid < int (length (transforms stage))"
proof -
  from assms(2) obtain i where "i < length (instances stage)" "instances stage ! i = (mid, mat, tid)"
    by (auto simp: in_set_conv_nth)
  from Scene_instance_ids_in_range(1)[OF assms(1) this] show ?thesis by simp
qed

lemma Scene_failed_no_top_level_build:
  assumes s: "Scene inv4 dev stage = (res, dev')" and f: "isl res"
  shows "top_level_builds (new_events dev dev') = []"
proof -
  from Scene_any[OF s] show ?thesis
  proof (elim disjE exE conjE)
    fix e assume p: "Scene_prepare inv4 dev stage = (Inl e, dev')"
    from Scene_prepare_any(1)[OF p] obtain evs where
      evs: "trace dev' = trace dev @ evs" "set evs \<subseteq> set prepare_events" by blast
    have "new_events dev dev' = evs" by (simp add: new_events_def evs(1))
    then show ?thesis
      by (simp add: top_level_builds_def submitted_builds_subset_prepare[OF evs(2)])
  next
    fix sb dev1 m rest
    let ?A = "prepare_events @ blases_events (sizes_of dev) (next_handle dev) (vertex_buffer sb)
                 (index_buffer sb) (mesh_descs sb) @
               [CreateInstanceList (length (instance_descs sb))]"
    let ?W = "map (\<lambda>i. WriteInstance i
                     (projr (tlas_instance_record (scene_transforms sb)
                        (blases_of (sizes_of dev) (next_handle dev) (vertex_buffer sb)
                           (index_buffer sb) (mesh_descs sb))
                        i (instance_descs sb ! i))))
                [0..<m]"
    assume tr: "trace dev' = trace dev @ ?A @ ?W @ rest"
      and bad: "isl res \<longrightarrow> rest = [] \<and> m < length (instance_descs sb) \<and>
               tlas_instance_record (scene_transforms sb)
                        (blases_of (sizes_of dev) (next_handle dev) (vertex_buffer sb)
                           (index_buffer sb) (mesh_descs sb))
                        m (instance_descs sb ! m) = Inl (projl res)"
    from bad f have rest: "rest = []" by simp
    have n: "new_events dev dev' = ?A @ ?W" by (simp add: new_events_def tr rest)
    show ?thesis
      unfolding n top_level_builds_def
      by (simp add: submitted_builds_append submitted_builds_prepare
          submitted_builds_blases_events submitted_builds_writes submitted_builds_Cons
          submitted_builds_Nil blas_desc_def filter_map comp_def)
  qed
qed

text \<open>
  Claim C1, as amended. \<open>Scene.__init__\<close> raises if any instance names a mesh id or a
  transform id outside the range of the stage's mesh list or transform list, and in that
  case no top-level build is submitted. (Nothing is said for material ids, and nothing
  about bottom-level builds: they may already have been submitted when the error is
  raised.)
\<close>

theorem out_of_range_mesh_or_transform_id_is_rejected:
  assumes "(mid, mat, tid) \<in> set (instances stage)"
    and "\<not> (0 \<le> mid \<and> mid < int (length (meshes stage))) \<or>
         \<not> (0 \<le> tid \<and> tid < int (length (transforms stage)))"
  shows "isl (fst (Scene inv4 dev stage)) \<and>
         top_level_builds (new_events dev (snd (Scene inv4 dev stage))) = []"
proof -
  obtain res dev' where s: "Scene inv4 dev stage = (res, dev')"
    by (cases "Scene inv4 dev stage")
  have f: "isl res"
  proof (cases res)
    case (Inr sc)
    from Scene_Inr_all_ids_in_range[OF s[unfolded Inr] assms(1)] assms(2)
    show ?thesis by simp
  qed simp
  from Scene_failed_no_top_level_build[OF s f] f show ?thesis by (simp add: s)
qed

lemma bad_material_stage_eq:
  "bad_material_stage = \<lparr>stage_camera = Camera,
     materials = [\<lparr>base_color = Float3 0.5 0.5 0.5\<rparr>],
     meshes = [create_quad (Float2 1 1)],
     transforms = [Transform],
     instances = [(0, 5, 0)]\<rparr>"
  by (simp add: bad_material_stage_def Stage_def add_material_def add_mesh_def add_transform_def
      add_instance_def)

lemma bad_mesh_stage_eq:
  "bad_mesh_stage = \<lparr>stage_camera = Camera,
     materials = [\<lparr>base_color = Float3 0.5 0.5 0.5\<rparr>],
     meshes = [create_quad (Float2 1 1)],
     transforms = [Transform],
     instances = [(3, 0, 0)]\<rparr>"
  by (simp add: bad_mesh_stage_def Stage_def add_material_def add_mesh_def add_transform_def
      add_instance_def)

theorem out_of_range_id_witness:
  "(3, 0, 0) \<in> set (instances bad_mesh_stage) \<and>
   \<not> (0 \<le> (3::int) \<and> (3::int) < int (length (meshes bad_mesh_stage))) \<and>
   isl (fst (Scene inverse_diagonal device0 bad_mesh_stage)) \<and>
   top_level_builds
     (new_events device0 (snd (Scene inverse_diagonal device0 bad_mesh_stage))) = []"
proof -
  have a: "(3, 0, 0) \<in> set (instances bad_mesh_stage)"
    and b: "\<not> (0 \<le> (3::int) \<and> (3::int) < int (length (meshes bad_mesh_stage)))"
    by (simp_all add: bad_mesh_stage_eq)
  from b have b': "\<not> (0 \<le> (3::int) \<and> (3::int) < int (length (meshes bad_mesh_stage))) \<or>
         \<not> (0 \<le> (0::int) \<and> (0::int) < int (length (transforms bad_mesh_stage)))" by simp
  from out_of_range_mesh_or_transform_id_is_rejected[OF a b', of inverse_diagonal device0]
  show ?thesis using a b by simp
qed

text \<open>
  Claim C1 as stated has every out-of-range id rejected before any acceleration structure
  is built. An instance naming material 5 of a stage with one material is accepted: the
  scene is built. An instance naming mesh 3 of a stage with one mesh is rejected with an
  \<open>IndexError\<close> only when its top-level record is made, after the bottom-level build of
  the one mesh has been submitted.
\<close>

theorem bad_ids_not_validated_before_builds:
  "\<not> isl (fst (Scene inverse_diagonal device0 bad_material_stage)) \<and>
   fst (Scene inverse_diagonal device0 bad_mesh_stage) = Inl IndexError \<and>
   length (bottom_level_builds
     (new_events device0 (snd (Scene inverse_diagonal device0 bad_mesh_stage)))) = 1"
proof -
  have "\<exists>sc dev'. Scene inverse_diagonal device0 bad_material_stage = (Inr sc, dev')"
    by (rule Scene_succeeds)
       (simp_all add: bad_material_stage_eq quad_counts MeshDesc_pack_def
          InstanceDesc_pack_def pack_I_def)
  then have m: "\<not> isl (fst (Scene inverse_diagonal device0 bad_material_stage))" by auto
  obtain res dev' where s: "Scene inverse_diagonal device0 bad_mesh_stage = (res, dev')"
    by (cases "Scene inverse_diagonal device0 bad_mesh_stage")
  have f: "isl res"
  proof (cases res)
    case (Inr sc)
    have "(3, 0, 0) \<in> set (instances bad_mesh_stage)" by (simp add: bad_mesh_stage_eq)
    from Scene_Inr_all_ids_in_range[OF s[unfolded Inr] this]
    show ?thesis by (simp add: bad_mesh_stage_eq)
  qed simp
  have ps: "\<exists>sb dev1. Scene_prepare inverse_diagonal device0 bad_mesh_stage = (Inr sb, dev1)"
    by (rule Scene_prepare_succeeds)
       (simp_all add: bad_mesh_stage_eq quad_counts MeshDesc_pack_def
          InstanceDesc_pack_def pack_I_def)
  from Scene_any[OF s] ps f
  obtain sb dev1 m where
    p: "Scene_prepare inverse_diagonal device0 bad_mesh_stage = (Inr sb, dev1)" and
    tr: "trace dev' = trace device0 @
              (prepare_events @
               blases_events (sizes_of device0) (next_handle device0) (vertex_buffer sb)
                 (index_buffer sb) (mesh_descs sb) @
               [CreateInstanceList (length (instance_descs sb))]) @
              map (\<lambda>i. WriteInstance i
                     (projr (tlas_instance_record (scene_transforms sb)
                        (blases_of (sizes_of device0) (next_handle device0) (vertex_buffer sb)
                           (index_buffer sb) (mesh_descs sb))
                        i (instance_descs sb ! i))))
                [0..<m] @ []" and
    e: "tlas_instance_record (scene_transforms sb)
                        (blases_of (sizes_of device0) (next_handle device0) (vertex_buffer sb)
                           (index_buffer sb) (mesh_descs sb))
                        m (instance_descs sb ! m) = Inl (projl res)"
    by auto
  from tlas_instance_record_Inl[OF e] f have r: "res = Inl IndexError"
    by (cases res) simp_all
  have md: "length (mesh_descs sb) = 1"
    by (simp add: Scene_prepare_Inr(1)[OF p] mesh_descs_loop_closed bad_mesh_stage_eq)
  have "new_events device0 dev' = (prepare_events @
               blases_events (sizes_of device0) (next_handle device0) (vertex_buffer sb)
                 (index_buffer sb) (mesh_descs sb) @
               [CreateInstanceList (length (instance_descs sb))]) @
              map (\<lambda>i. WriteInstance i
                     (projr (tlas_instance_record (scene_transforms sb)
                        (blases_of (sizes_of device0) (next_handle device0) (vertex_buffer sb)
                           (index_buffer sb) (mesh_descs sb))
                        i (instance_descs sb ! i))))
                [0..<m]"
    by (simp add: new_events_def tr device0_def)
  then have "length (bottom_level_builds (new_events device0 dev')) = 1"
    by (simp add: bottom_level_builds_def submitted_builds_append submitted_builds_prepare
          submitted_builds_blases_events submitted_builds_writes submitted_builds_Cons
          submitted_builds_Nil blas_desc_def filter_map comp_def md)
  with m r show ?thesis by (simp add: s)
qed

subsection \<open>The submission order of the builds\<close>

lemma Scene_new_builds:
  assumes s: "Scene inv4 dev stage = (Inr sc, dev')"
  shows "submitted_builds (new_events dev dev') =
           map (\<lambda>k. (handle (blases sc ! k),
                      blas_desc (vertex_buffer sc) (index_buffer sc) (mesh_descs sc ! k)))
             [0..<length (meshes stage)] @
           [(handle (tlas sc), tlas_desc (scene_transforms sc) (blases sc) (instance_descs sc))]"
proof -
  note S = Scene_Inr[OF s]
  have n: "length (mesh_descs sc) = length (meshes stage)"
    by (simp add: S(1) mesh_descs_loop_closed)
  have "submitted_builds (new_events dev dev') =
           map (\<lambda>k. (next_handle dev + k,
                      blas_desc (vertex_buffer sc) (index_buffer sc) (mesh_descs sc ! k)))
             [0..<length (mesh_descs sc)] @
           [(next_handle dev + length (mesh_descs sc),
             tlas_desc (scene_transforms sc) (blases sc) (instance_descs sc))]"
    unfolding new_events_def S(14)
    by (simp add: submitted_builds_append submitted_builds_prepare submitted_builds_blas_all
      submitted_builds_writes submitted_builds_tlas_events submitted_builds_Cons)
  moreover have "map (\<lambda>k. (next_handle dev + k,
                      blas_desc (vertex_buffer sc) (index_buffer sc) (mesh_descs sc ! k)))
             [0..<length (mesh_descs sc)] =
        map (\<lambda>k. (handle (blases sc ! k),
                      blas_desc (vertex_buffer sc) (index_buffer sc) (mesh_descs sc ! k)))
             [0..<length (mesh_descs sc)]"
    by (rule map_cong) (simp_all add: Scene_built_from_blas(1)[OF s])
  moreover have "handle (tlas sc) = next_handle dev + length (mesh_descs sc)"
    by (simp add: S(12) tlas_of_def)
  ultimately show ?thesis by (simp add: n)
qed

lemma submit_in_blases_events:
  "SubmitCommandBuffer cmds \<in> set (blases_events szs h0 vb ib ds) \<Longrightarrow>
     \<exists>k<length ds. \<exists>b scratch.
        cmds = [BuildAccelerationStructure (blas_desc vb ib (ds ! k)) b scratch]"
  by (auto simp: set_blases_events blas_events_def split: if_splits)

lemma submit_in_tlas_build_events:
  "SubmitCommandBuffer cmds \<in> set (tlas_build_events szs h ts bl ds) \<Longrightarrow>
     \<exists>b scratch. cmds = [BuildAccelerationStructure (tlas_desc ts bl ds) b scratch]"
  by (auto simp: tlas_build_events_def)

lemma nth_after_prefix: "length A \<le> q \<Longrightarrow> (A @ B) ! q = B ! (q - length A)"
  by (simp add: nth_append)

lemma blas_desc_no_instances: "\<not> list_ex is_instances (inputs (blas_desc vb ib d))"
  by (simp add: blas_desc_def)

lemma tlas_build_events_nth:
  "j < length (tlas_build_events szs h ts bl ds) \<Longrightarrow>
   tlas_build_events szs h ts bl ds ! j = SubmitCommandBuffer cmds \<Longrightarrow>
   Suc j = length (tlas_build_events szs h ts bl ds)"
  by (cases j; simp add: tlas_build_events_def)
     (rename_tac j', case_tac j'; simp)

text \<open>
  Claim C9, as amended. During scene construction no blocking wait is made, and every
  command buffer submitted holds exactly one build: each build is recorded and submitted
  on its own, in program order. When construction succeeds, the builds submitted are, in
  this order, the bottom-level build of every mesh, in mesh order, and then the top-level
  build. When it fails, no build at all was submitted if the failure came while the
  buffers were prepared (the part of \<open>Scene.__init__\<close> before the first build, which is
  \<open>Scene_prepare\<close>), and otherwise exactly the bottom-level builds were, in mesh order, with
  the handles the device gave them. Whatever the outcome, every top-level instance record is written only after a
  bottom-level build for the structure it references has been submitted; and a top-level
  build is submitted only when construction succeeds, as the last event of the
  construction, after every bottom-level build and every instance write.
\<close>

theorem blas_builds_submitted_before_instance_writes:
  assumes s: "Scene inv4 dev stage = (res, dev')"
  shows "Wait \<notin> set (new_events dev dev') \<and>
         (\<forall>cmds. SubmitCommandBuffer cmds \<in> set (new_events dev dev') \<longrightarrow>
            (\<exists>desc b scratch. cmds = [BuildAccelerationStructure desc b scratch])) \<and>
         (\<forall>sc. res = Inr sc \<longrightarrow>
            submitted_builds (new_events dev dev') =
              map (\<lambda>k. (handle (blases sc ! k),
                         blas_desc (vertex_buffer sc) (index_buffer sc) (mesh_descs sc ! k)))
                [0..<length (meshes stage)] @
              [(handle (tlas sc),
                tlas_desc (scene_transforms sc) (blases sc) (instance_descs sc))]) \<and>
         (isl res \<longrightarrow>
            submitted_builds (new_events dev dev') =
              (if isl (fst (Scene_prepare inv4 dev stage)) then []
               else map (\<lambda>k. (next_handle dev + k,
                         blas_desc
                           \<lparr>buf_label = ''vertex_buffer'',
                            buf_data = Vertices (concat (map vertices (meshes stage)))\<rparr>
                           \<lparr>buf_label = ''index_buffer'',
                            buf_data = Triangles (concat (map indices (meshes stage)))\<rparr>
                           (fst (mesh_descs_loop (meshes stage) 0 0 []) ! k)))
                      [0..<length (meshes stage)])) \<and>
         (\<forall>j i r. j < length (new_events dev dev') \<and>
                  new_events dev dev' ! j = WriteInstance i r \<longrightarrow>
            (\<exists>q<j. \<exists>desc b scratch.
               new_events dev dev' ! q =
                 SubmitCommandBuffer [BuildAccelerationStructure desc b scratch] \<and>
               list_all is_triangles (inputs desc) \<and>
               handle b = acceleration_structure r)) \<and>
         (\<forall>q desc b scratch.
            q < length (new_events dev dev') \<and>
            new_events dev dev' ! q =
              SubmitCommandBuffer [BuildAccelerationStructure desc b scratch] \<and>
            list_ex is_instances (inputs desc) \<longrightarrow>
            \<not> isl res \<and> Suc q = length (new_events dev dev'))"
proof -
  from Scene_any[OF s] show ?thesis
  proof (elim disjE exE conjE)
    fix e assume p: "Scene_prepare inv4 dev stage = (Inl e, dev')" and r: "res = Inl e"
    from Scene_prepare_Inl_events[OF p] obtain evs where
      evs: "trace dev' = trace dev @ evs" "set evs \<subseteq> set prepare_events" by blast
    have n: "new_events dev dev' = evs" by (simp add: new_events_def evs(1))
    have plain: "Wait \<notin> set evs" "\<And>i r. WriteInstance i r \<notin> set evs"
      "\<And>cmds. SubmitCommandBuffer cmds \<notin> set evs"
      using evs(2) by (auto simp: prepare_events_def)
    have b: "submitted_builds evs = []"
      using evs(2) by (rule submitted_builds_subset_prepare)
    have ip: "isl (fst (Scene_prepare inv4 dev stage))" by (simp add: p)
    have at: "evs ! j \<noteq> WriteInstance i r \<and> evs ! j \<noteq> SubmitCommandBuffer cmds"
      if "j < length evs" for j i r cmds
      using plain(2,3) nth_mem[OF that] by metis
    show ?thesis unfolding n using plain(1,3) b r ip at by auto
  next
    fix sb :: scene_buffers and dev1 m rest
    let ?szs = "sizes_of dev" and ?h0 = "next_handle dev"
    let ?vb = "vertex_buffer sb" and ?ib = "index_buffer sb" and ?mds = "mesh_descs sb"
    let ?ts = "scene_transforms sb" and ?ds = "instance_descs sb"
    let ?bl = "blases_of ?szs ?h0 ?vb ?ib ?mds"
    let ?A = "prepare_events @ blases_events ?szs ?h0 ?vb ?ib ?mds @ [CreateInstanceList (length ?ds)]"
    let ?W = "map (\<lambda>i. WriteInstance i (projr (tlas_instance_record ?ts ?bl i (?ds ! i)))) [0..<m]"
    let ?T = "tlas_build_events ?szs (?h0 + length ?mds) ?ts ?bl ?ds"
    let ?E = "new_events dev dev'"
    assume p: "Scene_prepare inv4 dev stage = (Inr sb, dev1)"
      and tr: "trace dev' = trace dev @ ?A @ ?W @ rest"
      and ok: "\<forall>i<m. tlas_instance_record ?ts ?bl i (?ds ! i) =
                  Inr (projr (tlas_instance_record ?ts ?bl i (?ds ! i)))"
      and bad: "isl res \<longrightarrow> rest = [] \<and> m < length ?ds \<and>
                  tlas_instance_record ?ts ?bl m (?ds ! m) = Inl (projl res)"
      and good: "\<not> isl res \<longrightarrow> m = length ?ds \<and> rest = ?T"
    note P = Scene_prepare_Inr[OF p]
    have n: "?E = ?A @ (?W @ rest)" by (simp add: new_events_def tr)
    have n2: "?E = (?A @ ?W) @ rest" by (simp add: n)
    have rest: "isl res \<Longrightarrow> rest = []" "\<not> isl res \<Longrightarrow> rest = ?T"
      using bad good by simp_all
    have rest_plain: "Wait \<notin> set rest" "\<And>i r. WriteInstance i r \<notin> set rest"
      using rest tlas_build_events_plain by (cases "isl res"; auto)+
    have c1: "Wait \<notin> set ?E"
      unfolding n using prefix_events_plain(2)[of ?szs ?h0 ?vb ?ib ?mds "length ?ds"] rest_plain(1)
      by auto
    have sub: "SubmitCommandBuffer cmds \<in> set (blases_events ?szs ?h0 ?vb ?ib ?mds) \<or>
               SubmitCommandBuffer cmds \<in> set rest"
      if "SubmitCommandBuffer cmds \<in> set ?E" for cmds
      using that unfolding n by (auto simp: prepare_events_def)
    have c2: "\<exists>desc b scratch. cmds = [BuildAccelerationStructure desc b scratch]"
      if "SubmitCommandBuffer cmds \<in> set ?E" for cmds
    proof -
      from sub[OF that] show ?thesis
      proof
        assume "SubmitCommandBuffer cmds \<in> set (blases_events ?szs ?h0 ?vb ?ib ?mds)"
        from submit_in_blases_events[OF this] show ?thesis by blast
      next
        assume a: "SubmitCommandBuffer cmds \<in> set rest"
        then have "rest = ?T" using rest by (cases "isl res") auto
        with a submit_in_tlas_build_events show ?thesis by metis
      qed
    qed
    have c3a: "submitted_builds ?E =
              map (\<lambda>k. (handle (blases sc ! k),
                         blas_desc (vertex_buffer sc) (index_buffer sc) (mesh_descs sc ! k)))
                [0..<length (meshes stage)] @
              [(handle (tlas sc),
                tlas_desc (scene_transforms sc) (blases sc) (instance_descs sc))]"
      if "res = Inr sc" for sc
      using Scene_new_builds[OF s[unfolded that]] .
    have len: "length ?mds = length (meshes stage)"
      by (simp add: P(1) mesh_descs_loop_closed)
    have c3b: "submitted_builds ?E =
              map (\<lambda>k. (next_handle dev + k,
                         blas_desc
                           \<lparr>buf_label = ''vertex_buffer'',
                            buf_data = Vertices (concat (map vertices (meshes stage)))\<rparr>
                           \<lparr>buf_label = ''index_buffer'',
                            buf_data = Triangles (concat (map indices (meshes stage)))\<rparr>
                           (fst (mesh_descs_loop (meshes stage) 0 0 []) ! k)))
                [0..<length (meshes stage)]"
      if "isl res"
    proof -
      have "submitted_builds ?E =
          map (\<lambda>k. (?h0 + k, blas_desc ?vb ?ib (?mds ! k))) [0..<length ?mds]"
        unfolding n rest(1)[OF that]
        by (simp add: submitted_builds_append submitted_builds_prepare
            submitted_builds_blases_events submitted_builds_writes submitted_builds_Cons
            submitted_builds_Nil)
      then show ?thesis unfolding len unfolding P(1,2,3) .
    qed
    have c4: "\<exists>q<j. \<exists>desc b scratch.
               ?E ! q = SubmitCommandBuffer [BuildAccelerationStructure desc b scratch] \<and>
               list_all is_triangles (inputs desc) \<and>
               handle b = acceleration_structure r"
      if j: "j < length ?E" and e: "?E ! j = WriteInstance i r"
      for j i r
    proof -
      have notA: "(?A @ (?W @ rest)) ! j \<notin> set ?A"
        using e prefix_events_plain(1)[of i r ?szs ?h0 ?vb ?ib ?mds "length ?ds"]
        unfolding n by simp
      from not_in_prefix_ge[OF j[unfolded n] notA] have ge: "length ?A \<le> j" .
      have "WriteInstance i r \<in> set ?E" using j e by (metis nth_mem)
      then have "WriteInstance i r \<in> set ?W"
        unfolding n using prefix_events_plain(1)[of i r ?szs ?h0 ?vb ?ib ?mds "length ?ds"]
          rest_plain(2)[of i r] by auto
      then have im: "i < m" and r: "r = projr (tlas_instance_record ?ts ?bl i (?ds ! i))"
        by auto
      from ok im have "tlas_instance_record ?ts ?bl i (?ds ! i) = Inr r" by (simp add: r)
      from tlas_instance_record_Inr[OF this] obtain t b where
        b: "py_index ?bl (mesh_id (?ds ! i)) = Inr b" and rb: "acceleration_structure r = handle b"
        by auto
      from py_index_Inr_mem[OF b] obtain k where k: "k < length ?mds" and bk: "b = ?bl ! k"
        by (auto simp: in_set_conv_nth blases_of_def)
      let ?e = "SubmitCommandBuffer [BuildAccelerationStructure (blas_desc ?vb ?ib (?mds ! k))
        (?bl ! k)
        \<lparr>buf_label = ''blas_scratch_buffer'',
         buf_data = Uninitialized (scratch_size (?szs (blas_desc ?vb ?ib (?mds ! k))))\<rparr>]"
      have "?e \<in> set ?A" using blas_submit_in_events[OF k, of ?vb ?ib ?szs ?h0] by simp
      from nth_in_prefix[OF this, of "?W @ rest"] obtain q where
        q: "q < length ?A" and eq: "(?A @ (?W @ rest)) ! q = ?e" by blast
      have "q < j" using q ge by simp
      moreover have "?E ! q = ?e" unfolding n using eq .
      moreover have "list_all is_triangles (inputs (blas_desc ?vb ?ib (?mds ! k)))"
        by (simp add: blas_desc_def)
      moreover have "handle (?bl ! k) = acceleration_structure r" using rb bk by simp
      ultimately show ?thesis by blast
    qed
    have c5: "\<not> isl res \<and> Suc q = length ?E"
      if q: "q < length ?E"
        and e: "?E ! q = SubmitCommandBuffer [BuildAccelerationStructure desc b scratch]"
        and li: "list_ex is_instances (inputs desc)"
      for q desc b scratch
    proof -
      let ?e = "SubmitCommandBuffer [BuildAccelerationStructure desc b scratch]"
      have "?e \<notin> set (blases_events ?szs ?h0 ?vb ?ib ?mds)"
        using submit_in_blases_events[of "[BuildAccelerationStructure desc b scratch]"
                ?szs ?h0 ?vb ?ib ?mds] li blas_desc_no_instances
        by auto
      then have notAW: "?e \<notin> set (?A @ ?W)" by (auto simp: prepare_events_def)
      have "((?A @ ?W) @ rest) ! q \<notin> set (?A @ ?W)"
        using e notAW unfolding n2 by simp
      from not_in_prefix_ge[OF q[unfolded n2] this] have ge: "length (?A @ ?W) \<le> q" .
      have ne: "rest \<noteq> []" using q ge unfolding n2 by auto
      then have nl: "\<not> isl res" using rest(1) by blast
      then have rt: "rest = ?T" by (rule rest(2))
      have at: "rest ! (q - length (?A @ ?W)) = ?e"
        using e unfolding n2 nth_after_prefix[OF ge] .
      have lt: "q - length (?A @ ?W) < length rest"
        using q ge unfolding n2 by auto
      from tlas_build_events_nth[OF lt[unfolded rt] at[unfolded rt]]
      have "Suc (q - length (?A @ ?W)) = length rest" unfolding rt .
      then have "Suc q = length ?E" using ge unfolding n2 by simp
      with nl show ?thesis by simp
    qed
    have np: "\<not> isl (fst (Scene_prepare inv4 dev stage))" by (simp add: p)
    show ?thesis using c1 c2 c3a c3b c4 c5 np by (simp only: if_False) blast
  qed
qed

lemma quad_cube_new_events:
  "new_events device0 quad_cube_device =
     (prepare_events @
      concat (map (\<lambda>k. blas_events (sizes_of device0) (vertex_buffer quad_cube_scene)
                     (index_buffer quad_cube_scene) (next_handle device0 + k)
                     (mesh_descs quad_cube_scene ! k)) [0, 1]) @
      [CreateInstanceList 2]) @
     map (\<lambda>i. WriteInstance i
            (projr (tlas_instance_record (scene_transforms quad_cube_scene)
               (blases quad_cube_scene) i (instance_descs quad_cube_scene ! i)))) [0, 1] @
     tlas_build_events (sizes_of device0) (next_handle device0 + 2)
       (scene_transforms quad_cube_scene) (blases quad_cube_scene)
       (instance_descs quad_cube_scene)"
proof -
  note S = Scene_Inr[OF quad_cube_built]
  have md: "length (mesh_descs quad_cube_scene) = 2"
    by (simp add: S(1) mesh_descs_loop_closed quad_cube_stage_eq)
  have ds: "length (instance_descs quad_cube_scene) = 2"
    by (simp add: S(4) quad_cube_stage_eq)
  have u: "[0..<2] = [0, 1::nat]" by (simp add: upt_rec)
  show ?thesis
    unfolding new_events_def S(14) md ds u by (simp add: device0_def)
qed

lemma bad_mesh_scene_fails:
  "isl (fst (Scene inverse_diagonal device0 bad_mesh_stage))"
  "\<not> isl (fst (Scene_prepare inverse_diagonal device0 bad_mesh_stage))"
proof -
  obtain res dev' where s: "Scene inverse_diagonal device0 bad_mesh_stage = (res, dev')"
    by (cases "Scene inverse_diagonal device0 bad_mesh_stage")
  have "isl res"
  proof (cases res)
    case (Inr sc)
    have "(3, 0, 0) \<in> set (instances bad_mesh_stage)" by (simp add: bad_mesh_stage_eq)
    from Scene_Inr_all_ids_in_range[OF s[unfolded Inr] this]
    show ?thesis by (simp add: bad_mesh_stage_eq)
  qed simp
  then show "isl (fst (Scene inverse_diagonal device0 bad_mesh_stage))" by (simp add: s)
  have "\<exists>sb dev1. Scene_prepare inverse_diagonal device0 bad_mesh_stage = (Inr sb, dev1)"
    by (rule Scene_prepare_succeeds)
       (simp_all add: bad_mesh_stage_eq quad_counts MeshDesc_pack_def
          InstanceDesc_pack_def pack_I_def)
  then show "\<not> isl (fst (Scene_prepare inverse_diagonal device0 bad_mesh_stage))" by auto
qed

lemma quad_cube_tlas_submit:
  "length (new_events device0 quad_cube_device) = 19"
  "new_events device0 quad_cube_device ! 18 =
     SubmitCommandBuffer [BuildAccelerationStructure
       (tlas_desc (scene_transforms quad_cube_scene) (blases quad_cube_scene)
          (instance_descs quad_cube_scene))
       (tlas_of (sizes_of device0) (next_handle device0 + 2)
          (scene_transforms quad_cube_scene) (blases quad_cube_scene)
          (instance_descs quad_cube_scene))
       \<lparr>buf_label = ''tlas_scratch_buffer'',
        buf_data = Uninitialized (scratch_size (sizes_of device0
          (tlas_desc (scene_transforms quad_cube_scene) (blases quad_cube_scene)
             (instance_descs quad_cube_scene))))\<rparr>]"
  unfolding quad_cube_new_events
  by (simp_all add: prepare_events_def blas_events_def tlas_build_events_def nth_append)

theorem instance_write_order_witness:
  "Scene inverse_diagonal device0 quad_cube_stage = (Inr quad_cube_scene, quad_cube_device) \<and>
   Wait \<notin> set (new_events device0 quad_cube_device) \<and>
   submitted_builds (new_events device0 quad_cube_device) =
     [(handle (blases quad_cube_scene ! 0),
       blas_desc (vertex_buffer quad_cube_scene) (index_buffer quad_cube_scene)
         (mesh_descs quad_cube_scene ! 0)),
      (handle (blases quad_cube_scene ! 1),
       blas_desc (vertex_buffer quad_cube_scene) (index_buffer quad_cube_scene)
         (mesh_descs quad_cube_scene ! 1)),
      (handle (tlas quad_cube_scene),
       tlas_desc (scene_transforms quad_cube_scene) (blases quad_cube_scene)
         (instance_descs quad_cube_scene))] \<and>
   length (new_events device0 quad_cube_device) = 19 \<and>
   (\<exists>r. new_events device0 quad_cube_device ! 14 = WriteInstance 0 r \<and>
     (\<exists>q<14. \<exists>desc b scratch.
        new_events device0 quad_cube_device ! q =
          SubmitCommandBuffer [BuildAccelerationStructure desc b scratch] \<and>
        list_all is_triangles (inputs desc) \<and>
        handle b = acceleration_structure r)) \<and>
   (\<exists>desc b scratch.
      new_events device0 quad_cube_device ! 18 =
        SubmitCommandBuffer [BuildAccelerationStructure desc b scratch] \<and>
      list_ex is_instances (inputs desc)) \<and>
   isl (fst (Scene inverse_diagonal device0 bad_mesh_stage)) \<and>
   map fst (submitted_builds
     (new_events device0 (snd (Scene inverse_diagonal device0 bad_mesh_stage)))) = [0]"
proof -
  let ?E = "new_events device0 quad_cube_device"
  let ?r = "projr (tlas_instance_record (scene_transforms quad_cube_scene)
               (blases quad_cube_scene) 0 (instance_descs quad_cube_scene ! 0))"
  note T = blas_builds_submitted_before_instance_writes[OF quad_cube_built]
  have len: "14 < length ?E" by (simp add: quad_cube_tlas_submit(1))
  have at: "?E ! 14 = WriteInstance 0 ?r"
    unfolding quad_cube_new_events
    by (simp add: prepare_events_def blas_events_def nth_append)
  have u: "[0..<length (meshes quad_cube_stage)] = [0, 1]"
    by (simp add: quad_cube_stage_eq upt_rec)
  from T have w: "Wait \<notin> set ?E" by blast
  from T have b: "submitted_builds ?E =
     [(handle (blases quad_cube_scene ! 0),
       blas_desc (vertex_buffer quad_cube_scene) (index_buffer quad_cube_scene)
         (mesh_descs quad_cube_scene ! 0)),
      (handle (blases quad_cube_scene ! 1),
       blas_desc (vertex_buffer quad_cube_scene) (index_buffer quad_cube_scene)
         (mesh_descs quad_cube_scene ! 1)),
      (handle (tlas quad_cube_scene),
       tlas_desc (scene_transforms quad_cube_scene) (blases quad_cube_scene)
         (instance_descs quad_cube_scene))]"
    unfolding u by simp
  from T have o: "\<exists>q<14. \<exists>desc b scratch.
        ?E ! q = SubmitCommandBuffer [BuildAccelerationStructure desc b scratch] \<and>
        list_all is_triangles (inputs desc) \<and>
        handle b = acceleration_structure ?r"
    using len at by blast
  have t: "\<exists>desc b scratch.
      ?E ! 18 = SubmitCommandBuffer [BuildAccelerationStructure desc b scratch] \<and>
      list_ex is_instances (inputs desc)"
    unfolding quad_cube_tlas_submit(2) by (simp add: tlas_desc_def)
  have s: "Scene inverse_diagonal device0 bad_mesh_stage =
             (fst (Scene inverse_diagonal device0 bad_mesh_stage),
              snd (Scene inverse_diagonal device0 bad_mesh_stage))" by simp
  from blas_builds_submitted_before_instance_writes[OF s] bad_mesh_scene_fails
  have f: "map fst (submitted_builds
     (new_events device0 (snd (Scene inverse_diagonal device0 bad_mesh_stage)))) = [0]"
    by (simp add: bad_mesh_stage_eq device0_def)
  show ?thesis
    using quad_cube_built w b quad_cube_tlas_submit(1) at o t bad_mesh_scene_fails(1) f
    by blast
qed

text \<open>
  Claim C9 as stated has every build awaited with a blocking wait. Building the quad and
  cube scene submits three builds (two bottom-level, one top-level) and the program never
  waits on the device.
\<close>

theorem scene_builds_are_not_awaited:
  "\<not> isl (fst (Scene inverse_diagonal device0 quad_cube_stage)) \<and>
   length (submitted_builds (new_events device0 quad_cube_device)) = 3 \<and>
   Wait \<notin> set (new_events device0 quad_cube_device)"
proof -
  have "length (submitted_builds (new_events device0 quad_cube_device)) = 3"
    unfolding quad_cube_new_events
    by (simp add: submitted_builds_append submitted_builds_prepare submitted_builds_blas_events
      submitted_builds_writes submitted_builds_tlas_events submitted_builds_Cons
      submitted_builds_Nil)
  moreover have "Wait \<notin> set (new_events device0 quad_cube_device)"
    unfolding quad_cube_new_events
    by (auto simp: prepare_events_def blas_events_def tlas_build_events_def)
  ultimately show ?thesis by (simp add: quad_cube_built)
qed

section \<open>Properties of the frame loop\<close>

subsection \<open>The trace pass and the camera\<close>

lemma recompute_Inr:
  "height c \<noteq> 0 \<Longrightarrow> \<exists>c'. recompute c = Inr c' \<and>
     width c' = width c \<and> height c' = height c \<and> position c' = position c \<and>
     target c' = target c \<and> fov c' = fov c \<and>
     aspect_ratio c' = real (width c) / real (height c) \<and>
     fwd c' = normalize3 (sub3 (target c) (position c)) \<and>
     right c' = normalize3 (cross (fwd c') (up c)) \<and>
     up c' = normalize3 (cross (right c') (fwd c')) \<and>
     image_u c' = scale3 (scale3 (right c') (tan (radians (fov c) * 0.5))) (aspect_ratio c') \<and>
     image_v c' = scale3 (up c') (tan (radians (fov c) * 0.5)) \<and>
     image_w c' = fwd c'"
  by (simp add: recompute_def Let_def)

lemma recompute_Inl: "recompute c = Inl e \<Longrightarrow> height c = 0"
  by (simp add: recompute_def Let_def split: if_splits)

lemma recompute_Inr_height: "recompute c = Inr c' \<Longrightarrow> height c \<noteq> 0 \<and> height c' = height c \<and> width c' = width c"
  by (auto simp: recompute_def Let_def split: if_splits)

text \<open>
  Claim C10. A call of \<open>PathTracer.execute\<close> with an output texture of width \<open>w\<close> and
  height \<open>h\<close> (a texture has a height other than 0) writes the camera of the scene: its
  width becomes \<open>w\<close>, its height \<open>h\<close>, and \<open>recompute\<close> sets the aspect ratio to \<open>w / h\<close>
  and the basis vectors \<open>fwd\<close>, \<open>right\<close>, \<open>up\<close>, \<open>image_u\<close>, \<open>image_v\<close>, \<open>image_w\<close>
  anew. The trace dispatch that the call records is bound to the camera so rewritten, and
  the scene the call leaves behind holds it.
\<close>

theorem trace_pass_rewrites_camera:
  assumes "tex_height output \<noteq> 0"
  shows "\<exists>cam.
     recompute ((scene_camera sc)\<lparr>width := tex_width output, height := tex_height output\<rparr>) =
       Inr cam \<and>
     PathTracer_execute enc output n sc =
       Inr (enc @ [DispatchRays
                     \<lparr>g_output = output, g_frame = n,
                      g_scene = Scene_bind (sc\<lparr>scene_camera := cam\<rparr>)\<rparr>
                     (tex_width output, tex_height output, 1)],
            sc\<lparr>scene_camera := cam\<rparr>) \<and>
     b_camera (Scene_bind (sc\<lparr>scene_camera := cam\<rparr>)) = Camera_bind cam \<and>
     width cam = tex_width output \<and> height cam = tex_height output \<and>
     aspect_ratio cam = real (tex_width output) / real (tex_height output) \<and>
     fwd cam = normalize3 (sub3 (target (scene_camera sc)) (position (scene_camera sc))) \<and>
     right cam = normalize3 (cross (fwd cam) (up (scene_camera sc))) \<and>
     up cam = normalize3 (cross (right cam) (fwd cam)) \<and>
     image_u cam =
       scale3 (scale3 (right cam) (tan (radians (fov (scene_camera sc)) * 0.5)))
         (aspect_ratio cam) \<and>
     image_v cam = scale3 (up cam) (tan (radians (fov (scene_camera sc)) * 0.5)) \<and>
     image_w cam = fwd cam"
proof -
  let ?c = "(scene_camera sc)\<lparr>width := tex_width output, height := tex_height output\<rparr>"
  have "height ?c \<noteq> 0" using assms by simp
  from recompute_Inr[OF this] obtain cam where c: "recompute ?c = Inr cam"
    and f: "width cam = width ?c" "height cam = height ?c"
     "aspect_ratio cam = real (width ?c) / real (height ?c)"
     "fwd cam = normalize3 (sub3 (target ?c) (position ?c))"
     "right cam = normalize3 (cross (fwd cam) (up ?c))"
     "up cam = normalize3 (cross (right cam) (fwd cam))"
     "image_u cam = scale3 (scale3 (right cam) (tan (radians (fov ?c) * 0.5))) (aspect_ratio cam)"
     "image_v cam = scale3 (up cam) (tan (radians (fov ?c) * 0.5))"
     "image_w cam = fwd cam"
    by blast
  have "PathTracer_execute enc output n sc =
       Inr (enc @ [DispatchRays
                     \<lparr>g_output = output, g_frame = n,
                      g_scene = Scene_bind (sc\<lparr>scene_camera := cam\<rparr>)\<rparr>
                     (tex_width output, tex_height output, 1)],
            sc\<lparr>scene_camera := cam\<rparr>)"
    using c by (simp add: PathTracer_execute_def Let_def USE_RAYTRACING_PIPELINE_def)
  moreover have "b_camera (Scene_bind (sc\<lparr>scene_camera := cam\<rparr>)) = Camera_bind cam"
    by (simp add: Scene_bind_def)
  ultimately show ?thesis using c f by (intro exI[of _ cam]) simp
qed

lemma Camera_eq: "recompute Camera_fields = Inr Camera" "width Camera = 100" "height Camera = 100"
proof -
  have h: "height Camera_fields \<noteq> 0" by (simp add: Camera_fields_def)
  from recompute_Inr[OF h] obtain c where c: "recompute Camera_fields = Inr c"
    "width c = width Camera_fields" "height c = height Camera_fields" by blast
  show "recompute Camera_fields = Inr Camera" using c(1) by (simp add: Camera_def)
  show "width Camera = 100" using c by (simp add: Camera_def Camera_fields_def)
  show "height Camera = 100" using c by (simp add: Camera_def Camera_fields_def)
qed

theorem trace_pass_rewrites_camera_witness:
  "tex_height \<lparr>tex_label = ''render_texture'', tex_width = 200, tex_height = 100\<rparr> \<noteq> 0 \<and>
   width (scene_camera quad_cube_scene) = 100 \<and>
   (\<exists>cam cmds.
      PathTracer_execute []
        \<lparr>tex_label = ''render_texture'', tex_width = 200, tex_height = 100\<rparr> 0 quad_cube_scene =
        Inr (cmds, quad_cube_scene\<lparr>scene_camera := cam\<rparr>) \<and>
      width cam = 200 \<and> aspect_ratio cam = 2 \<and>
      scene_camera (quad_cube_scene\<lparr>scene_camera := cam\<rparr>) \<noteq> scene_camera quad_cube_scene)"
proof -
  let ?t = "\<lparr>tex_label = ''render_texture'', tex_width = 200, tex_height = 100\<rparr>"
  have h: "tex_height ?t \<noteq> 0" by simp
  have w: "width (scene_camera quad_cube_scene) = 100"
    by (simp add: Scene_Inr(6)[OF quad_cube_built] quad_cube_stage_eq Camera_eq)
  from trace_pass_rewrites_camera[OF h, of quad_cube_scene "[]" 0]
  obtain cam where
    "PathTracer_execute [] ?t 0 quad_cube_scene =
       Inr ([] @ [DispatchRays
                     \<lparr>g_output = ?t, g_frame = 0,
                      g_scene = Scene_bind (quad_cube_scene\<lparr>scene_camera := cam\<rparr>)\<rparr>
                     (tex_width ?t, tex_height ?t, 1)],
            quad_cube_scene\<lparr>scene_camera := cam\<rparr>)"
    "width cam = tex_width ?t" "aspect_ratio cam = real (tex_width ?t) / real (tex_height ?t)"
    by blast
  then show ?thesis using h w by (intro conjI exI[of _ cam]) auto
qed

subsection \<open>One iteration of the loop\<close>

lemma obs_append:
  "submitted_commands (a @ b) = submitted_commands a @ submitted_commands b"
  "accumulate_resets (a @ b) = accumulate_resets a @ accumulate_resets b"
  "trace_frames (a @ b) = trace_frames a @ trace_frames b"
  "texture_creations (a @ b) = texture_creations a @ texture_creations b"
  by (simp_all add: submitted_commands_def accumulate_resets_def trace_frames_def
      texture_creations_def)

lemma obs_Nil:
  "accumulate_resets [] = []" "trace_frames [] = []" "texture_creations [] = []"
  by (simp_all add: submitted_commands_def accumulate_resets_def trace_frames_def
      texture_creations_def)

lemma quiet_append: "quiet a \<Longrightarrow> quiet b \<Longrightarrow> quiet (a @ b)"
  by (simp add: quiet_def obs_append)

lemma callback_facts:
  "\<exists>evs. trace (app_device (App_on_keyboard_event kev a)) = trace (app_device a) @ evs \<and> quiet evs"
  "\<exists>evs. trace (app_device (App_on_mouse_event mev a)) = trace (app_device a) @ evs \<and> quiet evs"
  "\<exists>evs. trace (app_device (on_resize w h a)) = trace (app_device a) @ evs \<and> quiet evs"
  by (auto simp: App_on_keyboard_event_def App_on_mouse_event_def on_resize_def Let_def emit_def
      wait_def quiet_def submitted_commands_def accumulate_resets_def trace_frames_def
      texture_creations_def split: option.splits)

lemma callback_fields:
  "frame (App_on_keyboard_event kev a) = frame a"
  "render_texture (App_on_keyboard_event kev a) = render_texture a"
  "accum_texture (App_on_keyboard_event kev a) = accum_texture a"
  "output_texture (App_on_keyboard_event kev a) = output_texture a"
  "accumulator (App_on_keyboard_event kev a) = accumulator a"
  "app_scene (App_on_keyboard_event kev a) = app_scene a"
  "frame (App_on_mouse_event mev a) = frame a"
  "render_texture (App_on_mouse_event mev a) = render_texture a"
  "accum_texture (App_on_mouse_event mev a) = accum_texture a"
  "output_texture (App_on_mouse_event mev a) = output_texture a"
  "accumulator (App_on_mouse_event mev a) = accumulator a"
  "app_scene (App_on_mouse_event mev a) = app_scene a"
  "frame (on_resize w h a) = frame a"
  "render_texture (on_resize w h a) = render_texture a"
  "accum_texture (on_resize w h a) = accum_texture a"
  "output_texture (on_resize w h a) = output_texture a"
  "accumulator (on_resize w h a) = accumulator a"
  "app_scene (on_resize w h a) = app_scene a"
  by (simp_all add: App_on_keyboard_event_def App_on_mouse_event_def on_resize_def Let_def
      split: option.splits)

lemma process_events_fields:
  "frame (process_events evs a) = frame a \<and>
   render_texture (process_events evs a) = render_texture a \<and>
   accum_texture (process_events evs a) = accum_texture a \<and>
   output_texture (process_events evs a) = output_texture a \<and>
   accumulator (process_events evs a) = accumulator a \<and>
   app_scene (process_events evs a) = app_scene a"
  by (induction evs a rule: process_events.induct) (simp_all add: callback_fields)

lemma process_events_trace:
  "\<exists>pe. trace (app_device (process_events evs a)) = trace (app_device a) @ pe \<and> quiet pe"
proof (induction evs a rule: process_events.induct)
  case (1 a)
  show ?case by (simp add: quiet_def obs_Nil)
next
  case (2 ev evs a)
  from callback_facts(1)[of ev a] "2.IH" show ?case
    by (auto intro: quiet_append)
next
  case (3 ev evs a)
  from callback_facts(2)[of ev a] "3.IH" show ?case
    by (auto intro: quiet_append)
next
  case (4 w h evs a)
  from callback_facts(3)[of w h a] "4.IH" show ?case
    by (auto intro: quiet_append)
qed

lemma update_changed:
  "update t ctl cam = Inr (ch, ctl', cam') \<Longrightarrow>
     ch = (length3 (move_delta ctl) > 0 \<or> length2 (rotate_delta ctl) > 0)"
  by (auto simp: update_def Let_def split: if_splits sum.splits)

lemma PathTracer_execute_Inr:
  assumes "PathTracer_execute enc output n sc = Inr (enc', sc')"
  shows "tex_height output \<noteq> 0"
    and "\<exists>b. enc' = enc @ [DispatchRays b (tex_width output, tex_height output, 1)] \<and> g_frame b = n"
  using assms
  by (auto simp: PathTracer_execute_def Let_def USE_RAYTRACING_PIPELINE_def recompute_def
      split: sum.splits if_splits)

lemma Accumulator_execute_facts:
  assumes "Accumulator_execute enc inp outp reset acc dev = (enc', acc', dev')"
  shows "\<exists>b d evs. enc' = enc @ [DispatchAccumulator b d] \<and> acc_reset b = reset \<and>
           trace dev' = trace dev @ evs \<and> submitted_commands evs = [] \<and>
           frame_texture_creations evs = [] \<and>
           (\<exists>t. acc' = Some t \<and> tex_width t = tex_width inp \<and> tex_height t = tex_height inp)"
  using assms
  by (auto simp: Accumulator_execute_def Let_def create_texture_def emit_def
      submitted_commands_def frame_texture_creations_def texture_creations_def
      split: option.splits if_splits prod.splits)

lemma render_frame_Inr:
  assumes "render_frame st a = Inr a'"
  shows "\<exists>evs. trace (app_device a') = trace (app_device a) @ evs \<and>
           accumulate_resets evs = [frame a = 0] \<and>
           trace_frames evs = [frame a] \<and>
           frame_texture_creations evs = []"
    and "frame a' = frame a + 1"
    and "render_texture a' = render_texture a \<and> accum_texture a' = accum_texture a \<and>
         output_texture a' = output_texture a"
    and "surface_config a' = surface_config a \<and> controller a' = controller a \<and>
         should_close a' = should_close a"
proof -
  from assms obtain render accum outp enc1 sc where
    r: "render_texture a = Some render" and ac: "accum_texture a = Some accum" and
    o: "output_texture a = Some outp" and
    p: "PathTracer_execute [] render (frame a) (app_scene a) = Inr (enc1, sc)"
    by (auto simp: render_frame_def Let_def split: option.splits sum.splits prod.splits)
  obtain enc2 acc dev1 where
    e: "Accumulator_execute enc1 render accum (frame a = 0) (accumulator a) (app_device a) =
          (enc2, acc, dev1)"
    by (cases "Accumulator_execute enc1 render accum (frame a = 0) (accumulator a) (app_device a)")
  from assms r ac o p e have a': "a' = a\<lparr>app_scene := sc, accumulator := acc,
      app_device := emit Present (submit_command_buffer
        (ToneMapper_execute enc2 accum outp @ [Blit st outp]) dev1),
      frame := frame a + 1\<rparr>"
    by (simp add: render_frame_def Let_def)
  from PathTracer_execute_Inr(2)[OF p] obtain tb where
    enc1: "enc1 = [DispatchRays tb (tex_width render, tex_height render, 1)]" "g_frame tb = frame a"
    by auto
  from Accumulator_execute_facts[OF e] obtain b d evs where
    enc2: "enc2 = enc1 @ [DispatchAccumulator b d]" "acc_reset b = (frame a = 0)" and
    t1: "trace dev1 = trace (app_device a) @ evs" and
    q: "submitted_commands evs = []" "frame_texture_creations evs = []"
    by (elim exE conjE)
  let ?cmds = "ToneMapper_execute enc2 accum outp @ [Blit st outp]"
  let ?evs = "evs @ [SubmitCommandBuffer ?cmds, Present]"
  have tr: "trace (app_device a') = trace (app_device a) @ ?evs"
    by (simp add: a' emit_def submit_command_buffer_def t1)
  have sc: "submitted_commands ?evs = ?cmds"
    by (simp add: obs_append q) (simp add: submitted_commands_def)
  have "accumulate_resets ?evs = [frame a = 0]"
    unfolding accumulate_resets_def sc
    by (simp add: ToneMapper_execute_def enc2 enc1)
  moreover have "trace_frames ?evs = [frame a]"
    unfolding trace_frames_def sc
    by (simp add: ToneMapper_execute_def enc2 enc1)
  moreover have "frame_texture_creations ?evs = []"
    using q(2) by (simp add: frame_texture_creations_def texture_creations_def)
  ultimately show "\<exists>evs. trace (app_device a') = trace (app_device a) @ evs \<and>
           accumulate_resets evs = [frame a = 0] \<and>
           trace_frames evs = [frame a] \<and>
           frame_texture_creations evs = []"
    using tr by blast
  show "frame a' = frame a + 1" by (simp add: a')
  show "render_texture a' = render_texture a \<and> accum_texture a' = accum_texture a \<and>
         output_texture a' = output_texture a" by (simp add: a')
  show "surface_config a' = surface_config a \<and> controller a' = controller a \<and>
         should_close a' = should_close a" by (simp add: a')
qed

lemma PathTracer_execute_succeeds:
  "tex_height output \<noteq> 0 \<Longrightarrow> \<exists>enc' sc'. PathTracer_execute enc output n sc = Inr (enc', sc')"
  by (simp add: PathTracer_execute_def Let_def USE_RAYTRACING_PIPELINE_def recompute_def)

lemma render_frame_succeeds:
  assumes "render_texture a = Some render" "accum_texture a = Some accum"
    "output_texture a = Some output" "tex_height render \<noteq> 0"
  shows "\<exists>a'. render_frame st a = Inr a'"
proof -
  from PathTracer_execute_succeeds[OF assms(4)] obtain enc1 sc where
    "PathTracer_execute [] render (frame a) (app_scene a) = Inr (enc1, sc)" by blast
  then show ?thesis using assms(1-3)
    by (simp add: render_frame_def Let_def split: prod.splits)
qed

lemma create_frame_textures_facts:
  "trace (app_device (create_frame_textures w h a)) =
     trace (app_device a) @
       [CreateTexture ''output_texture'' w h, CreateTexture ''render_texture'' w h,
        CreateTexture ''accum_texture'' w h]"
  "output_texture (create_frame_textures w h a) =
     Some \<lparr>tex_label = ''output_texture'', tex_width = w, tex_height = h\<rparr>"
  "render_texture (create_frame_textures w h a) =
     Some \<lparr>tex_label = ''render_texture'', tex_width = w, tex_height = h\<rparr>"
  "accum_texture (create_frame_textures w h a) =
     Some \<lparr>tex_label = ''accum_texture'', tex_width = w, tex_height = h\<rparr>"
  "frame (create_frame_textures w h a) = frame a"
  "surface_config (create_frame_textures w h a) = surface_config a"
  "controller (create_frame_textures w h a) = controller a"
  "should_close (create_frame_textures w h a) = should_close a"
  "accumulator (create_frame_textures w h a) = accumulator a"
  "app_scene (create_frame_textures w h a) = app_scene a"
  by (simp_all add: create_frame_textures_def create_texture_def emit_def Let_def)

lemma frame_texture_creations_append:
  "frame_texture_creations (a @ b) = frame_texture_creations a @ frame_texture_creations b"
  by (simp add: frame_texture_creations_def obs_append)

lemma quiet_frame_texture_creations: "quiet evs \<Longrightarrow> frame_texture_creations evs = []"
  by (simp add: quiet_def frame_texture_creations_def)

lemma main_loop_body_unfold:
  assumes u: "update (dt inp) (controller (process_events (events inp) a))
                (scene_camera (app_scene (process_events (events inp) a))) = Inr (ch, ctl, cam)"
    and a3: "a3 = (if ch
                   then (process_events (events inp) a)
                          \<lparr>controller := ctl,
                           app_scene := (app_scene (process_events (events inp) a))
                                          \<lparr>scene_camera := cam\<rparr>,
                           frame := 0\<rparr>
                   else (process_events (events inp) a)
                          \<lparr>controller := ctl,
                           app_scene := (app_scene (process_events (events inp) a))
                                          \<lparr>scene_camera := cam\<rparr>\<rparr>)"
    and a4: "a4 = a3\<lparr>app_device := emit AcquireNextImage (app_device a3)\<rparr>"
  shows "main_loop_body inp a =
     (if surface_config (process_events (events inp) a) = None then Inr a3
      else case acquired inp of
             None \<Rightarrow> Inr a4
           | Some (w, h) \<Rightarrow>
               render_frame \<lparr>tex_label = ''surface_texture'', tex_width = w, tex_height = h\<rparr>
                 (if frame_textures_stale a w h then create_frame_textures w h a4 else a4))"
proof -
  have o: "output_texture a4 = output_texture a"
    using process_events_fields[of "events inp" a] by (cases ch) (simp_all add: a3 a4)
  have s: "surface_config a3 = surface_config (process_events (events inp) a)"
    by (cases ch) (simp_all add: a3)
  show ?thesis
    unfolding main_loop_body_def u Let_def
    by (cases ch)
       (auto simp: a3 a4 frame_textures_stale_def
          process_events_fields[of "events inp" a] split: option.splits)
qed

lemma main_loop_body_Inr:
  assumes m: "main_loop_body inp a = Inr a'"
  shows "\<exists>evs.
     trace (app_device a') = trace (app_device a) @ evs \<and>
     accumulate_resets evs =
       (if renders inp a then [camera_changed inp a \<or> frame a = 0] else []) \<and>
     trace_frames evs =
       (if renders inp a then [if camera_changed inp a then 0 else frame a] else []) \<and>
     frame_texture_creations evs =
       (case acquired inp of
          None \<Rightarrow> []
        | Some (w, h) \<Rightarrow>
            if renders inp a \<and> frame_textures_stale a w h then frame_textures w h else [])"
    and "frame a' =
           (if camera_changed inp a then 0 else frame a) + (if renders inp a then 1 else 0)"
    and "renders inp a \<Longrightarrow> acquired inp = Some (w, h) \<Longrightarrow> frame_textures_stale a w h \<Longrightarrow>
           output_texture a' =
             Some \<lparr>tex_label = ''output_texture'', tex_width = w, tex_height = h\<rparr> \<and>
           render_texture a' =
             Some \<lparr>tex_label = ''render_texture'', tex_width = w, tex_height = h\<rparr> \<and>
           accum_texture a' =
             Some \<lparr>tex_label = ''accum_texture'', tex_width = w, tex_height = h\<rparr>"
    and "\<not> (renders inp a \<and> (\<exists>w h. acquired inp = Some (w, h) \<and> frame_textures_stale a w h)) \<Longrightarrow>
           output_texture a' = output_texture a \<and> render_texture a' = render_texture a \<and>
           accum_texture a' = accum_texture a"
    and "surface_config a' = surface_config (process_events (events inp) a) \<and>
         should_close a' = should_close (process_events (events inp) a)"
    and "\<not> camera_changed inp a \<Longrightarrow>
           controller a' = controller (process_events (events inp) a)"
proof -
  let ?a1 = "process_events (events inp) a"
  note F = process_events_fields[of "events inp" a]
  from process_events_trace[of "events inp" a] obtain pe where
    pe: "trace (app_device ?a1) = trace (app_device a) @ pe" and qpe: "quiet pe" by blast
  from m obtain ch ctl cam where
    u: "update (dt inp) (controller ?a1) (scene_camera (app_scene ?a1)) = Inr (ch, ctl, cam)"
    by (auto simp: main_loop_body_def Let_def split: sum.splits)
  have ch: "ch = camera_changed inp a"
    using update_changed[OF u] by (simp add: camera_changed_def Let_def)
  have ctl: "\<not> ch \<Longrightarrow> ctl = controller ?a1"
    using u by (auto simp: update_def Let_def split: if_splits sum.splits)
  let ?a2 = "?a1\<lparr>controller := ctl, app_scene := (app_scene ?a1)\<lparr>scene_camera := cam\<rparr>\<rparr>"
  let ?a3 = "if ch then ?a2\<lparr>frame := 0\<rparr> else ?a2"
  let ?f3 = "if camera_changed inp a then 0 else frame a"
  have f3: "frame ?a3 = ?f3" using F by (simp add: ch)
  have t3: "trace (app_device ?a3) = trace (app_device a) @ pe" using pe by simp
  have x3: "output_texture ?a3 = output_texture a" "render_texture ?a3 = render_texture a"
    "accum_texture ?a3 = accum_texture a" "surface_config ?a3 = surface_config ?a1"
    "should_close ?a3 = should_close ?a1" "controller ?a3 = ctl"
    using F by simp_all
  have goal: "(\<exists>evs.
     trace (app_device a') = trace (app_device a) @ evs \<and>
     accumulate_resets evs =
       (if renders inp a then [camera_changed inp a \<or> frame a = 0] else []) \<and>
     trace_frames evs =
       (if renders inp a then [if camera_changed inp a then 0 else frame a] else []) \<and>
     frame_texture_creations evs =
       (case acquired inp of
          None \<Rightarrow> []
        | Some (w, h) \<Rightarrow>
            if renders inp a \<and> frame_textures_stale a w h then frame_textures w h else [])) \<and>
     frame a' = ?f3 + (if renders inp a then 1 else 0) \<and>
     (\<forall>w h. renders inp a \<longrightarrow> acquired inp = Some (w, h) \<longrightarrow> frame_textures_stale a w h \<longrightarrow>
           output_texture a' =
             Some \<lparr>tex_label = ''output_texture'', tex_width = w, tex_height = h\<rparr> \<and>
           render_texture a' =
             Some \<lparr>tex_label = ''render_texture'', tex_width = w, tex_height = h\<rparr> \<and>
           accum_texture a' =
             Some \<lparr>tex_label = ''accum_texture'', tex_width = w, tex_height = h\<rparr>) \<and>
     (\<not> (renders inp a \<and> (\<exists>w h. acquired inp = Some (w, h) \<and> frame_textures_stale a w h)) \<longrightarrow>
           output_texture a' = output_texture a \<and> render_texture a' = render_texture a \<and>
           accum_texture a' = accum_texture a) \<and>
     surface_config a' = surface_config ?a1 \<and> should_close a' = should_close ?a1 \<and>
     controller a' = ctl"
  proof (cases "surface_config ?a1 = None")
    case True
    then have nr: "\<not> renders inp a" by (simp add: renders_def)
    from m True have a': "a' = ?a3"
      unfolding main_loop_body_unfold[OF u refl refl] by simp
    have "trace (app_device a') = trace (app_device a) @ pe" unfolding a' by (rule t3)
    moreover have "accumulate_resets pe = []" "trace_frames pe = []"
      "frame_texture_creations pe = []"
      using qpe by (simp_all add: quiet_def quiet_frame_texture_creations)
    ultimately show ?thesis
      using nr f3 x3 unfolding a' by (auto split: option.splits)
  next
    case False
    let ?a4 = "?a3\<lparr>app_device := emit AcquireNextImage (app_device ?a3)\<rparr>"
    have t4: "trace (app_device ?a4) = trace (app_device a) @ (pe @ [AcquireNextImage])"
      using t3 by (simp add: emit_def)
    have q4: "quiet (pe @ [AcquireNextImage])"
      using qpe by (simp add: quiet_def obs_append)
         (simp add: accumulate_resets_def trace_frames_def texture_creations_def
            submitted_commands_def)
    show ?thesis
    proof (cases "acquired inp")
      case None
      then have nr: "\<not> renders inp a" by (simp add: renders_def)
      from m False None have a': "a' = ?a4"
        unfolding main_loop_body_unfold[OF u refl refl] by simp
      have "trace (app_device a') = trace (app_device a) @ (pe @ [AcquireNextImage])"
        unfolding a' by (rule t4)
      moreover have "accumulate_resets (pe @ [AcquireNextImage]) = []"
        "trace_frames (pe @ [AcquireNextImage]) = []"
        "frame_texture_creations (pe @ [AcquireNextImage]) = []"
        using q4 by (simp_all add: quiet_def quiet_frame_texture_creations)
      ultimately show ?thesis
        using nr f3 x3 None unfolding a' by auto
    next
      case (Some wh)
      obtain w h where wh: "wh = (w, h)" by (cases wh)
      have r: "renders inp a" using False Some by (simp add: renders_def)
      let ?st = "\<lparr>tex_label = ''surface_texture'', tex_width = w, tex_height = h\<rparr>"
      have stale: "frame_textures_stale a w h =
          (case output_texture ?a4 of None \<Rightarrow> True
           | Some t \<Rightarrow> tex_width t \<noteq> w \<or> tex_height t \<noteq> h)"
        using F by (simp add: frame_textures_stale_def)
      let ?a5 = "if frame_textures_stale a w h then create_frame_textures w h ?a4 else ?a4"
      from m False Some wh have rf: "render_frame ?st ?a5 = Inr a'"
        unfolding main_loop_body_unfold[OF u refl refl] by simp
      define pre where "pre = pe @ [AcquireNextImage]"
      define cts where "cts = (if frame_textures_stale a w h then
          [CreateTexture ''output_texture'' w h, CreateTexture ''render_texture'' w h,
           CreateTexture ''accum_texture'' w h] else [])"
      have qpre: "accumulate_resets pre = []" "trace_frames pre = []"
        "frame_texture_creations pre = []"
        using q4 quiet_frame_texture_creations[OF q4] by (simp_all add: pre_def quiet_def)
      have t5: "trace (app_device ?a5) = trace (app_device a) @ pre @ cts"
        using t4 by (simp add: create_frame_textures_facts pre_def cts_def)
      have f5: "frame ?a5 = ?f3" using f3 by (simp add: create_frame_textures_facts)
      have ct: "accumulate_resets cts = []" "trace_frames cts = []"
        "frame_texture_creations cts = (if frame_textures_stale a w h then frame_textures w h else [])"
        by (auto simp: accumulate_resets_def trace_frames_def submitted_commands_def
            frame_texture_creations_def texture_creations_def frame_textures_def cts_def)
      note R = render_frame_Inr[OF rf]
      from R(1) obtain evs where
        e: "trace (app_device a') = trace (app_device ?a5) @ evs"
           "accumulate_resets evs = [frame ?a5 = 0]" "trace_frames evs = [frame ?a5]"
           "frame_texture_creations evs = []" by blast
      let ?all = "pre @ cts @ evs"
      have 1: "trace (app_device a') = trace (app_device a) @ ?all"
        unfolding e(1) t5 by simp
      have 2: "accumulate_resets ?all = [camera_changed inp a \<or> frame a = 0]"
        unfolding obs_append qpre ct e(2) f5 by simp
      have 3: "trace_frames ?all = [?f3]"
        unfolding obs_append qpre ct e(3) f5 by simp
      have 4: "frame_texture_creations ?all =
          (if frame_textures_stale a w h then frame_textures w h else [])"
        unfolding frame_texture_creations_append qpre ct e(4) by simp
      have 5: "frame a' = ?f3 + 1" using R(2) f5 by simp
      have 6: "frame_textures_stale a w h \<Longrightarrow>
           output_texture a' =
             Some \<lparr>tex_label = ''output_texture'', tex_width = w, tex_height = h\<rparr> \<and>
           render_texture a' =
             Some \<lparr>tex_label = ''render_texture'', tex_width = w, tex_height = h\<rparr> \<and>
           accum_texture a' =
             Some \<lparr>tex_label = ''accum_texture'', tex_width = w, tex_height = h\<rparr>"
        using R(3) by (simp add: create_frame_textures_facts)
      have 7: "\<not> frame_textures_stale a w h \<Longrightarrow>
           output_texture a' = output_texture a \<and> render_texture a' = render_texture a \<and>
           accum_texture a' = accum_texture a"
        using R(3) x3 by simp
      have 8: "surface_config a' = surface_config ?a1 \<and> should_close a' = should_close ?a1 \<and>
           controller a' = ctl"
        using R(4) x3 by (simp add: create_frame_textures_facts)
      show ?thesis
        using 1 2 3 4 5 6 7 8 r Some wh by (intro conjI exI[of _ ?all]) auto
    qed
  qed
  from goal show "\<exists>evs.
     trace (app_device a') = trace (app_device a) @ evs \<and>
     accumulate_resets evs =
       (if renders inp a then [camera_changed inp a \<or> frame a = 0] else []) \<and>
     trace_frames evs =
       (if renders inp a then [if camera_changed inp a then 0 else frame a] else []) \<and>
     frame_texture_creations evs =
       (case acquired inp of
          None \<Rightarrow> []
        | Some (w, h) \<Rightarrow>
            if renders inp a \<and> frame_textures_stale a w h then frame_textures w h else [])"
    by blast
  from goal show "frame a' =
           (if camera_changed inp a then 0 else frame a) + (if renders inp a then 1 else 0)"
    by blast
  from goal show "renders inp a \<Longrightarrow> acquired inp = Some (w, h) \<Longrightarrow> frame_textures_stale a w h \<Longrightarrow>
           output_texture a' =
             Some \<lparr>tex_label = ''output_texture'', tex_width = w, tex_height = h\<rparr> \<and>
           render_texture a' =
             Some \<lparr>tex_label = ''render_texture'', tex_width = w, tex_height = h\<rparr> \<and>
           accum_texture a' =
             Some \<lparr>tex_label = ''accum_texture'', tex_width = w, tex_height = h\<rparr>"
    by blast
  from goal show "\<not> (renders inp a \<and> (\<exists>w h. acquired inp = Some (w, h) \<and> frame_textures_stale a w h)) \<Longrightarrow>
           output_texture a' = output_texture a \<and> render_texture a' = render_texture a \<and>
           accum_texture a' = accum_texture a"
    by blast
  from goal show "surface_config a' = surface_config (process_events (events inp) a) \<and>
         should_close a' = should_close (process_events (events inp) a)"
    by blast
  from goal ctl ch show "\<not> camera_changed inp a \<Longrightarrow>
           controller a' = controller (process_events (events inp) a)"
    by blast
qed

lemma new_events_append: "trace d' = trace d @ evs \<Longrightarrow> new_events d d' = evs"
  by (simp add: new_events_def)

lemma update_succeeds:
  "height cam \<noteq> 0 \<Longrightarrow> \<exists>ch ctl' cam'. update t ctl cam = Inr (ch, ctl', cam')"
  by (auto simp: update_def Let_def recompute_def split: prod.splits)

lemma update_height:
  "update t ctl cam = Inr (ch, ctl', cam') \<Longrightarrow> height cam \<noteq> 0 \<Longrightarrow> height cam' \<noteq> 0"
  by (auto simp: update_def Let_def recompute_def split: if_splits prod.splits)

lemma main_loop_body_succeeds:
  assumes h: "height (scene_camera (app_scene a)) \<noteq> 0"
    and q: "case acquired inp of None \<Rightarrow> True
            | Some (w, h) \<Rightarrow> h \<noteq> 0 \<and> frame_textures_stale a w h"
  shows "\<exists>a'. main_loop_body inp a = Inr a'"
proof -
  let ?a1 = "process_events (events inp) a"
  have "height (scene_camera (app_scene ?a1)) \<noteq> 0"
    using h process_events_fields[of "events inp" a] by simp
  from update_succeeds[OF this] obtain ch ctl cam where
    u: "update (dt inp) (controller ?a1) (scene_camera (app_scene ?a1)) = Inr (ch, ctl, cam)"
    by blast
  show ?thesis
  proof (cases "acquired inp")
    case None
    then show ?thesis unfolding main_loop_body_unfold[OF u refl refl] by simp
  next
    case (Some wh)
    obtain w h where wh: "wh = (w, h)" by (cases wh)
    from q Some wh have h0: "h \<noteq> 0" and st: "frame_textures_stale a w h" by simp_all
    have "\<exists>a'. render_frame st0 (create_frame_textures w h a4) = Inr a'" for st0 a4
      by (rule render_frame_succeeds[where render="\<lparr>tex_label = ''render_texture'', tex_width = w, tex_height = h\<rparr>"])
         (simp_all add: create_frame_textures_facts h0)
    then show ?thesis
      unfolding main_loop_body_unfold[OF u refl refl] using Some wh st by simp
  qed
qed

lemma main_loop_body_succeeds_kept:
  assumes h: "height (scene_camera (app_scene a)) \<noteq> 0"
    and q: "acquired inp = Some (w, h')" "h' \<noteq> 0"
    and r: "render_texture a = Some render" "accum_texture a = Some accum"
      "output_texture a = Some outp" "tex_height render \<noteq> 0"
  shows "\<exists>a'. main_loop_body inp a = Inr a'"
proof -
  let ?a1 = "process_events (events inp) a"
  note F = process_events_fields[of "events inp" a]
  have "height (scene_camera (app_scene ?a1)) \<noteq> 0"
    using h F by simp
  from update_succeeds[OF this] obtain ch ctl cam where
    u: "update (dt inp) (controller ?a1) (scene_camera (app_scene ?a1)) = Inr (ch, ctl, cam)"
    by blast
  have new: "\<exists>a'. render_frame st0 (create_frame_textures w h' a4) = Inr a'" for st0 a4
    by (rule render_frame_succeeds[where render="\<lparr>tex_label = ''render_texture'', tex_width = w, tex_height = h'\<rparr>"])
       (simp_all add: create_frame_textures_facts q(2))
  have kept: "\<exists>a'. render_frame st0 a4 = Inr a'"
    if "render_texture a4 = render_texture a" "accum_texture a4 = accum_texture a"
       "output_texture a4 = output_texture a" for st0 a4
    by (rule render_frame_succeeds[of a4 render accum outp st0]) (simp_all add: that r)
  show ?thesis
    unfolding main_loop_body_unfold[OF u refl refl] using q(1) new
    by (cases ch) (auto intro!: kept simp: F)
qed

lemma render_frame_camera_height:
  "render_frame st a = Inr a' \<Longrightarrow> height (scene_camera (app_scene a')) \<noteq> 0"
  by (auto simp: render_frame_def Let_def PathTracer_execute_def recompute_def
      USE_RAYTRACING_PIPELINE_def split: option.splits sum.splits prod.splits if_splits)

lemma main_loop_body_camera_height:
  assumes m: "main_loop_body inp a = Inr a'" and h: "height (scene_camera (app_scene a)) \<noteq> 0"
  shows "height (scene_camera (app_scene a')) \<noteq> 0"
proof -
  let ?a1 = "process_events (events inp) a"
  have h1: "height (scene_camera (app_scene ?a1)) \<noteq> 0"
    using h process_events_fields[of "events inp" a] by simp
  from update_succeeds[OF h1] obtain ch ctl cam where
    u: "update (dt inp) (controller ?a1) (scene_camera (app_scene ?a1)) = Inr (ch, ctl, cam)"
    by blast
  from update_height[OF u h1] have hc: "height cam \<noteq> 0" .
  from m show ?thesis
    unfolding main_loop_body_unfold[OF u refl refl]
    using hc render_frame_camera_height
    by (cases ch) (auto split: if_splits option.splits)
qed

subsection \<open>A concrete run\<close>

lemma app0_facts:
  "App inverse_diagonal device0 quad_cube_stage = Inr app0"
  "frame app0 = 0" "output_texture app0 = None" "controller app0 = CameraController"
  "surface_config app0 = Some (1920, 1080)" "should_close app0 = False"
  "height (scene_camera (app_scene app0)) \<noteq> 0"
proof -
  obtain sc dev' where s: "Scene inverse_diagonal (emit (ConfigureSurface 1920 1080) device0)
      quad_cube_stage = (Inr sc, dev')"
    using quad_cube_succeeds by blast
  have "\<exists>a. App inverse_diagonal device0 quad_cube_stage = Inr a \<and> frame a = 0 \<and>
      output_texture a = None \<and> controller a = CameraController \<and>
      surface_config a = Some (1920, 1080) \<and> should_close a = False \<and> app_scene a = sc"
    by (simp add: App_def Let_def s)
  then obtain a where a: "App inverse_diagonal device0 quad_cube_stage = Inr a" "frame a = 0"
      "output_texture a = None" "controller a = CameraController"
      "surface_config a = Some (1920, 1080)" "should_close a = False" "app_scene a = sc"
    by blast
  have e: "app0 = a" by (simp add: app0_def a(1))
  show "App inverse_diagonal device0 quad_cube_stage = Inr app0" by (simp add: e a)
  show "frame app0 = 0" "output_texture app0 = None" "controller app0 = CameraController"
    "surface_config app0 = Some (1920, 1080)" "should_close app0 = False"
    by (simp_all add: e a)
  show "height (scene_camera (app_scene app0)) \<noteq> 0"
    by (simp add: e a Scene_Inr(6)[OF s] quad_cube_stage_eq Camera_eq)
qed

lemma no_deltas_unchanged:
  "move_delta (controller (process_events (events inp) a)) = Float3 0 0 0 \<Longrightarrow>
   rotate_delta (controller (process_events (events inp) a)) = Float2 0 0 \<Longrightarrow>
   \<not> camera_changed inp a"
  by (simp add: camera_changed_def Let_def length3_def length2_def)

lemma first_frame_facts:
  "main_loop_body first_frame app0 = Inr app1"
  "\<not> camera_changed first_frame app0" "renders first_frame app0"
  "frame_textures_stale app0 1920 1080"
proof -
  have "\<exists>a'. main_loop_body first_frame app0 = Inr a'"
    by (rule main_loop_body_succeeds)
       (simp_all add: app0_facts first_frame_def frame_textures_stale_def)
  then show "main_loop_body first_frame app0 = Inr app1" by (auto simp: app1_def)
  show "\<not> camera_changed first_frame app0"
    by (rule no_deltas_unchanged) (simp_all add: first_frame_def app0_facts CameraController_def)
  show "renders first_frame app0" by (simp add: renders_def first_frame_def app0_facts)
  show "frame_textures_stale app0 1920 1080"
    by (simp add: frame_textures_stale_def app0_facts)
qed

lemma app1_facts:
  "frame app1 = 1" "controller app1 = CameraController"
  "output_texture app1 = Some \<lparr>tex_label = ''output_texture'', tex_width = 1920, tex_height = 1080\<rparr>"
  "surface_config app1 = Some (1920, 1080)" "should_close app1 = False"
  "height (scene_camera (app_scene app1)) \<noteq> 0"
proof -
  note M = main_loop_body_Inr[OF first_frame_facts(1)]
  show "frame app1 = 1" using M(2) first_frame_facts(2,3) by (simp add: app0_facts)
  show "controller app1 = CameraController"
    using M(6)[OF first_frame_facts(2)] by (simp add: first_frame_def app0_facts)
  show "output_texture app1 = Some \<lparr>tex_label = ''output_texture'', tex_width = 1920, tex_height = 1080\<rparr>"
    using M(3)[OF first_frame_facts(3) _ first_frame_facts(4)] by (simp add: first_frame_def)
  show "surface_config app1 = Some (1920, 1080)" "should_close app1 = False"
    using M(5) by (simp_all add: first_frame_def app0_facts)
  show "height (scene_camera (app_scene app1)) \<noteq> 0"
    by (rule main_loop_body_camera_height[OF first_frame_facts(1) app0_facts(7)])
qed

lemma resized_frame_facts:
  "main_loop_body resized_frame app1 = Inr app2"
  "\<not> camera_changed resized_frame app1" "renders resized_frame app1"
  "frame_textures_stale app1 1280 720"
proof -
  have st: "frame_textures_stale app1 1280 720"
    by (simp add: frame_textures_stale_def app1_facts)
  have "\<exists>a'. main_loop_body resized_frame app1 = Inr a'"
    by (rule main_loop_body_succeeds) (simp_all add: app1_facts resized_frame_def st)
  then show "main_loop_body resized_frame app1 = Inr app2" by (auto simp: app2_def)
  show "\<not> camera_changed resized_frame app1"
    by (rule no_deltas_unchanged)
       (simp_all add: resized_frame_def app1_facts CameraController_def on_resize_def Let_def)
  show "renders resized_frame app1"
    by (simp add: renders_def resized_frame_def on_resize_def Let_def)
  show "frame_textures_stale app1 1280 720" by (rule st)
qed

lemma app2_facts:
  "frame app2 = 2" "controller app2 = CameraController"
  "output_texture app2 = Some \<lparr>tex_label = ''output_texture'', tex_width = 1280, tex_height = 720\<rparr>"
  "render_texture app2 = Some \<lparr>tex_label = ''render_texture'', tex_width = 1280, tex_height = 720\<rparr>"
  "accum_texture app2 = Some \<lparr>tex_label = ''accum_texture'', tex_width = 1280, tex_height = 720\<rparr>"
  "surface_config app2 = Some (1280, 720)" "should_close app2 = False"
  "height (scene_camera (app_scene app2)) \<noteq> 0"
proof -
  note M = main_loop_body_Inr[OF resized_frame_facts(1)]
  have a: "acquired resized_frame = Some (1280, 720)" by (simp add: resized_frame_def)
  note T = M(3)[OF resized_frame_facts(3) a resized_frame_facts(4)]
  show "frame app2 = 2" using M(2) resized_frame_facts(2,3) by (simp add: app1_facts)
  show "controller app2 = CameraController"
    using M(6)[OF resized_frame_facts(2)]
    by (simp add: resized_frame_def app1_facts on_resize_def Let_def)
  show "output_texture app2 = Some \<lparr>tex_label = ''output_texture'', tex_width = 1280, tex_height = 720\<rparr>"
    "render_texture app2 = Some \<lparr>tex_label = ''render_texture'', tex_width = 1280, tex_height = 720\<rparr>"
    "accum_texture app2 = Some \<lparr>tex_label = ''accum_texture'', tex_width = 1280, tex_height = 720\<rparr>"
    using T by simp_all
  show "surface_config app2 = Some (1280, 720)" "should_close app2 = False"
    using M(5) by (simp_all add: resized_frame_def on_resize_def Let_def app1_facts)
  show "height (scene_camera (app_scene app2)) \<noteq> 0"
    by (rule main_loop_body_camera_height[OF resized_frame_facts(1) app1_facts(6)])
qed

lemma render_frame_accumulator:
  assumes "render_frame st a = Inr a'" and "render_texture a = Some render"
  shows "\<exists>t. accumulator a' = Some t \<and> tex_width t = tex_width render \<and>
              tex_height t = tex_height render"
  using assms
  by (auto simp: render_frame_def Accumulator_execute_def Let_def create_texture_def
      split: option.splits sum.splits prod.splits if_splits)

lemma main_loop_body_accumulator:
  assumes m: "main_loop_body inp a = Inr a'" and r: "renders inp a"
    and q: "acquired inp = Some (w, h)" and st: "frame_textures_stale a w h"
  shows "\<exists>t. accumulator a' = Some t \<and> tex_width t = w \<and> tex_height t = h"
proof -
  let ?a1 = "process_events (events inp) a"
  from m obtain ch ctl cam where
    u: "update (dt inp) (controller ?a1) (scene_camera (app_scene ?a1)) = Inr (ch, ctl, cam)"
    by (auto simp: main_loop_body_def Let_def split: sum.splits)
  from r have c: "surface_config ?a1 \<noteq> None" by (simp add: renders_def)
  from m c q st obtain a4 where
    "render_frame \<lparr>tex_label = ''surface_texture'', tex_width = w, tex_height = h\<rparr>
       (create_frame_textures w h a4) = Inr a'"
    unfolding main_loop_body_unfold[OF u refl refl] by auto
  from render_frame_accumulator[OF this create_frame_textures_facts(3)]
  show ?thesis by simp
qed

subsection \<open>The frame counter and the reset flag\<close>

text \<open>
  Claim C6. In an iteration of the loop in which the controller applies a movement or
  rotation delta, the frame counter is set to 0 before the passes: when the iteration
  renders, its trace pass gets frame 0, its Accumulate pass gets \<open>reset = True\<close>, and the
  counter is 1 afterwards; when the iteration is cut short (no surface or no image), no
  pass is issued and the counter stays 0 for the next frame. In an iteration without a
  delta the counter never decreases: it grows by one when the iteration renders and is
  unchanged otherwise.
\<close>

theorem camera_change_resets_frame_counter:
  assumes "main_loop_body inp a = Inr a'"
  shows "(camera_changed inp a \<longrightarrow>
            trace_frames (new_events (app_device a) (app_device a')) =
              (if renders inp a then [0] else []) \<and>
            accumulate_resets (new_events (app_device a) (app_device a')) =
              (if renders inp a then [True] else []) \<and>
            frame a' = (if renders inp a then 1 else 0)) \<and>
         (\<not> camera_changed inp a \<longrightarrow>
            trace_frames (new_events (app_device a) (app_device a')) =
              (if renders inp a then [frame a] else []) \<and>
            frame a' = (if renders inp a then frame a + 1 else frame a) \<and>
            frame a \<le> frame a')"
proof -
  from main_loop_body_Inr(1)[OF assms] obtain evs where
    e: "trace (app_device a') = trace (app_device a) @ evs"
       "accumulate_resets evs =
          (if renders inp a then [camera_changed inp a \<or> frame a = 0] else [])"
       "trace_frames evs =
          (if renders inp a then [if camera_changed inp a then 0 else frame a] else [])"
    by blast
  note n = new_events_append[OF e(1)]
  show ?thesis
    unfolding n e(2,3) main_loop_body_Inr(2)[OF assms] by simp
qed

lemma moving_frame_facts:
  "\<exists>a'. main_loop_body moving_frame app1 = Inr a'"
  "camera_changed moving_frame app1" "renders moving_frame app1"
proof -
  note M = main_loop_body_Inr[OF first_frame_facts(1)]
  have f: "acquired first_frame = Some (1920, 1080)" by (simp add: first_frame_def)
  note T = M(3)[OF first_frame_facts(3) f first_frame_facts(4)]
  show "\<exists>a'. main_loop_body moving_frame app1 = Inr a'"
    by (rule main_loop_body_succeeds_kept[where w=1920 and h'=1080
          and render="\<lparr>tex_label = ''render_texture'', tex_width = 1920, tex_height = 1080\<rparr>"])
       (simp_all add: app1_facts(6) moving_frame_def T)
  show "camera_changed moving_frame app1"
    by (simp add: camera_changed_def moving_frame_def App_on_keyboard_event_def
        on_keyboard_event_def is_key_press_def is_key_release_def MOVE_KEYS_def
        app1_facts CameraController_def Let_def add3_def length3_def)
  show "renders moving_frame app1"
    by (simp add: renders_def moving_frame_def App_on_keyboard_event_def Let_def app1_facts)
qed

lemma resized_moving_frame_facts:
  "\<exists>a'. main_loop_body resized_moving_frame app2 = Inr a'"
  "camera_changed resized_moving_frame app2" "renders resized_moving_frame app2"
proof -
  show "\<exists>a'. main_loop_body resized_moving_frame app2 = Inr a'"
    by (rule main_loop_body_succeeds_kept[where w=1280 and h'=720
          and render="\<lparr>tex_label = ''render_texture'', tex_width = 1280, tex_height = 720\<rparr>"])
       (simp_all add: app2_facts resized_moving_frame_def)
  show "camera_changed resized_moving_frame app2"
    by (simp add: camera_changed_def resized_moving_frame_def App_on_keyboard_event_def
        on_keyboard_event_def is_key_press_def is_key_release_def MOVE_KEYS_def
        app2_facts CameraController_def Let_def add3_def length3_def)
  show "renders resized_moving_frame app2"
    by (simp add: renders_def resized_moving_frame_def App_on_keyboard_event_def Let_def
        app2_facts)
qed

lemma moving_frame_no_image_facts:
  "\<exists>a'. main_loop_body moving_frame_no_image app2 = Inr a'"
  "camera_changed moving_frame_no_image app2" "\<not> renders moving_frame_no_image app2"
proof -
  show "\<exists>a'. main_loop_body moving_frame_no_image app2 = Inr a'"
    by (rule main_loop_body_succeeds) (simp_all add: app2_facts moving_frame_no_image_def)
  show "camera_changed moving_frame_no_image app2"
    by (simp add: camera_changed_def moving_frame_no_image_def App_on_keyboard_event_def
        on_keyboard_event_def is_key_press_def is_key_release_def MOVE_KEYS_def
        app2_facts CameraController_def Let_def add3_def length3_def)
  show "\<not> renders moving_frame_no_image app2"
    by (simp add: renders_def moving_frame_no_image_def)
qed

theorem camera_change_witness:
  "frame app1 = 1 \<and>
   main_loop_body moving_frame app1 = Inr (projr (main_loop_body moving_frame app1)) \<and>
   camera_changed moving_frame app1 \<and>
   trace_frames (new_events (app_device app1)
     (app_device (projr (main_loop_body moving_frame app1)))) = [0] \<and>
   accumulate_resets (new_events (app_device app1)
     (app_device (projr (main_loop_body moving_frame app1)))) = [True] \<and>
   frame (projr (main_loop_body moving_frame app1)) = 1 \<and>
   frame app2 = 2 \<and>
   main_loop_body resized_moving_frame app2 =
     Inr (projr (main_loop_body resized_moving_frame app2)) \<and>
   camera_changed resized_moving_frame app2 \<and>
   trace_frames (new_events (app_device app2)
     (app_device (projr (main_loop_body resized_moving_frame app2)))) = [0] \<and>
   accumulate_resets (new_events (app_device app2)
     (app_device (projr (main_loop_body resized_moving_frame app2)))) = [True] \<and>
   frame (projr (main_loop_body resized_moving_frame app2)) = 1 \<and>
   main_loop_body moving_frame_no_image app2 =
     Inr (projr (main_loop_body moving_frame_no_image app2)) \<and>
   camera_changed moving_frame_no_image app2 \<and>
   \<not> renders moving_frame_no_image app2 \<and>
   trace_frames (new_events (app_device app2)
     (app_device (projr (main_loop_body moving_frame_no_image app2)))) = [] \<and>
   accumulate_resets (new_events (app_device app2)
     (app_device (projr (main_loop_body moving_frame_no_image app2)))) = [] \<and>
   frame (projr (main_loop_body moving_frame_no_image app2)) = 0 \<and>
   main_loop_body resized_frame app1 = Inr app2 \<and>
   \<not> camera_changed resized_frame app1 \<and>
   trace_frames (new_events (app_device app1) (app_device app2)) = [1] \<and>
   frame app2 = frame app1 + 1"
proof -
  from moving_frame_facts(1) have m:
    "main_loop_body moving_frame app1 = Inr (projr (main_loop_body moving_frame app1))"
    by auto
  from resized_moving_frame_facts(1) have m2:
    "main_loop_body resized_moving_frame app2 =
       Inr (projr (main_loop_body resized_moving_frame app2))"
    by auto
  from moving_frame_no_image_facts(1) have m3:
    "main_loop_body moving_frame_no_image app2 =
       Inr (projr (main_loop_body moving_frame_no_image app2))"
    by auto
  from camera_change_resets_frame_counter[OF m]
       camera_change_resets_frame_counter[OF m2]
       camera_change_resets_frame_counter[OF m3]
       camera_change_resets_frame_counter[OF resized_frame_facts(1)]
  show ?thesis
    using m m2 m3 moving_frame_facts(2,3) resized_moving_frame_facts(2,3)
      moving_frame_no_image_facts(2,3) resized_frame_facts(1,2,3) app1_facts(1) app2_facts(1)
    by simp
qed

text \<open>
  Claim C2, as amended. In every iteration that renders, with an acquired image of \<open>w\<close>
  by \<open>h\<close>: if there is no output texture yet or its size is not \<open>w\<close> by \<open>h\<close>, the three
  frame textures are created anew at \<open>w\<close> by \<open>h\<close>, and otherwise they are kept; and the
  \<open>reset\<close> flag passed to Accumulate is true exactly when the camera changed in this
  iteration or the frame counter was 0 when the iteration began. The size of the textures
  has no part in the flag.
\<close>

theorem resize_reallocates_and_reset_follows_counter:
  assumes "main_loop_body inp a = Inr a'" and "renders inp a" and "acquired inp = Some (w, h)"
  shows "frame_texture_creations (new_events (app_device a) (app_device a')) =
           (if frame_textures_stale a w h then frame_textures w h else []) \<and>
         (frame_textures_stale a w h \<longrightarrow>
            output_texture a' =
              Some \<lparr>tex_label = ''output_texture'', tex_width = w, tex_height = h\<rparr> \<and>
            render_texture a' =
              Some \<lparr>tex_label = ''render_texture'', tex_width = w, tex_height = h\<rparr> \<and>
            accum_texture a' =
              Some \<lparr>tex_label = ''accum_texture'', tex_width = w, tex_height = h\<rparr>) \<and>
         (\<not> frame_textures_stale a w h \<longrightarrow>
            output_texture a' = output_texture a \<and> render_texture a' = render_texture a \<and>
            accum_texture a' = accum_texture a) \<and>
         accumulate_resets (new_events (app_device a) (app_device a')) =
           [camera_changed inp a \<or> frame a = 0]"
proof -
  note M = main_loop_body_Inr[OF assms(1)]
  from M(1) obtain evs where
    e: "trace (app_device a') = trace (app_device a) @ evs"
       "accumulate_resets evs =
          (if renders inp a then [camera_changed inp a \<or> frame a = 0] else [])"
       "frame_texture_creations evs =
       (case acquired inp of
          None \<Rightarrow> []
        | Some (w, h) \<Rightarrow>
            if renders inp a \<and> frame_textures_stale a w h then frame_textures w h else [])"
    by blast
  note n = new_events_append[OF e(1)]
  have 1: "frame_texture_creations (new_events (app_device a) (app_device a')) =
           (if frame_textures_stale a w h then frame_textures w h else [])"
    unfolding n e(3) using assms(2,3) by simp
  have 2: "accumulate_resets (new_events (app_device a) (app_device a')) =
           [camera_changed inp a \<or> frame a = 0]"
    unfolding n e(2) using assms(2) by simp
  have 3: "\<not> frame_textures_stale a w h \<Longrightarrow>
            output_texture a' = output_texture a \<and> render_texture a' = render_texture a \<and>
            accum_texture a' = accum_texture a"
    using M(4) assms(3) by simp
  show ?thesis using 1 2 3 M(3)[OF assms(2,3)] by blast
qed

theorem resize_witness:
  "main_loop_body resized_frame app1 = Inr app2 \<and>
   renders resized_frame app1 \<and>
   acquired resized_frame = Some (1280, 720) \<and>
   frame_textures_stale app1 1280 720 \<and>
   frame_texture_creations (new_events (app_device app1) (app_device app2)) =
     frame_textures 1280 720 \<and>
   output_texture app2 =
     Some \<lparr>tex_label = ''output_texture'', tex_width = 1280, tex_height = 720\<rparr> \<and>
   accumulate_resets (new_events (app_device app1) (app_device app2)) =
     [camera_changed resized_frame app1 \<or> frame app1 = 0]"
proof -
  have a: "acquired resized_frame = Some (1280, 720)" by (simp add: resized_frame_def)
  from resize_reallocates_and_reset_follows_counter
         [OF resized_frame_facts(1) resized_frame_facts(3) a]
  show ?thesis using resized_frame_facts a by simp
qed

text \<open>
  Claim C2 as stated has a change of size force \<open>reset = True\<close>. Run two frames from
  start-up: the first at 1920 by 1080, the second after the window was resized to 1280 by
  720, with no key or mouse input at all. In the second frame the three textures are
  created anew at 1280 by 720, the accumulator's own texture still has the old size when
  the pass is called, and Accumulate gets \<open>reset = False\<close>.
\<close>

theorem resize_alone_does_not_reset:
  "main_loop [first_frame, resized_frame] app0 = Inr app2 \<and>
   \<not> camera_changed resized_frame app1 \<and>
   output_texture app1 =
     Some \<lparr>tex_label = ''output_texture'', tex_width = 1920, tex_height = 1080\<rparr> \<and>
   map_option tex_width (accumulator app1) = Some 1920 \<and>
   map_option tex_height (accumulator app1) = Some 1080 \<and>
   acquired resized_frame = Some (1280, 720) \<and>
   frame_texture_creations (new_events (app_device app1) (app_device app2)) =
     frame_textures 1280 720 \<and>
   accumulate_resets (new_events (app_device app1) (app_device app2)) = [False]"
proof -
  note M = main_loop_body_Inr[OF resized_frame_facts(1)]
  have f: "acquired first_frame = Some (1920, 1080)" by (simp add: first_frame_def)
  from main_loop_body_accumulator[OF first_frame_facts(1,3) f first_frame_facts(4)]
  have acc: "map_option tex_width (accumulator app1) = Some 1920"
    "map_option tex_height (accumulator app1) = Some 1080" by auto
  from M(1) obtain evs where
    e: "trace (app_device app2) = trace (app_device app1) @ evs"
       "accumulate_resets evs =
          (if renders resized_frame app1
           then [camera_changed resized_frame app1 \<or> frame app1 = 0] else [])"
       "frame_texture_creations evs =
       (case acquired resized_frame of
          None \<Rightarrow> []
        | Some (w, h) \<Rightarrow>
            if renders resized_frame app1 \<and> frame_textures_stale app1 w h
            then frame_textures w h else [])"
    by blast
  note n = new_events_append[OF e(1)]
  have a: "acquired resized_frame = Some (1280, 720)" by (simp add: resized_frame_def)
  have c2: "should_close app2 = False"
    using M(5) by (simp add: resized_frame_def on_resize_def Let_def app1_facts)
  have run: "main_loop [first_frame, resized_frame] app0 = Inr app2"
    by (simp add: app0_facts first_frame_facts(1) app1_facts resized_frame_facts(1) c2)
  have r: "accumulate_resets (new_events (app_device app1) (app_device app2)) = [False]"
    unfolding n e(2) using resized_frame_facts(2,3) by (simp add: app1_facts)
  have t: "frame_texture_creations (new_events (app_device app1) (app_device app2)) =
     frame_textures 1280 720"
    unfolding n e(3) using resized_frame_facts(3,4) by (simp add: a)
  show ?thesis using run resized_frame_facts(2) app1_facts(3) acc a t r by simp
qed

end
